theory Spec2Isabelle
  imports Complex_Main "HOL-Library.Sublist" "HOL-Library.Multiset"
begin

section \<open>JavaScript values\<close>

text \<open>
  A JavaScript number is a double: not-a-number, one of the two infinities, or a finite
  value, which is a rational. Comparisons of doubles are exact, so they are modelled on
  the rationals; the results of \<open>+\<close>, \<open>*\<close> and \<open>/\<close> are rounded, and the rounding
  \<open>rnd\<close> (from the exact result to the double that stands for it) is a parameter of
  every function that calculates. The model has one zero.
\<close>

datatype jsnum = NaN | NegInf | Fin rat | PosInf

text \<open>The values a parsed JSON payload is made of, and \<open>undefined\<close>.\<close>

datatype jsval =
    Undefined
  | Null
  | Bool bool
  | Num jsnum
  | Str string
  | Arr "jsval list"
  | Obj "(string \<times> jsval) list"

text \<open>
  What is thrown: the TypeError of the engine (on reading a property of \<open>null\<close> or
  \<open>undefined\<close>), or an error with its message.
\<close>

datatype error = TypeError | Error string

subsection \<open>Numbers\<close>

fun js_less :: "jsnum \<Rightarrow> jsnum \<Rightarrow> bool" where
  "js_less NaN _ = False"
| "js_less _ NaN = False"
| "js_less _ NegInf = False"
| "js_less NegInf _ = True"
| "js_less PosInf _ = False"
| "js_less (Fin x) (Fin y) = (x < y)"
| "js_less (Fin x) PosInf = True"

text \<open>\<open>===\<close> on two numbers: \<open>NaN\<close> differs from itself.\<close>

fun js_eq :: "jsnum \<Rightarrow> jsnum \<Rightarrow> bool" where
  "js_eq NaN _ = False"
| "js_eq _ NaN = False"
| "js_eq a b = (a = b)"

definition js_gt :: "jsnum \<Rightarrow> jsnum \<Rightarrow> bool" where
  "js_gt a b = js_less b a"

definition js_le :: "jsnum \<Rightarrow> jsnum \<Rightarrow> bool" where
  "js_le a b = (js_less a b \<or> js_eq a b)"

fun js_abs :: "jsnum \<Rightarrow> jsnum" where
  "js_abs NaN = NaN"
| "js_abs NegInf = PosInf"
| "js_abs PosInf = PosInf"
| "js_abs (Fin x) = Fin \<bar>x\<bar>"

fun isFinite :: "jsnum \<Rightarrow> bool" where
  "isFinite (Fin x) = True"
| "isFinite _ = False"

fun js_add :: "(rat \<Rightarrow> jsnum) \<Rightarrow> jsnum \<Rightarrow> jsnum \<Rightarrow> jsnum" where
  "js_add rnd NaN _ = NaN"
| "js_add rnd _ NaN = NaN"
| "js_add rnd (Fin x) (Fin y) = rnd (x + y)"
| "js_add rnd PosInf NegInf = NaN"
| "js_add rnd NegInf PosInf = NaN"
| "js_add rnd PosInf _ = PosInf"
| "js_add rnd NegInf _ = NegInf"
| "js_add rnd (Fin x) b = b"

fun js_div :: "(rat \<Rightarrow> jsnum) \<Rightarrow> jsnum \<Rightarrow> jsnum \<Rightarrow> jsnum" where
  "js_div rnd NaN _ = NaN"
| "js_div rnd _ NaN = NaN"
| "js_div rnd (Fin x) (Fin y) =
     (if y = 0 then (if x = 0 then NaN else if 0 < x then PosInf else NegInf)
      else rnd (x / y))"
| "js_div rnd (Fin x) _ = Fin 0"
| "js_div rnd PosInf (Fin y) = (if y < 0 then NegInf else PosInf)"
| "js_div rnd NegInf (Fin y) = (if y < 0 then PosInf else NegInf)"
| "js_div rnd _ _ = NaN"

fun js_mul :: "(rat \<Rightarrow> jsnum) \<Rightarrow> jsnum \<Rightarrow> jsnum \<Rightarrow> jsnum" where
  "js_mul rnd NaN _ = NaN"
| "js_mul rnd _ NaN = NaN"
| "js_mul rnd (Fin x) (Fin y) = rnd (x * y)"
| "js_mul rnd (Fin x) PosInf = (if x = 0 then NaN else if 0 < x then PosInf else NegInf)"
| "js_mul rnd (Fin x) NegInf = (if x = 0 then NaN else if 0 < x then NegInf else PosInf)"
| "js_mul rnd PosInf (Fin y) = (if y = 0 then NaN else if 0 < y then PosInf else NegInf)"
| "js_mul rnd NegInf (Fin y) = (if y = 0 then NaN else if 0 < y then NegInf else PosInf)"
| "js_mul rnd PosInf PosInf = PosInf"
| "js_mul rnd NegInf NegInf = PosInf"
| "js_mul rnd _ _ = NegInf"

subsection \<open>Decimal digits\<close>

definition digit_char :: "nat \<Rightarrow> char" where
  "digit_char d = ''0123456789'' ! (d mod 10)"

definition is_digit :: "char \<Rightarrow> bool" where
  "is_digit c = (c \<in> set ''0123456789'')"

text \<open>The value of a digit: its place in the string of the ten digits.\<close>

definition digit_val :: "char \<Rightarrow> nat" where
  "digit_val c = length (takeWhile (\<lambda>d. d \<noteq> c) ''0123456789'')"

text \<open>The decimal digits of a natural number.\<close>

fun show_nat :: "nat \<Rightarrow> string" where
  "show_nat n = (if n < 10 then [digit_char n] else show_nat (n div 10) @ [digit_char (n mod 10)])"

declare show_nat.simps [simp del]

definition dec_val :: "string \<Rightarrow> nat" where
  "dec_val s = foldl (\<lambda>a c. 10 * a + digit_val c) 0 s"

subsection \<open>Coercions and property access\<close>

text \<open>
  \<open>Number(v)\<close>. The empty string is 0, a string of decimal digits whose value is a safe
  integer is that value, an array of two or more elements is \<open>NaN\<close> (its string form
  holds a comma), a plain object is \<open>NaN\<close>. The conversion of every other string and of
  a one-element array is the parameter \<open>cv\<close>.
\<close>

fun Number_js :: "(jsval \<Rightarrow> jsnum) \<Rightarrow> jsval \<Rightarrow> jsnum" where
  "Number_js cv Undefined = NaN"
| "Number_js cv Null = Fin 0"
| "Number_js cv (Bool b) = (if b then Fin 1 else Fin 0)"
| "Number_js cv (Num x) = x"
| "Number_js cv (Str s) =
     (if s = [] then Fin 0
      else if list_all is_digit s \<and> dec_val s < 2 ^ 53 then Fin (of_nat (dec_val s))
      else cv (Str s))"
| "Number_js cv (Arr xs) =
     (if xs = [] then Fin 0 else if 2 \<le> length xs then NaN else cv (Arr xs))"
| "Number_js cv (Obj kv) = NaN"

definition isNaN_js :: "(jsval \<Rightarrow> jsnum) \<Rightarrow> jsval \<Rightarrow> bool" where
  "isNaN_js cv v = (Number_js cv v = NaN)"

text \<open>\<open>v == null\<close>: true of \<open>null\<close> and \<open>undefined\<close> only.\<close>

fun nullish :: "jsval \<Rightarrow> bool" where
  "nullish Undefined = True"
| "nullish Null = True"
| "nullish _ = False"

fun truthy :: "jsval \<Rightarrow> bool" where
  "truthy Undefined = False"
| "truthy Null = False"
| "truthy (Bool b) = b"
| "truthy (Num x) = (x \<noteq> NaN \<and> x \<noteq> Fin 0)"
| "truthy (Str s) = (s \<noteq> [])"
| "truthy (Arr xs) = True"
| "truthy (Obj kv) = True"

text \<open>\<open>a ?? b\<close>, \<open>a || b\<close> and \<open>a && b\<close> on values whose evaluation has no effect.\<close>

definition coalesce :: "jsval \<Rightarrow> jsval \<Rightarrow> jsval" where
  "coalesce a b = (if nullish a then b else a)"

definition js_or :: "jsval \<Rightarrow> jsval \<Rightarrow> jsval" where
  "js_or a b = (if truthy a then a else b)"

definition js_and :: "jsval \<Rightarrow> jsval \<Rightarrow> jsval" where
  "js_and a b = (if truthy a then b else a)"

text \<open>
  \<open>p.k\<close> for a property name \<open>k\<close> that is not an index, on a value that is neither
  \<open>null\<close> nor \<open>undefined\<close>: only an object has such properties of its own.
\<close>

fun get_prop :: "jsval \<Rightarrow> string \<Rightarrow> jsval" where
  "get_prop (Obj kv) k = (case map_of kv k of Some v \<Rightarrow> v | None \<Rightarrow> Undefined)"
| "get_prop _ k = Undefined"

text \<open>\<open>p[i]\<close>: an element of an array, a character of a string, the property named by the digits of \<open>i\<close> of an object.\<close>

fun get_idx :: "jsval \<Rightarrow> nat \<Rightarrow> jsval" where
  "get_idx (Arr xs) i = (if i < length xs then xs ! i else Undefined)"
| "get_idx (Str s) i = (if i < length s then Str [s ! i] else Undefined)"
| "get_idx (Obj kv) i = get_prop (Obj kv) (show_nat i)"
| "get_idx _ i = Undefined"

section \<open>EmergencyCorridor: traffic colours\<close>

text \<open>
  \<^verbatim>\<open>
  function getTrafficColor(severity_pct) {
    if (severity_pct == null || isNaN(severity_pct)) return "#0ea5e9"; // fallback blue
    const p = Number(severity_pct);
    if (p > 66) return "#b91c1c"; // red
    if (p > 33) return "#eab308"; // yellow
    return "#16a34a"; // green
  }
  \<close>
\<close>

definition getTrafficColor :: "(jsval \<Rightarrow> jsnum) \<Rightarrow> jsval \<Rightarrow> string" where
  "getTrafficColor cv severity_pct =
     (if nullish severity_pct \<or> isNaN_js cv severity_pct then ''#0ea5e9''
      else let p = Number_js cv severity_pct in
        if js_gt p (Fin 66) then ''#b91c1c''
        else if js_gt p (Fin 33) then ''#eab308''
        else ''#16a34a'')"

section \<open>EmergencyCorridor: normalising one point\<close>

text \<open>
  \<^verbatim>\<open>
  function normalizePoint(p) {
    if (p == null) return null;
    if (Array.isArray(p) && p.length >= 2) {
      const a0 = Number(p[0]);
      const a1 = Number(p[1]);
      if (Math.abs(a0) > 90 && Math.abs(a1) <= 90) {
        return { lat: Number(a1), lon: Number(a0), severity: null };
      }
      return { lat: a0, lon: a1, severity: null };
    }
    const latRaw = p.lat ?? p.latitude ?? p.lat_deg ?? p[1] ?? p[0] ?? null;
    const lonRaw = p.lon ?? p.lng ?? p.longitude ?? p.lon_deg ?? p[0] ?? p[1] ?? null;
    const lat = Number(latRaw);
    const lon = Number(lonRaw);
    const severity =
      p.severity_pct ??
      (p.traffic && (p.traffic.severity_pct ?? p.traffic.severity)) ??
      p.traffic_severity ?? p.segment_traffic_pct ?? null;
    if (Number.isFinite(lat) && Number.isFinite(lon)) {
      return { lat, lon, severity: severity != null ? Number(severity) : null };
    }
    if (p[0] != null && p[1] != null) {
      const a0 = Number(p[0]);
      const a1 = Number(p[1]);
      if (Number.isFinite(a0) && Number.isFinite(a1)) {
        if (Math.abs(a0) > 90 && Math.abs(a1) <= 90) return { lat: a1, lon: a0, severity: null };
        return { lat: a0, lon: a1, severity: null };
      }
    }
    return null;
  }
  \<close>
  The result \<open>null\<close> is \<open>None\<close>; a \<open>null\<close> severity is \<open>None\<close>.
\<close>

record point =
  lat :: jsnum
  lon :: jsnum
  pt_severity :: "jsnum option"

fun isArray :: "jsval \<Rightarrow> bool" where
  "isArray (Arr xs) = True"
| "isArray _ = False"

fun arr_length :: "jsval \<Rightarrow> nat" where
  "arr_length (Arr xs) = length xs"
| "arr_length _ = 0"

text \<open>The test \<open>Math.abs(a0) > 90 && Math.abs(a1) <= 90\<close>: the pair looks like [lon, lat].\<close>

definition looks_lon_lat :: "jsnum \<Rightarrow> jsnum \<Rightarrow> bool" where
  "looks_lon_lat a0 a1 = (js_gt (js_abs a0) (Fin 90) \<and> js_le (js_abs a1) (Fin 90))"

definition latRaw :: "jsval \<Rightarrow> jsval" where
  "latRaw p = foldl coalesce (get_prop p ''lat'')
     [get_prop p ''latitude'', get_prop p ''lat_deg'', get_idx p 1, get_idx p 0, Null]"

definition lonRaw :: "jsval \<Rightarrow> jsval" where
  "lonRaw p = foldl coalesce (get_prop p ''lon'')
     [get_prop p ''lng'', get_prop p ''longitude'', get_prop p ''lon_deg'',
      get_idx p 0, get_idx p 1, Null]"

definition severityRaw :: "jsval \<Rightarrow> jsval" where
  "severityRaw p = foldl coalesce (get_prop p ''severity_pct'')
     [js_and (get_prop p ''traffic'')
        (coalesce (get_prop (get_prop p ''traffic'') ''severity_pct'')
                  (get_prop (get_prop p ''traffic'') ''severity'')),
      get_prop p ''traffic_severity'', get_prop p ''segment_traffic_pct'', Null]"

definition normalizePoint :: "(jsval \<Rightarrow> jsnum) \<Rightarrow> jsval \<Rightarrow> point option" where
  "normalizePoint cv p =
     (if nullish p then None
      else if isArray p \<and> 2 \<le> arr_length p then
        (let a0 = Number_js cv (get_idx p 0); a1 = Number_js cv (get_idx p 1) in
           if looks_lon_lat a0 a1
           then Some \<lparr>lat = a1, lon = a0, pt_severity = None\<rparr>
           else Some \<lparr>lat = a0, lon = a1, pt_severity = None\<rparr>)
      else
        (let lat = Number_js cv (latRaw p); lon = Number_js cv (lonRaw p);
             severity = severityRaw p in
           if isFinite lat \<and> isFinite lon then
             Some \<lparr>lat = lat, lon = lon,
                   pt_severity = (if \<not> nullish severity then Some (Number_js cv severity) else None)\<rparr>
           else if \<not> nullish (get_idx p 0) \<and> \<not> nullish (get_idx p 1) then
             (let a0 = Number_js cv (get_idx p 0); a1 = Number_js cv (get_idx p 1) in
                if isFinite a0 \<and> isFinite a1 then
                  (if looks_lon_lat a0 a1
                   then Some \<lparr>lat = a1, lon = a0, pt_severity = None\<rparr>
                   else Some \<lparr>lat = a0, lon = a1, pt_severity = None\<rparr>)
                else None)
           else None))"

text \<open>
  The first present of a list of property names: the value of the first name whose
  property is neither \<open>null\<close> nor \<open>undefined\<close>.
\<close>

definition first_present :: "jsval \<Rightarrow> string list \<Rightarrow> jsval option" where
  "first_present p ks = List.find (\<lambda>v. \<not> nullish v) (map (get_prop p) ks)"


section \<open>EmergencyCorridor: grouping segments\<close>

text \<open>
  A segment is a polyline with a severity: \<open>{ pts: [[lat, lon], ...], severity }\<close>,
  the severity a number or \<open>null\<close>.
\<close>

type_synonym coord = "jsnum \<times> jsnum"

record segment =
  pts :: "coord list"
  severity :: "jsnum option"

definition SEGMENT_GROUP_SIZE :: nat where
  "SEGMENT_GROUP_SIZE = 5"

text \<open>
  \<^verbatim>\<open>
  function groupSegments(segments) {
    if (!Array.isArray(segments) || segments.length === 0) return [];
    const grouped = [];
    for (let i = 0; i < segments.length; i += SEGMENT_GROUP_SIZE) {
      const slice = segments.slice(i, i + SEGMENT_GROUP_SIZE);
      const pts = [];
      for (let j = 0; j < slice.length; j++) {
        const s = slice[j];
        if (j === 0) {
          pts.push(...s.pts);
        } else {
          pts.push(s.pts[s.pts.length - 1]);
        }
      }
      const sevs = slice.map(s => s.severity).filter(s => s != null);
      const severity = sevs.length ? sevs.reduce((a,b)=>a+b,0)/sevs.length : null;
      const cleaned = pts.filter((p, idx) => {
        if (idx === 0) return true;
        const prev = pts[idx - 1];
        return !(prev[0] === p[0] && prev[1] === p[1]);
      });
      if (cleaned.length >= 2) grouped.push({ pts: cleaned, severity });
    }
    return grouped;
  }
  \<close>
  The last point of a segment without points is \<open>undefined\<close>, here \<open>None\<close>, and goes
  into \<open>pts\<close> as such; reading \<open>prev[0]\<close> or \<open>p[0]\<close> of it throws a TypeError.
\<close>

definition last_pt :: "coord list \<Rightarrow> coord option" where
  "last_pt ps = (if ps = [] then None else Some (ps ! (length ps - 1)))"

fun flatten_pts :: "segment list \<Rightarrow> coord option list" where
  "flatten_pts [] = []"
| "flatten_pts (s # rest) = map Some (pts s) @ map (\<lambda>s. last_pt (pts s)) rest"

definition same_pt :: "coord \<Rightarrow> coord \<Rightarrow> bool" where
  "same_pt prev p = (js_eq (fst prev) (fst p) \<and> js_eq (snd prev) (snd p))"

text \<open>The filter from index 1 on: \<open>prev\<close> is the element before \<open>p\<close> in \<open>pts\<close>.\<close>

fun clean_rest :: "coord option \<Rightarrow> coord option list \<Rightarrow> error + coord option list" where
  "clean_rest prev [] = Inr []"
| "clean_rest prev (p # ps) =
     (case prev of
        None \<Rightarrow> Inl TypeError
      | Some a \<Rightarrow>
          (case p of
             None \<Rightarrow> Inl TypeError
           | Some b \<Rightarrow>
               (case clean_rest p ps of
                  Inl e \<Rightarrow> Inl e
                | Inr r \<Rightarrow> Inr (if \<not> same_pt a b then p # r else r))))"

definition cleaned_pts :: "coord option list \<Rightarrow> error + coord option list" where
  "cleaned_pts ps =
     (case ps of
        [] \<Rightarrow> Inr []
      | p # rest \<Rightarrow> (case clean_rest p rest of Inl e \<Rightarrow> Inl e | Inr r \<Rightarrow> Inr (p # r)))"

definition slice_severity :: "(rat \<Rightarrow> jsnum) \<Rightarrow> segment list \<Rightarrow> jsnum option" where
  "slice_severity rnd slice =
     (let sevs = List.map_filter severity slice in
        if sevs \<noteq> [] then
          Some (js_div rnd (foldl (js_add rnd) (Fin 0) sevs) (Fin (of_nat (length sevs))))
        else None)"

text \<open>
  One round of the loop: what it pushes on \<open>grouped\<close>. A cleaned list of two or more
  elements holds no \<open>undefined\<close>, since the filter would have thrown.
\<close>

definition group_slice :: "(rat \<Rightarrow> jsnum) \<Rightarrow> segment list \<Rightarrow> error + segment list" where
  "group_slice rnd slice =
     (case cleaned_pts (flatten_pts slice) of
        Inl e \<Rightarrow> Inl e
      | Inr cleaned \<Rightarrow>
          Inr (if 2 \<le> length cleaned
               then [\<lparr>pts = List.map_filter id cleaned, severity = slice_severity rnd slice\<rparr>]
               else []))"

function group_loop ::
  "(rat \<Rightarrow> jsnum) \<Rightarrow> segment list \<Rightarrow> nat \<Rightarrow> segment list \<Rightarrow> error + segment list" where
  "group_loop rnd segments i grouped =
     (if i < length segments then
        (case group_slice rnd (take SEGMENT_GROUP_SIZE (drop i segments)) of
           Inl e \<Rightarrow> Inl e
         | Inr g \<Rightarrow> group_loop rnd segments (i + SEGMENT_GROUP_SIZE) (grouped @ g))
      else Inr grouped)"
  by pat_completeness auto
termination
  by (relation "measure (\<lambda>(rnd, segments, i, grouped). length segments - i)")
     (auto simp: SEGMENT_GROUP_SIZE_def)

declare group_loop.simps [simp del]

definition groupSegments :: "(rat \<Rightarrow> jsnum) \<Rightarrow> segment list \<Rightarrow> error + segment list" where
  "groupSegments rnd segments =
     (if segments = [] then Inr [] else group_loop rnd segments 0 [])"






section \<open>EmergencyCorridor: polylines from a path payload\<close>

text \<open>
  \<^verbatim>\<open>
  function buildSegmentsFromPath(maybePath) {
    if (!maybePath) return [];
    if (Array.isArray(maybePath) && maybePath.length > 0 && maybePath[0] &&
        typeof maybePath[0] === "object" &&
        (maybePath[0].path || maybePath[0].segment || maybePath[0].coordinates)) {
      const segments = [];
      for (const segObj of maybePath) {
        const raw = segObj.path ?? segObj.segment ?? segObj.coordinates ?? segObj.coords
                    ?? segObj.geometry ?? [];
        const pts = (Array.isArray(raw) ? raw : []).map(normalizePoint).filter(Boolean)
                      .map(p => [p.lat, p.lon]);
        const severity =
          segObj.traffic?.severity_pct ?? segObj.severity_pct ?? segObj.segment_traffic_pct ?? null;
        if (pts.length >= 2) {
          segments.push({ pts, severity: severity != null ? Number(severity) : null });
        }
      }
      if (segments.length) return groupSegments(segments);
    }
    if (Array.isArray(maybePath)) {
      const ptsWithMeta = maybePath.map(normalizePoint).filter(Boolean);
      if (ptsWithMeta.length >= 2) {
        const segs = [];
        for (let i = 0; i < ptsWithMeta.length - 1; i++) {
          const a = ptsWithMeta[i];
          const b = ptsWithMeta[i + 1];
          const sA = Number.isFinite(a.severity) ? a.severity : null;
          const sB = Number.isFinite(b.severity) ? b.severity : null;
          let segSeverity = null;
          if (sA != null && sB != null) segSeverity = (sA + sB) / 2;
          else if (sA != null) segSeverity = sA;
          else if (sB != null) segSeverity = sB;
          segs.push({ pts: [[a.lat, a.lon], [b.lat, b.lon]], severity: segSeverity });
        }
        return groupSegments(segs);
      }
    }
    if (maybePath && typeof maybePath === "object") {
      const coords = maybePath.coordinates ?? maybePath.coords ?? maybePath.path ?? null;
      if (Array.isArray(coords)) return buildSegmentsFromPath(coords);
    }
    return [];
  }
  \<close>
  Reading a property of a \<open>null\<close> element of the payload throws a TypeError.
\<close>

fun typeof_object :: "jsval \<Rightarrow> bool" where
  "typeof_object Null = True"
| "typeof_object (Arr xs) = True"
| "typeof_object (Obj kv) = True"
| "typeof_object _ = False"

fun arr_elems :: "jsval \<Rightarrow> jsval list" where
  "arr_elems (Arr xs) = xs"
| "arr_elems _ = []"

text \<open>One round of the loop over segment objects: the segment it pushes, if any.\<close>

definition segment_of :: "(jsval \<Rightarrow> jsnum) \<Rightarrow> jsval \<Rightarrow> error + segment option" where
  "segment_of cv segObj =
     (if nullish segObj then Inl TypeError
      else
        (let raw = foldl coalesce (get_prop segObj ''path'')
                     [get_prop segObj ''segment'', get_prop segObj ''coordinates'',
                      get_prop segObj ''coords'', get_prop segObj ''geometry'', Arr []];
             pts = map (\<lambda>p. (lat p, lon p))
                     (List.map_filter (normalizePoint cv) (if isArray raw then arr_elems raw else []));
             severity = foldl coalesce (get_prop (get_prop segObj ''traffic'') ''severity_pct'')
                     [get_prop segObj ''severity_pct'', get_prop segObj ''segment_traffic_pct'', Null]
         in Inr (if 2 \<le> length pts
                 then Some \<lparr>pts = pts,
                           severity = (if \<not> nullish severity then Some (Number_js cv severity)
                                       else None)\<rparr>
                 else None)))"

fun segments_loop :: "(jsval \<Rightarrow> jsnum) \<Rightarrow> jsval list \<Rightarrow> error + segment list" where
  "segments_loop cv [] = Inr []"
| "segments_loop cv (segObj # rest) =
     (case segment_of cv segObj of
        Inl e \<Rightarrow> Inl e
      | Inr so \<Rightarrow>
          (case segments_loop cv rest of
             Inl e \<Rightarrow> Inl e
           | Inr r \<Rightarrow> Inr (case so of Some s \<Rightarrow> s # r | None \<Rightarrow> r)))"

definition segment_objects_guard :: "jsval \<Rightarrow> bool" where
  "segment_objects_guard maybePath =
     (isArray maybePath \<and> 0 < arr_length maybePath \<and> truthy (get_idx maybePath 0)
      \<and> typeof_object (get_idx maybePath 0)
      \<and> truthy (js_or (js_or (get_prop (get_idx maybePath 0) ''path'')
                              (get_prop (get_idx maybePath 0) ''segment''))
                       (get_prop (get_idx maybePath 0) ''coordinates'')))"

text \<open>The first block: \<open>None\<close> when control falls through to the next one.\<close>

definition from_segment_objects ::
  "(jsval \<Rightarrow> jsnum) \<Rightarrow> (rat \<Rightarrow> jsnum) \<Rightarrow> jsval \<Rightarrow> (error + segment list) option" where
  "from_segment_objects cv rnd maybePath =
     (if segment_objects_guard maybePath then
        (case segments_loop cv (arr_elems maybePath) of
           Inl e \<Rightarrow> Some (Inl e)
         | Inr segments \<Rightarrow> if segments \<noteq> [] then Some (groupSegments rnd segments) else None)
      else None)"

definition finite_severity :: "point \<Rightarrow> jsnum option" where
  "finite_severity a =
     (case pt_severity a of None \<Rightarrow> None | Some s \<Rightarrow> if isFinite s then Some s else None)"

definition segSeverity :: "(rat \<Rightarrow> jsnum) \<Rightarrow> point \<Rightarrow> point \<Rightarrow> jsnum option" where
  "segSeverity rnd a b =
     (case (finite_severity a, finite_severity b) of
        (Some sA, Some sB) \<Rightarrow> Some (js_div rnd (js_add rnd sA sB) (Fin 2))
      | (Some sA, None) \<Rightarrow> Some sA
      | (None, Some sB) \<Rightarrow> Some sB
      | (None, None) \<Rightarrow> None)"

fun adjacent_segments :: "(rat \<Rightarrow> jsnum) \<Rightarrow> point list \<Rightarrow> segment list" where
  "adjacent_segments rnd (a # b # rest) =
     \<lparr>pts = [(lat a, lon a), (lat b, lon b)], severity = segSeverity rnd a b\<rparr>
       # adjacent_segments rnd (b # rest)"
| "adjacent_segments rnd _ = []"

definition from_points ::
  "(jsval \<Rightarrow> jsnum) \<Rightarrow> (rat \<Rightarrow> jsnum) \<Rightarrow> jsval \<Rightarrow> (error + segment list) option" where
  "from_points cv rnd maybePath =
     (if isArray maybePath then
        (let ptsWithMeta = List.map_filter (normalizePoint cv) (arr_elems maybePath) in
           if 2 \<le> length ptsWithMeta
           then Some (groupSegments rnd (adjacent_segments rnd ptsWithMeta))
           else None)
      else None)"

definition path_coords :: "jsval \<Rightarrow> jsval" where
  "path_coords maybePath = foldl coalesce (get_prop maybePath ''coordinates'')
     [get_prop maybePath ''coords'', get_prop maybePath ''path'', Null]"

lemma path_coords_Arr [simp]: "path_coords (Arr xs) = Null"
  by (simp add: path_coords_def coalesce_def)

function buildSegmentsFromPath ::
  "(jsval \<Rightarrow> jsnum) \<Rightarrow> (rat \<Rightarrow> jsnum) \<Rightarrow> jsval \<Rightarrow> error + segment list" where
  "buildSegmentsFromPath cv rnd maybePath =
     (if \<not> truthy maybePath then Inr []
      else
        (case from_segment_objects cv rnd maybePath of
           Some r \<Rightarrow> r
         | None \<Rightarrow>
             (case from_points cv rnd maybePath of
                Some r \<Rightarrow> r
              | None \<Rightarrow>
                  if truthy maybePath \<and> typeof_object maybePath then
                    (case path_coords maybePath of
                       Arr ys \<Rightarrow> buildSegmentsFromPath cv rnd (Arr ys)
                     | _ \<Rightarrow> Inr [])
                  else Inr [])))"
  by pat_completeness auto
termination
proof (relation "measure (\<lambda>(cv, rnd, v). case v of Obj kv \<Rightarrow> Suc 0 | _ \<Rightarrow> 0)")
  show "wf (measure (\<lambda>(cv, rnd, v). case v of Obj kv \<Rightarrow> Suc 0 | _ \<Rightarrow> 0))" by simp
next
  fix cv :: "jsval \<Rightarrow> jsnum" and rnd :: "rat \<Rightarrow> jsnum" and maybePath :: jsval and ys
  assume "truthy maybePath \<and> typeof_object maybePath" and "path_coords maybePath = Arr ys"
  then show "((cv, rnd, Arr ys), (cv, rnd, maybePath))
      \<in> measure (\<lambda>(cv, rnd, v). case v of Obj kv \<Rightarrow> Suc 0 | _ \<Rightarrow> 0)"
    by (cases maybePath) auto
qed

declare buildSegmentsFromPath.simps [simp del]


section \<open>EmergencyCorridor: estimated time of arrival\<close>

text \<open>
  \<open>x.toFixed(1)\<close>: the digits of the integer \<open>n\<close> nearest to \<open>10 * |x|\<close> (the larger
  of two nearest), with a point before the last digit and the sign of \<open>x\<close> in front. From
  \<open>10^21\<close> on the result is \<open>String(x)\<close>, the parameter \<open>ns\<close>.
\<close>

definition toFixed1 :: "(jsnum \<Rightarrow> string) \<Rightarrow> jsnum \<Rightarrow> string" where
  "toFixed1 ns x =
     (case x of
        NaN \<Rightarrow> ''NaN''
      | PosInf \<Rightarrow> ''Infinity''
      | NegInf \<Rightarrow> ''-Infinity''
      | Fin q \<Rightarrow>
          if 10 ^ 21 \<le> \<bar>q\<bar> then ns x
          else
            (let n = nat \<lfloor>10 * \<bar>q\<bar> + 1 / 2\<rfloor> in
               (if q < 0 then ''-'' else [])
                 @ show_nat (n div 10) @ ''.'' @ [digit_char (n mod 10)]))"

text \<open>The string \<open>"\<emdash>"\<close> of the source, U+2014, as its three bytes in UTF-8.\<close>

definition em_dash :: string where
  "em_dash = [CHR 0xE2, CHR 0x80, CHR 0x94]"

definition AVG_SPEED_KMPH :: jsnum where
  "AVG_SPEED_KMPH = Fin 30"

text \<open>
  \<^verbatim>\<open>
  // ETA uses AVG_SPEED_KMPH (40 km/h). Prefer duration_s if present.
  function etaMinutesFromRoute(routeObj) {
    if (!routeObj) return "\<emdash>";
    if (routeObj.duration_s && !isNaN(routeObj.duration_s)) {
      return (Number(routeObj.duration_s) / 60).toFixed(1);
    }
    if (routeObj.distance_m && !isNaN(routeObj.distance_m)) {
      const avgSpeedMps = (AVG_SPEED_KMPH * 1000) / 3600; // 40 km/h
      const estSeconds = Number(routeObj.distance_m) / avgSpeedMps;
      return (estSeconds / 60).toFixed(1);
    }
    return "\<emdash>";
  }
  \<close>
\<close>

definition etaMinutesFromRoute ::
  "(jsval \<Rightarrow> jsnum) \<Rightarrow> (rat \<Rightarrow> jsnum) \<Rightarrow> (jsnum \<Rightarrow> string) \<Rightarrow> jsval \<Rightarrow> string" where
  "etaMinutesFromRoute cv rnd ns routeObj =
     (if \<not> truthy routeObj then em_dash
      else if truthy (get_prop routeObj ''duration_s'')
              \<and> \<not> isNaN_js cv (get_prop routeObj ''duration_s'') then
        toFixed1 ns (js_div rnd (Number_js cv (get_prop routeObj ''duration_s'')) (Fin 60))
      else if truthy (get_prop routeObj ''distance_m'')
              \<and> \<not> isNaN_js cv (get_prop routeObj ''distance_m'') then
        (let avgSpeedMps = js_div rnd (js_mul rnd AVG_SPEED_KMPH (Fin 1000)) (Fin 3600);
             estSeconds = js_div rnd (Number_js cv (get_prop routeObj ''distance_m'')) avgSpeedMps
         in toFixed1 ns (js_div rnd estSeconds (Fin 60)))
      else em_dash)"

text \<open>A speed in km/h expressed in m/s.\<close>

definition kmph_in_mps :: "(rat \<Rightarrow> jsnum) \<Rightarrow> jsnum \<Rightarrow> jsnum" where
  "kmph_in_mps rnd v = js_div rnd (js_mul rnd v (Fin 1000)) (Fin 3600)"

section \<open>Dashboard and MapView: the roads to show\<close>

text \<open>
  A road of the roads response: its \<open>id\<close>, its \<open>name\<close> (\<open>None\<close> when there is none)
  and its \<open>coordinates\<close>, which the code tests before use.
\<close>

record road =
  rid :: string
  name :: "string option"
  coordinates :: jsval

text \<open>
  Strings are the bytes of their text in UTF-8. \<open>s.trim()\<close> strips, at both ends, the
  white space and the line terminators of the language: U+0009 to U+000D, U+0020, U+00A0,
  U+1680, U+2000 to U+200A, U+2028, U+2029, U+202F, U+205F, U+3000 and U+FEFF, here in
  their encodings.
\<close>

definition white_space :: "string list" where
  "white_space =
     [[CHR 0x09], [CHR 0x0A], [CHR 0x0B], [CHR 0x0C], [CHR 0x0D], [CHR 0x20],
      [CHR 0xC2, CHR 0xA0],
      [CHR 0xE1, CHR 0x9A, CHR 0x80],
      [CHR 0xE2, CHR 0x80, CHR 0x80], [CHR 0xE2, CHR 0x80, CHR 0x81],
      [CHR 0xE2, CHR 0x80, CHR 0x82], [CHR 0xE2, CHR 0x80, CHR 0x83],
      [CHR 0xE2, CHR 0x80, CHR 0x84], [CHR 0xE2, CHR 0x80, CHR 0x85],
      [CHR 0xE2, CHR 0x80, CHR 0x86], [CHR 0xE2, CHR 0x80, CHR 0x87],
      [CHR 0xE2, CHR 0x80, CHR 0x88], [CHR 0xE2, CHR 0x80, CHR 0x89],
      [CHR 0xE2, CHR 0x80, CHR 0x8A],
      [CHR 0xE2, CHR 0x80, CHR 0xA8], [CHR 0xE2, CHR 0x80, CHR 0xA9],
      [CHR 0xE2, CHR 0x80, CHR 0xAF],
      [CHR 0xE2, CHR 0x81, CHR 0x9F],
      [CHR 0xE3, CHR 0x80, CHR 0x80],
      [CHR 0xEF, CHR 0xBB, CHR 0xBF]]"

text \<open>Strip from the start of \<open>s\<close> every one of the given sequences, as long as one is there.\<close>

function strip_start :: "string list \<Rightarrow> string \<Rightarrow> string" where
  "strip_start ws s =
     (case List.find (\<lambda>w. w \<noteq> [] \<and> prefix w s) ws of
        None \<Rightarrow> s
      | Some w \<Rightarrow> strip_start ws (drop (length w) s))"
  by pat_completeness auto
termination
proof (relation "measure (\<lambda>(ws, s). length s)")
  show "wf (measure (\<lambda>(ws, s). length s))" by simp
next
  fix ws :: "string list" and s w :: string
  assume "List.find (\<lambda>w. w \<noteq> [] \<and> prefix w s) ws = Some w"
  then have "w \<noteq> [] \<and> prefix w s" by (auto simp: find_Some_iff)
  then have "0 < length w" "length w \<le> length s" by (auto simp: prefix_def)
  then have "length s - length w < length s" by arith
  then show "((ws, drop (length w) s), (ws, s)) \<in> measure (\<lambda>(ws, s). length s)" by simp
qed

declare strip_start.simps [simp del]

definition js_trim :: "string \<Rightarrow> string" where
  "js_trim s = rev (strip_start (map rev white_space) (rev (strip_start white_space s)))"

definition to_lower :: "char \<Rightarrow> char" where
  "to_lower c =
     (case map_of (zip ''ABCDEFGHIJKLMNOPQRSTUVWXYZ'' ''abcdefghijklmnopqrstuvwxyz'') c of
        Some l \<Rightarrow> l
      | None \<Rightarrow> c)"

text \<open>\<open>/^unnamed/i.test(s)\<close>\<close>

definition starts_unnamed :: "string \<Rightarrow> bool" where
  "starts_unnamed s = (map to_lower (take 7 s) = ''unnamed'')"

text \<open>\<open>v?.length || 0\<close>\<close>

fun js_length :: "jsval \<Rightarrow> nat" where
  "js_length (Arr xs) = length xs"
| "js_length (Str s) = length s"
| "js_length _ = 0"

text \<open>
  \<open>xs.slice(0, end)\<close> for a number \<open>end\<close>: \<open>end\<close> is truncated to an integer
  (\<open>NaN\<close> to 0), and a negative one counts from the end of the list.
\<close>

definition js_trunc :: "rat \<Rightarrow> int" where
  "js_trunc q = (if q < 0 then \<lceil>q\<rceil> else \<lfloor>q\<rfloor>)"

definition js_slice0 :: "'a list \<Rightarrow> jsnum \<Rightarrow> 'a list" where
  "js_slice0 xs end =
     (case end of
        NaN \<Rightarrow> []
      | NegInf \<Rightarrow> []
      | PosInf \<Rightarrow> xs
      | Fin q \<Rightarrow>
          (let k = js_trunc q in
             if k < 0 then take (nat (int (length xs) + k)) xs else take (nat k) xs))"

text \<open>
  \<^verbatim>\<open>
  function normalizeRoads(roads, limit) {
    const valid = (roads || []).filter(
      (r) => Array.isArray(r.coordinates) && r.coordinates.length > 0
    );
    const named = [];
    const unnamed = [];
    for (const r of valid) {
      const name = (r.name || "").trim();
      if (!name || /^unnamed/i.test(name)) {
        unnamed.push(r);
      } else {
        named.push(r);
      }
    }
    const byLengthDesc = (a, b) =>
      (b.coordinates?.length || 0) - (a.coordinates?.length || 0);
    named.sort(byLengthDesc);
    unnamed.sort(byLengthDesc);
    return named.concat(unnamed).slice(0, limit);
  }
  \<close>
  The same function stands in Dashboard and in MapView. \<open>Array.prototype.sort\<close> is
  stable, as the insertion sort \<open>sort_key\<close> is.
\<close>

definition valid_road :: "road \<Rightarrow> bool" where
  "valid_road r = (isArray (coordinates r) \<and> 0 < arr_length (coordinates r))"

definition is_unnamed :: "road \<Rightarrow> bool" where
  "is_unnamed r =
     (let name = js_trim (case name r of Some n \<Rightarrow> n | None \<Rightarrow> []) in
        name = [] \<or> starts_unnamed name)"

definition byLengthDesc_key :: "road \<Rightarrow> int" where
  "byLengthDesc_key r = - int (js_length (coordinates r))"

definition normalizeRoads :: "road list \<Rightarrow> jsnum \<Rightarrow> road list" where
  "normalizeRoads roads limit =
     (let valid = filter valid_road roads;
          named = filter (\<lambda>r. \<not> is_unnamed r) valid;
          unnamed = filter is_unnamed valid
      in js_slice0 (sort_key byLengthDesc_key named @ sort_key byLengthDesc_key unnamed) limit)"

text \<open>
  A road with a non-empty name that does not start with "unnamed", whatever the case of
  its letters: the name as it stands, not trimmed.
\<close>

definition has_proper_name :: "road \<Rightarrow> bool" where
  "has_proper_name r = (case name r of None \<Rightarrow> False | Some n \<Rightarrow> n \<noteq> [] \<and> \<not> starts_unnamed n)"


section \<open>Requests, errors and browser storage\<close>

text \<open>
  A request of the api module (an axios call) or a \<open>fetch\<close> either fails, with an
  error, or gives a response; the responses are inputs of the model. A response of
  \<open>fetch\<close> has its \<open>ok\<close> flag and the outcomes of reading its body as text and as
  JSON. \<open>localStorage\<close> maps keys to strings; \<open>getItem\<close> of an absent key is \<open>null\<close>,
  here \<open>None\<close>.
\<close>

datatype 'a outcome = Rejected error | Resolved 'a

record response =
  res_ok :: bool
  res_text :: "string outcome"
  res_json :: "jsval outcome"

type_synonym storage = "string \<rightharpoonup> string"

text \<open>
  An operation that may throw: \<open>Inl (e, s)\<close> when it has thrown \<open>e\<close>, having brought
  the state to \<open>s\<close> (for an \<open>async\<close> function: its promise rejects, nothing has caught
  \<open>e\<close>); \<open>Inr s\<close> when it has come to its end in the state \<open>s\<close>.
\<close>

type_synonym 's run = "(error \<times> 's) + 's"

definition try_catch :: "'s run \<Rightarrow> (error \<Rightarrow> 's \<Rightarrow> 's run) \<Rightarrow> 's run" where
  "try_catch body handler = (case body of Inl (e, s) \<Rightarrow> handler e s | Inr s \<Rightarrow> Inr s)"

definition try_finally :: "'s run \<Rightarrow> ('s \<Rightarrow> 's) \<Rightarrow> 's run" where
  "try_finally body fin = (case body of Inl (e, s) \<Rightarrow> Inl (e, fin s) | Inr s \<Rightarrow> Inr (fin s))"

text \<open>The state in which an operation has ended, thrown or not.\<close>

definition ended :: "'s run \<Rightarrow> 's" where
  "ended r = (case r of Inl (e, s) \<Rightarrow> s | Inr s \<Rightarrow> s)"

text \<open>
  \<open>e.message\<close>: the message of an error made with \<open>new Error(m)\<close> or of a failed
  request is \<open>m\<close>; the message the engine gives a TypeError is the parameter \<open>tm\<close>.
\<close>

definition message :: "string \<Rightarrow> error \<Rightarrow> string" where
  "message tm e = (case e of TypeError \<Rightarrow> tm | Error m \<Rightarrow> m)"

text \<open>
  \<open>String(x)\<close> of a number: the decimal digits of a natural number below \<open>2^53\<close>,
  where every natural number is a number of the language and its shortest digits are
  its own; every other finite number is left to the parameter \<open>ns\<close>.
\<close>

definition String_num :: "(jsval \<Rightarrow> string) \<Rightarrow> jsnum \<Rightarrow> string" where
  "String_num ns x =
     (case x of
        NaN \<Rightarrow> ''NaN''
      | PosInf \<Rightarrow> ''Infinity''
      | NegInf \<Rightarrow> ''-Infinity''
      | Fin q \<Rightarrow>
          if 0 \<le> q \<and> q < 2 ^ 53 \<and> of_int \<lfloor>q\<rfloor> = q then show_nat (nat \<lfloor>q\<rfloor>)
          else ns (Num x))"

definition String_js :: "(jsval \<Rightarrow> string) \<Rightarrow> jsval \<Rightarrow> string" where
  "String_js ns v =
     (case v of
        Str s \<Rightarrow> s
      | Undefined \<Rightarrow> ''undefined''
      | Null \<Rightarrow> ''null''
      | Bool b \<Rightarrow> (if b then ''true'' else ''false'')
      | Num x \<Rightarrow> String_num ns x
      | _ \<Rightarrow> ns v)"

text \<open>\<open>Math.round\<close>: the nearest integer, the larger of two nearest.\<close>

fun math_round :: "jsnum \<Rightarrow> jsnum" where
  "math_round (Fin q) = Fin (of_int \<lfloor>q + 1 / 2\<rfloor>)"
| "math_round x = x"

section \<open>Login\<close>

text \<open>
  \<^verbatim>\<open>
  const go = async () => {
    try {
      const r = await loginUser(u, p);
      localStorage.setItem("md_jwt", r.data.access_token);
      n("/dashboard");
    } catch {
      setErr("Wrong username or password");
    }
  };
  \<close>
  \<open>go_try\<close> is the block of the \<open>try\<close>, \<open>go_async\<close> the function, and \<open>go\<close> the state
  it ends in.
\<close>

record login_page =
  err :: string
  navigated :: "string option"

definition go_try ::
  "(jsval \<Rightarrow> string) \<Rightarrow> jsval outcome \<Rightarrow> storage \<times> login_page \<Rightarrow> (storage \<times> login_page) run" where
  "go_try ns loginUser sp =
     (case sp of (st, pg) \<Rightarrow>
        (case loginUser of
           Rejected e \<Rightarrow> Inl (e, sp)
         | Resolved r \<Rightarrow>
             if nullish r \<or> nullish (get_prop r ''data'') then Inl (TypeError, sp)
             else Inr (st(''md_jwt'' \<mapsto> String_js ns (get_prop (get_prop r ''data'') ''access_token'')),
                       pg\<lparr>navigated := Some ''/dashboard''\<rparr>)))"

definition go_async ::
  "(jsval \<Rightarrow> string) \<Rightarrow> jsval outcome \<Rightarrow> storage \<times> login_page \<Rightarrow> (storage \<times> login_page) run" where
  "go_async ns loginUser sp =
     try_catch (go_try ns loginUser sp)
       (\<lambda>e s. case s of (st, pg) \<Rightarrow> Inr (st, pg\<lparr>err := ''Wrong username or password''\<rparr>))"

definition go ::
  "(jsval \<Rightarrow> string) \<Rightarrow> jsval outcome \<Rightarrow> storage \<times> login_page \<Rightarrow> storage \<times> login_page" where
  "go ns loginUser sp = ended (go_async ns loginUser sp)"

section \<open>Dashboard and MapView: state kept by both pages\<close>

record co2 =
  co :: jsval
  co2FromCo :: jsnum

record page_state =
  city :: string
  segmentsNum :: jsnum
  timeSteps :: jsnum
  loading :: bool
  co2Value :: "co2 option"

text \<open>
  \<^verbatim>\<open>
  const [city, setCity] = useState(() => {
    if (typeof window !== "undefined") {
      return localStorage.getItem("trafficCity") || "Kolkata";
    }
    return "Kolkata";
  });
  const [segmentsNum, setSegmentsNum] = useState(() => {
    if (typeof window !== "undefined") {
      const v = localStorage.getItem("trafficSegments");
      if (v != null && !Number.isNaN(Number(v))) return Number(v);
    }
    return 5;
  });
  const [timeSteps, setTimeSteps] = useState(() => { ... "trafficTimeSteps" ... return 10; });
  \<close>
  in a browser, where \<open>window\<close> is defined.
\<close>

definition init_city :: "storage \<Rightarrow> string" where
  "init_city st = (case st ''trafficCity'' of None \<Rightarrow> ''Kolkata'' | Some v \<Rightarrow> if v \<noteq> [] then v else ''Kolkata'')"

definition init_number :: "(jsval \<Rightarrow> jsnum) \<Rightarrow> storage \<Rightarrow> string \<Rightarrow> jsnum \<Rightarrow> jsnum" where
  "init_number cv st key dflt =
     (case st key of
        None \<Rightarrow> dflt
      | Some v \<Rightarrow> if Number_js cv (Str v) \<noteq> NaN then Number_js cv (Str v) else dflt)"

definition save_preferences :: "(jsval \<Rightarrow> string) \<Rightarrow> string \<Rightarrow> jsnum \<Rightarrow> jsnum \<Rightarrow> storage \<Rightarrow> storage" where
  "save_preferences ns c s t st =
     st(''trafficCity'' \<mapsto> c, ''trafficSegments'' \<mapsto> String_num ns s,
        ''trafficTimeSteps'' \<mapsto> String_num ns t)"

text \<open>
  \<^verbatim>\<open>
  async function fetchCO2ForCity(cityName) {
    try {
      ...
      const geoRes = await fetch(...);
      const geoData = await geoRes.json();
      if (!Array.isArray(geoData) || geoData.length === 0) { ...; return null; }
      const { lat, lon } = geoData[0];
      const airRes = await fetch(...);
      const airData = await airRes.json();
      const first = airData?.list?.[0];
      const components = first?.components;
      const co = components?.co;
      if (co == null) return null;
      const CO_MOLAR_MASS = 28;
      const CO2_MOLAR_MASS = 44;
      const factor = CO2_MOLAR_MASS / CO_MOLAR_MASS;
      const co2FromCo = co * factor;
      return { co, co2FromCo };
    } catch (err) {
      console.error("Failed to fetch CO/CO2 from OpenWeather", err);
      return null;
    }
  }
  \<close>
  The function returns a value, \<open>null\<close> being \<open>None\<close>, or throws; what
  \<open>console.error\<close> prints is no part of a state.
\<close>

definition fetchCO2_try ::
  "(jsval \<Rightarrow> jsnum) \<Rightarrow> (rat \<Rightarrow> jsnum) \<Rightarrow> response outcome \<Rightarrow> response outcome
   \<Rightarrow> error + co2 option" where
  "fetchCO2_try cv rnd geo air =
     (case geo of
        Rejected e \<Rightarrow> Inl e
      | Resolved geoRes \<Rightarrow>
          (case res_json geoRes of
             Rejected e \<Rightarrow> Inl e
           | Resolved geoData \<Rightarrow>
               if \<not> isArray geoData \<or> arr_length geoData = 0 then Inr None
               else if nullish (get_idx geoData 0) then Inl TypeError
               else
                 (case air of
                    Rejected e \<Rightarrow> Inl e
                  | Resolved airRes \<Rightarrow>
                      (case res_json airRes of
                         Rejected e \<Rightarrow> Inl e
                       | Resolved airData \<Rightarrow>
                           (let first = get_idx (get_prop airData ''list'') 0;
                                components = get_prop first ''components'';
                                co = get_prop components ''co''
                            in if nullish co then Inr None
                               else Inr (Some \<lparr>co = co,
                                      co2FromCo = js_mul rnd (Number_js cv co)
                                                    (js_div rnd (Fin 44) (Fin 28))\<rparr>))))))"

definition fetchCO2ForCity ::
  "(jsval \<Rightarrow> jsnum) \<Rightarrow> (rat \<Rightarrow> jsnum) \<Rightarrow> response outcome \<times> response outcome
   \<Rightarrow> error + co2 option" where
  "fetchCO2ForCity cv rnd fetched =
     (case fetchCO2_try cv rnd (fst fetched) (snd fetched) of
        Inl e \<Rightarrow> Inr None
      | Inr v \<Rightarrow> Inr v)"

text \<open>
  \<^verbatim>\<open>
  const coords = road.coordinates || [];
  const mid = coords[Math.floor(coords.length / 2)] || coords[0] || [0, 0];
  \<close>
\<close>

definition mid_point :: "road \<Rightarrow> jsval" where
  "mid_point road =
     (let coords = js_or (coordinates road) (Arr []) in
        js_or (js_or (get_idx coords (js_length coords div 2)) (get_idx coords 0))
              (Arr [Num (Fin 0), Num (Fin 0)]))"

text \<open>
  The requests of \<open>Promise.all(list.map(async (road) => ...))\<close> run side by side, and
  the rest of each function runs when its own request settles. The input
  \<open>getLiveTraffic i\<close> is, for the request of the road at place \<open>i\<close> of the list, its
  rank in the order of settling and its outcome; \<open>settling_order\<close> puts the roads, with
  their places, in that order.
\<close>

definition settling_order :: "(nat \<Rightarrow> nat \<times> 'a) \<Rightarrow> road list \<Rightarrow> (nat \<times> road) list" where
  "settling_order requests list = sort_key (\<lambda>ir. fst (requests (fst ir))) (enumerate 0 list)"

section \<open>Dashboard: loading live traffic\<close>

text \<open>
  \<^verbatim>\<open>
  const computeSeverity = (trafficResp) => {
    const d = trafficResp?.data || {};
    if (d.severity != null) return d.severity;
    const jf = d.jamFactor ?? 0;
    return Math.round(jf * 10 * 10);
  };
  \<close>
\<close>

definition computeSeverity :: "(jsval \<Rightarrow> jsnum) \<Rightarrow> (rat \<Rightarrow> jsnum) \<Rightarrow> jsval \<Rightarrow> jsval" where
  "computeSeverity cv rnd trafficResp =
     (let d = js_or (get_prop trafficResp ''data'') (Obj []) in
        if \<not> nullish (get_prop d ''severity'') then get_prop d ''severity''
        else
          (let jf = coalesce (get_prop d ''jamFactor'') (Num (Fin 0)) in
             Num (math_round (js_mul rnd (js_mul rnd (Number_js cv jf) (Fin 10)) (Fin 10)))))"

text \<open>\<open>typeof sev === "number" ? sev : Number(sev) || 0\<close>\<close>

definition severity_value :: "(jsval \<Rightarrow> jsnum) \<Rightarrow> jsval \<Rightarrow> jsnum" where
  "severity_value cv sev =
     (case sev of
        Num x \<Rightarrow> x
      | _ \<Rightarrow> if truthy (Num (Number_js cv sev)) then Number_js cv sev else Fin 0)"

text \<open>\<open>road.name || road.id\<close>\<close>

definition name_or_id :: "road \<Rightarrow> string" where
  "name_or_id road = (case name road of None \<Rightarrow> rid road | Some n \<Rightarrow> if n \<noteq> [] then n else rid road)"

text \<open>
  The body of the \<open>try\<close> for one road whose request gave \<open>t\<close>, and of its \<open>catch\<close>: the
  row pushed, an object. \<open>prettifyRoadName\<close>, a chain of regular-expression replacements
  on the name, is a parameter.
  \<^verbatim>\<open>
          try {
            const coords = road.coordinates || [];
            const mid = coords[Math.floor(coords.length / 2)] || coords[0] || [0, 0];
            const lat = mid[0];
            const lon = mid[1];
            const t = await getLiveTraffic(road.id, lat, lon, city);
            const sev = computeSeverity(t);
            const value = typeof sev === "number" ? sev : Number(sev) || 0;
            preds[road.id] = value;
            rows.push({ segment: road.id, name: prettifyRoadName(road.name || road.id, { short: false }),
              time: "Now", vehicle_count: value, lat, lon, rawName: road.name || road.id });
          } catch (e) {
            console.error("live traffic error", e);
            preds[road.id] = 0;
            rows.push({ segment: road.id, name: prettifyRoadName(road.name || road.id, { short: false }),
              time: "Now", vehicle_count: 0, lat: 0, lon: 0, rawName: road.name || road.id });
          }
  \<close>
\<close>

definition live_value :: "(jsval \<Rightarrow> jsnum) \<Rightarrow> (rat \<Rightarrow> jsnum) \<Rightarrow> jsval outcome \<Rightarrow> jsnum" where
  "live_value cv rnd outcome =
     (case outcome of
        Resolved t \<Rightarrow> severity_value cv (computeSeverity cv rnd t)
      | Rejected e \<Rightarrow> Fin 0)"

definition live_row ::
  "(jsval \<Rightarrow> jsnum) \<Rightarrow> (rat \<Rightarrow> jsnum) \<Rightarrow> (string \<Rightarrow> string) \<Rightarrow> road \<Rightarrow> jsval outcome \<Rightarrow> jsval" where
  "live_row cv rnd prettifyRoadName road outcome =
     (case outcome of
        Resolved t \<Rightarrow>
          Obj [(''segment'', Str (rid road)),
               (''name'', Str (prettifyRoadName (name_or_id road))),
               (''time'', Str ''Now''),
               (''vehicle_count'', Num (live_value cv rnd outcome)),
               (''lat'', get_idx (mid_point road) 0),
               (''lon'', get_idx (mid_point road) 1),
               (''rawName'', Str (name_or_id road))]
      | Rejected e \<Rightarrow>
          Obj [(''segment'', Str (rid road)),
               (''name'', Str (prettifyRoadName (name_or_id road))),
               (''time'', Str ''Now''),
               (''vehicle_count'', Num (Fin 0)),
               (''lat'', Num (Fin 0)),
               (''lon'', Num (Fin 0)),
               (''rawName'', Str (name_or_id road))])"

text \<open>The assignments \<open>preds[road.id] = ...\<close>, in the order of settling.\<close>

fun load_preds ::
  "(jsval \<Rightarrow> jsnum) \<Rightarrow> (rat \<Rightarrow> jsnum) \<Rightarrow> (nat \<Rightarrow> nat \<times> jsval outcome) \<Rightarrow> (nat \<times> road) list
   \<Rightarrow> (string \<rightharpoonup> jsval) \<Rightarrow> (string \<rightharpoonup> jsval)" where
  "load_preds cv rnd getLiveTraffic [] preds = preds"
| "load_preds cv rnd getLiveTraffic (ir # rest) preds =
     load_preds cv rnd getLiveTraffic rest
       (preds(rid (snd ir) \<mapsto> Num (live_value cv rnd (snd (getLiveTraffic (fst ir))))))"

record dashboard = page_state +
  data :: "jsval list"
  predictions :: "string \<rightharpoonup> jsval"
  error :: string

text \<open>
  \<^verbatim>\<open>
  const load = async () => {
    setLoading(true);
    setError("");
    setData([]);
    setPredictions({});
    setCo2Value(null);
    if (typeof window !== "undefined") {
      localStorage.setItem("trafficCity", city);
      localStorage.setItem("trafficSegments", String(segmentsNum));
      localStorage.setItem("trafficTimeSteps", String(timeSteps));
    }
    try {
      const [r, co2] = await Promise.all([getRoads(city, segmentsNum * 3), fetchCO2ForCity(city)]);
      const list = normalizeRoads(r.data.roads || [], segmentsNum);
      const rows = [];
      const preds = {};
      await Promise.all(list.map(async (road) => { try { ... } catch (e) { ... } }));
      setData(rows);
      setPredictions(preds);
      setCo2Value(co2);
    } catch (e) {
      console.error(e);
      setError("Failed to fetch road data or live traffic.");
    } finally {
      setLoading(false);
    }
  };
  \<close>
  The outcome of \<open>getRoads\<close> is the list \<open>r.data.roads || []\<close> of its response, or an
  error when the request fails or its response has no \<open>data\<close>. \<open>load_try\<close> is the
  block of the \<open>try\<close>, \<open>load_async\<close> the function, \<open>load\<close> the state it ends in.
\<close>

definition Dashboard_mount :: "(jsval \<Rightarrow> jsnum) \<Rightarrow> storage \<Rightarrow> dashboard" where
  "Dashboard_mount cv st =
     \<lparr>city = init_city st,
      segmentsNum = init_number cv st ''trafficSegments'' (Fin 5),
      timeSteps = init_number cv st ''trafficTimeSteps'' (Fin 10),
      loading = False, co2Value = None,
      data = [], predictions = Map.empty, error = []\<rparr>"

definition load_try ::
  "(jsval \<Rightarrow> jsnum) \<Rightarrow> (rat \<Rightarrow> jsnum) \<Rightarrow> (string \<Rightarrow> string)
   \<Rightarrow> road list outcome \<Rightarrow> response outcome \<times> response outcome \<Rightarrow> (nat \<Rightarrow> nat \<times> jsval outcome)
   \<Rightarrow> storage \<times> dashboard \<Rightarrow> (storage \<times> dashboard) run" where
  "load_try cv rnd prettifyRoadName getRoads fetched getLiveTraffic sd =
     (case sd of (st, d) \<Rightarrow>
        (case getRoads of
           Rejected e \<Rightarrow> Inl (e, sd)
         | Resolved rs \<Rightarrow>
             (case fetchCO2ForCity cv rnd fetched of
                Inl e \<Rightarrow> Inl (e, sd)
              | Inr co2 \<Rightarrow>
                  (let list = normalizeRoads rs (segmentsNum d);
                       settled = settling_order getLiveTraffic list;
                       rows = map (\<lambda>ir. live_row cv rnd prettifyRoadName (snd ir)
                                            (snd (getLiveTraffic (fst ir)))) settled;
                       preds = load_preds cv rnd getLiveTraffic settled Map.empty
                   in Inr (st, d\<lparr>data := rows, predictions := preds, co2Value := co2\<rparr>)))))"

definition load_async ::
  "(jsval \<Rightarrow> jsnum) \<Rightarrow> (rat \<Rightarrow> jsnum) \<Rightarrow> (jsval \<Rightarrow> string) \<Rightarrow> (string \<Rightarrow> string)
   \<Rightarrow> road list outcome \<Rightarrow> response outcome \<times> response outcome \<Rightarrow> (nat \<Rightarrow> nat \<times> jsval outcome)
   \<Rightarrow> storage \<times> dashboard \<Rightarrow> (storage \<times> dashboard) run" where
  "load_async cv rnd ns prettifyRoadName getRoads fetched getLiveTraffic sd =
     (case sd of (st, d) \<Rightarrow>
        try_finally
          (try_catch
             (load_try cv rnd prettifyRoadName getRoads fetched getLiveTraffic
                (save_preferences ns (city d) (segmentsNum d) (timeSteps d) st,
                 d\<lparr>loading := True, error := [], data := [], predictions := Map.empty,
                   co2Value := None\<rparr>))
             (\<lambda>e s. case s of (st', d') \<Rightarrow>
                Inr (st', d'\<lparr>error := ''Failed to fetch road data or live traffic.''\<rparr>)))
          (\<lambda>s. case s of (st', d') \<Rightarrow> (st', d'\<lparr>loading := False\<rparr>)))"

definition load ::
  "(jsval \<Rightarrow> jsnum) \<Rightarrow> (rat \<Rightarrow> jsnum) \<Rightarrow> (jsval \<Rightarrow> string) \<Rightarrow> (string \<Rightarrow> string)
   \<Rightarrow> road list outcome \<Rightarrow> response outcome \<times> response outcome \<Rightarrow> (nat \<Rightarrow> nat \<times> jsval outcome)
   \<Rightarrow> storage \<times> dashboard \<Rightarrow> storage \<times> dashboard" where
  "load cv rnd ns prettifyRoadName getRoads fetched getLiveTraffic sd =
     ended (load_async cv rnd ns prettifyRoadName getRoads fetched getLiveTraffic sd)"

section \<open>Dashboard: loading the prediction\<close>

text \<open>
  \<^verbatim>\<open>
  const loadPredictive = async () => {
    setLoading(true);
    setError("");
    setData([]);
    setPredictions({});
    try {
      const r = await getRoads(city, segmentsNum * 3);
      const list = normalizeRoads(r.data.roads || [], segmentsNum);
      const rows = {};
      const preds = {};
      for (const road of list) {
        const res = await predictToday(road.id, 30, timeSteps,city);
        const d = res.data;
        preds[road.id] = d.predicted_today;
        rows[road.id] = {
          segment: road.id,
          name: prettifyRoadName(road.name || road.id),
          shortName: prettifyRoadName(road.name || road.id, { short: true }),
          avg_7d: d.avg_7d,
          predicted: d.predicted_today,
          rawName: road.name || road.id
        };
      }
      setData(Object.values(rows));
      setPredictions(preds);
    } catch (e) {
      setError("Failed to load predictive traffic");
    } finally {
      setLoading(false);
    }
  };
  \<close>
  The requests go one after the other; \<open>predictToday i\<close> is the outcome of the request
  for the road at place \<open>i\<close>. \<open>Object.values\<close> of the object that a list of assignments
  builds is the parameter \<open>objectValues\<close>, and \<open>prettifyRoadName\<close> with \<open>short: true\<close>
  the parameter \<open>prettifyShort\<close>.
\<close>

fun predict_rows ::
  "(string \<Rightarrow> string) \<Rightarrow> (string \<Rightarrow> string) \<Rightarrow> (nat \<Rightarrow> jsval outcome) \<Rightarrow> (nat \<times> road) list
   \<Rightarrow> (string \<times> jsval) list \<times> (string \<rightharpoonup> jsval)
   \<Rightarrow> error + (string \<times> jsval) list \<times> (string \<rightharpoonup> jsval)" where
  "predict_rows prettifyRoadName prettifyShort predictToday [] acc = Inr acc"
| "predict_rows prettifyRoadName prettifyShort predictToday (ir # rest) acc =
     (case predictToday (fst ir) of
        Rejected e \<Rightarrow> Inl e
      | Resolved res \<Rightarrow>
          if nullish res \<or> nullish (get_prop res ''data'') then Inl TypeError
          else
            (let d = get_prop res ''data''; road = snd ir in
               predict_rows prettifyRoadName prettifyShort predictToday rest
                 (fst acc @
                    [(rid road,
                      Obj [(''segment'', Str (rid road)),
                           (''name'', Str (prettifyRoadName (name_or_id road))),
                           (''shortName'', Str (prettifyShort (name_or_id road))),
                           (''avg_7d'', get_prop d ''avg_7d''),
                           (''predicted'', get_prop d ''predicted_today''),
                           (''rawName'', Str (name_or_id road))])],
                  (snd acc)(rid road \<mapsto> get_prop d ''predicted_today''))))"

definition loadPredictive_try ::
  "(string \<Rightarrow> string) \<Rightarrow> (string \<Rightarrow> string) \<Rightarrow> ((string \<times> jsval) list \<Rightarrow> jsval list)
   \<Rightarrow> road list outcome \<Rightarrow> (nat \<Rightarrow> jsval outcome) \<Rightarrow> dashboard \<Rightarrow> dashboard run" where
  "loadPredictive_try prettifyRoadName prettifyShort objectValues getRoads predictToday d =
     (case getRoads of
        Rejected e \<Rightarrow> Inl (e, d)
      | Resolved rs \<Rightarrow>
          (case predict_rows prettifyRoadName prettifyShort predictToday
                  (enumerate 0 (normalizeRoads rs (segmentsNum d))) ([], Map.empty) of
             Inl e \<Rightarrow> Inl (e, d)
           | Inr (rows, preds) \<Rightarrow> Inr (d\<lparr>data := objectValues rows, predictions := preds\<rparr>)))"

definition loadPredictive_async ::
  "(string \<Rightarrow> string) \<Rightarrow> (string \<Rightarrow> string) \<Rightarrow> ((string \<times> jsval) list \<Rightarrow> jsval list)
   \<Rightarrow> road list outcome \<Rightarrow> (nat \<Rightarrow> jsval outcome) \<Rightarrow> dashboard \<Rightarrow> dashboard run" where
  "loadPredictive_async prettifyRoadName prettifyShort objectValues getRoads predictToday d =
     try_finally
       (try_catch
          (loadPredictive_try prettifyRoadName prettifyShort objectValues getRoads predictToday
             (d\<lparr>loading := True, error := [], data := [], predictions := Map.empty\<rparr>))
          (\<lambda>e d'. Inr (d'\<lparr>error := ''Failed to load predictive traffic''\<rparr>)))
       (\<lambda>d'. d'\<lparr>loading := False\<rparr>)"

section \<open>MapView: loading the map\<close>

record mapview = page_state +
  center :: "jsval \<times> jsval"
  mv_roads :: "road list"
  mv_severity :: "string \<rightharpoonup> jsval"
  coordsRef :: "jsval list option"
  indiaFeature :: jsval
  maskGeo :: jsval
  borderGeo :: jsval
  alerts :: "string list"

definition MapView_mount :: "(jsval \<Rightarrow> jsnum) \<Rightarrow> storage \<Rightarrow> mapview" where
  "MapView_mount cv st =
     \<lparr>city = init_city st,
      segmentsNum = init_number cv st ''trafficSegments'' (Fin 5),
      timeSteps = init_number cv st ''trafficTimeSteps'' (Fin 10),
      loading = True, co2Value = None,
      center = (Num (Fin (19076 / 1000)), Num (Fin (728777 / 10000))),
      mv_roads = [], mv_severity = Map.empty, coordsRef = None,
      indiaFeature = Null, maskGeo = Null, borderGeo = Null, alerts = []\<rparr>"

text \<open>
  \<^verbatim>\<open>
          try {
            const coords = road.coordinates || [];
            const mid = coords[Math.floor(coords.length / 2)] || coords[0] || [0, 0];
            const lat = mid[0];
            const lon = mid[1];
            const t = await getLiveTraffic(road.id, lat, lon, city);
            const s = t.data?.severity ?? Math.round((t.data?.jamFactor ?? 0) * 10 * 10);
            sevMap[road.id] = s;
          } catch {
            sevMap[road.id] = 0;
          }
  \<close>
\<close>

definition road_severity ::
  "(jsval \<Rightarrow> jsnum) \<Rightarrow> (rat \<Rightarrow> jsnum) \<Rightarrow> jsval outcome \<Rightarrow> jsval" where
  "road_severity cv rnd outcome =
     (case outcome of
        Rejected e \<Rightarrow> Num (Fin 0)
      | Resolved t \<Rightarrow>
          if nullish t then Num (Fin 0)
          else coalesce (get_prop (get_prop t ''data'') ''severity'')
                 (Num (math_round (js_mul rnd
                    (js_mul rnd (Number_js cv (coalesce (get_prop (get_prop t ''data'') ''jamFactor'')
                                                 (Num (Fin 0)))) (Fin 10))
                    (Fin 10)))))"

fun load_severities ::
  "(jsval \<Rightarrow> jsnum) \<Rightarrow> (rat \<Rightarrow> jsnum) \<Rightarrow> (nat \<Rightarrow> nat \<times> jsval outcome) \<Rightarrow> (nat \<times> road) list
   \<Rightarrow> (string \<rightharpoonup> jsval) \<Rightarrow> (string \<rightharpoonup> jsval)" where
  "load_severities cv rnd getLiveTraffic [] sevMap = sevMap"
| "load_severities cv rnd getLiveTraffic (ir # rest) sevMap =
     load_severities cv rnd getLiveTraffic rest
       (sevMap(rid (snd ir) \<mapsto> road_severity cv rnd (snd (getLiveTraffic (fst ir)))))"

text \<open>
  \<^verbatim>\<open>
  const loadMapData = async (cityArg, segmentsArg, timeStepsArg) => {
    setLoading(true);
    try {
      const [r, co2] = await Promise.all([getRoads(cityArg, segmentsArg * 3), fetchCO2ForCity(cityArg)]);
      const raw = r.data?.roads || [];
      const list = normalizeRoads(raw, segmentsArg);
      setRoads(list);
      setCo2Value(co2 || null);
      if (list.length) {
        coordsRef.current = list.map((x) => x.coordinates);
        const c = list[0].coordinates[0];
        setCenter([c[0], c[1]]);
      } else {
        coordsRef.current = null;
      }
      const sevMap = {};
      await Promise.all(list.slice(0, 40).map(async (road) => { try { ... } catch { sevMap[road.id] = 0; } }));
      setSeverity(sevMap);
    } catch (e) {
      console.error(e);
    } finally {
      setLoading(false);
    }
  };
  \<close>
  The page has no state for an error. The outcome of \<open>getRoads\<close> is the list
  \<open>r.data?.roads || []\<close> of its response. Reading \<open>c[0]\<close> of a first coordinate \<open>c\<close>
  that is \<open>null\<close> throws, and the \<open>catch\<close> of the function takes it.
\<close>

definition loadMapData_try ::
  "(jsval \<Rightarrow> jsnum) \<Rightarrow> (rat \<Rightarrow> jsnum) \<Rightarrow> road list outcome \<Rightarrow> response outcome \<times> response outcome
   \<Rightarrow> (nat \<Rightarrow> nat \<times> jsval outcome) \<Rightarrow> jsnum \<Rightarrow> mapview \<Rightarrow> mapview run" where
  "loadMapData_try cv rnd getRoads fetched getLiveTraffic segmentsArg m =
     (case getRoads of
        Rejected e \<Rightarrow> Inl (e, m)
      | Resolved raw \<Rightarrow>
          (case fetchCO2ForCity cv rnd fetched of
             Inl e \<Rightarrow> Inl (e, m)
           | Inr co2 \<Rightarrow>
               (let list = normalizeRoads raw segmentsArg;
                    m2 = m\<lparr>mv_roads := list, co2Value := co2\<rparr>
                in if list \<noteq> [] \<and> nullish (get_idx (coordinates (list ! 0)) 0) then
                     Inl (TypeError, m2\<lparr>coordsRef := Some (map coordinates list)\<rparr>)
                   else
                     (let m3 = (if list \<noteq> []
                                then m2\<lparr>coordsRef := Some (map coordinates list),
                                        center := (get_idx (get_idx (coordinates (list ! 0)) 0) 0,
                                                   get_idx (get_idx (coordinates (list ! 0)) 0) 1)\<rparr>
                                else m2\<lparr>coordsRef := None\<rparr>)
                      in Inr (m3\<lparr>mv_severity :=
                                 load_severities cv rnd getLiveTraffic
                                   (settling_order getLiveTraffic (take 40 list)) Map.empty\<rparr>)))))"

definition loadMapData_async ::
  "(jsval \<Rightarrow> jsnum) \<Rightarrow> (rat \<Rightarrow> jsnum) \<Rightarrow> road list outcome \<Rightarrow> response outcome \<times> response outcome
   \<Rightarrow> (nat \<Rightarrow> nat \<times> jsval outcome) \<Rightarrow> jsnum \<Rightarrow> mapview \<Rightarrow> mapview run" where
  "loadMapData_async cv rnd getRoads fetched getLiveTraffic segmentsArg m =
     try_finally
       (try_catch
          (loadMapData_try cv rnd getRoads fetched getLiveTraffic segmentsArg (m\<lparr>loading := True\<rparr>))
          (\<lambda>e m'. Inr m'))
       (\<lambda>m'. m'\<lparr>loading := False\<rparr>)"

definition loadMapData ::
  "(jsval \<Rightarrow> jsnum) \<Rightarrow> (rat \<Rightarrow> jsnum) \<Rightarrow> road list outcome \<Rightarrow> response outcome \<times> response outcome
   \<Rightarrow> (nat \<Rightarrow> nat \<times> jsval outcome) \<Rightarrow> jsnum \<Rightarrow> mapview \<Rightarrow> mapview" where
  "loadMapData cv rnd getRoads fetched getLiveTraffic segmentsArg m =
     ended (loadMapData_async cv rnd getRoads fetched getLiveTraffic segmentsArg m)"

text \<open>
  \<^verbatim>\<open>
  const handleSearch = (e) => {
    e.preventDefault();
    if (typeof window !== "undefined") {
      localStorage.setItem("trafficCity", city);
      localStorage.setItem("trafficSegments", String(segmentsNum));
      localStorage.setItem("trafficTimeSteps", String(timeSteps));
    }
    loadMapData(city, segmentsNum, timeSteps);
  };
  const handleCopy = (id) => {
    try { navigator.clipboard?.writeText(id); alert("Copied: " + id); } catch { }
  };
  \<close>
\<close>

definition handleSearch ::
  "(jsval \<Rightarrow> jsnum) \<Rightarrow> (rat \<Rightarrow> jsnum) \<Rightarrow> (jsval \<Rightarrow> string) \<Rightarrow> road list outcome
   \<Rightarrow> response outcome \<times> response outcome \<Rightarrow> (nat \<Rightarrow> nat \<times> jsval outcome)
   \<Rightarrow> storage \<times> mapview \<Rightarrow> storage \<times> mapview" where
  "handleSearch cv rnd ns getRoads fetched getLiveTraffic sm =
     (case sm of (st, m) \<Rightarrow>
        (save_preferences ns (city m) (segmentsNum m) (timeSteps m) st,
         loadMapData cv rnd getRoads fetched getLiveTraffic (segmentsNum m) m))"

definition handleCopy :: "string \<Rightarrow> mapview \<Rightarrow> mapview" where
  "handleCopy i m = m\<lparr>alerts := alerts m @ [''Copied: '' @ i]\<rparr>"

section \<open>MapView: the outline of India\<close>

text \<open>
  \<^verbatim>\<open>
    let cancelled = false;
    async function fetchIndia() {
      const localUrl = "/india.geojson";
      try {
        const rlocal = await fetch(localUrl, { cache: "no-cache" });
        if (rlocal.ok) {
          const j = await rlocal.json();
          if (!cancelled) {
            let feat = null;
            if (j.type === "FeatureCollection") {
              feat = j.features?.find((f) => ...);
              if (!feat) feat = j.features && j.features.length ? j.features[0] : null;
            } else if (j.type === "Feature") {
              feat = j;
            }
            if (feat) {
              setIndiaFeature(feat);
              setBorderGeo(feat);
              const mask = buildIndiaMaskGeoJSON(feat);
              setMaskGeo(mask);
              return;
            }
          }
        }
      } catch (e) {
        // ignore local error and fall back
      }
      try {
        const rf = await fetch(FALLBACK_COUNTRIES_GEOJSON, { cache: "no-cache" });
        if (!rf.ok) return;
        const jf = await rf.json();
        if (cancelled) return;
        if (jf.type === "FeatureCollection") {
          const feat = jf.features.find((f) => ...) || jf.features.find((f) => ...);
          if (feat) {
            setIndiaFeature(feat);
            setBorderGeo(feat);
            const mask = buildIndiaMaskGeoJSON(feat);
            setMaskGeo(mask);
          }
        }
      } catch (err) {
        // silent
      }
    }
  \<close>
  The searches \<open>j.features?.find(...)\<close> and \<open>jf.features.find(...) || jf.features.find(...)\<close>
  and the function \<open>buildIndiaMaskGeoJSON\<close> are parameters; each gives a value or
  throws. \<open>cancelled\<close> is read twice, after each of the two bodies has come.
\<close>

text \<open>\<open>v && v.length\<close> is truthy\<close>

definition has_length :: "jsval \<Rightarrow> bool" where
  "has_length v =
     (case v of
        Arr xs \<Rightarrow> xs \<noteq> []
      | Str s \<Rightarrow> s \<noteq> []
      | Obj kv \<Rightarrow> truthy (get_prop (Obj kv) ''length'')
      | _ \<Rightarrow> False)"

text \<open>
  The first \<open>try\<close> block: it throws, or returns from the function (\<open>True\<close>), or comes
  to its end (\<open>False\<close>).
\<close>

definition fetchIndia_local ::
  "(jsval \<Rightarrow> error + jsval) \<Rightarrow> (jsval \<Rightarrow> error + jsval) \<Rightarrow> response outcome \<Rightarrow> bool
   \<Rightarrow> mapview \<Rightarrow> (bool \<times> mapview) run" where
  "fetchIndia_local findIndia buildIndiaMaskGeoJSON rlocal cancelled m =
     (case rlocal of
        Rejected e \<Rightarrow> Inl (e, (False, m))
      | Resolved res \<Rightarrow>
          if \<not> res_ok res then Inr (False, m)
          else
            (case res_json res of
               Rejected e \<Rightarrow> Inl (e, (False, m))
             | Resolved j \<Rightarrow>
                 if cancelled then Inr (False, m)
                 else if nullish j then Inl (TypeError, (False, m))
                 else
                   (case (if get_prop j ''type'' = Str ''FeatureCollection'' then
                            (case findIndia j of
                               Inl e \<Rightarrow> Inl e
                             | Inr f \<Rightarrow>
                                 Inr (if \<not> truthy f
                                      then (if has_length (get_prop j ''features'')
                                            then get_idx (get_prop j ''features'') 0 else Null)
                                      else f))
                          else if get_prop j ''type'' = Str ''Feature'' then Inr j
                          else Inr Null) of
                      Inl e \<Rightarrow> Inl (e, (False, m))
                    | Inr feat \<Rightarrow>
                        if truthy feat then
                          (case buildIndiaMaskGeoJSON feat of
                             Inl e \<Rightarrow> Inl (e, (False, m\<lparr>indiaFeature := feat, borderGeo := feat\<rparr>))
                           | Inr maskPoly \<Rightarrow>
                               Inr (True, m\<lparr>indiaFeature := feat, borderGeo := feat,
                                            maskGeo := maskPoly\<rparr>))
                        else Inr (False, m))))"

definition fetchIndia_fallback ::
  "(jsval \<Rightarrow> error + jsval) \<Rightarrow> (jsval \<Rightarrow> error + jsval) \<Rightarrow> response outcome \<Rightarrow> bool
   \<Rightarrow> mapview \<Rightarrow> mapview run" where
  "fetchIndia_fallback findFallback buildIndiaMaskGeoJSON rf cancelled m =
     (case rf of
        Rejected e \<Rightarrow> Inl (e, m)
      | Resolved res \<Rightarrow>
          if \<not> res_ok res then Inr m
          else
            (case res_json res of
               Rejected e \<Rightarrow> Inl (e, m)
             | Resolved jf \<Rightarrow>
                 if cancelled then Inr m
                 else if nullish jf then Inl (TypeError, m)
                 else if get_prop jf ''type'' = Str ''FeatureCollection'' then
                   (case findFallback jf of
                      Inl e \<Rightarrow> Inl (e, m)
                    | Inr feat \<Rightarrow>
                        if truthy feat then
                          (case buildIndiaMaskGeoJSON feat of
                             Inl e \<Rightarrow> Inl (e, m\<lparr>indiaFeature := feat, borderGeo := feat\<rparr>)
                           | Inr maskPoly \<Rightarrow>
                               Inr (m\<lparr>indiaFeature := feat, borderGeo := feat, maskGeo := maskPoly\<rparr>))
                        else Inr m)
                 else Inr m))"

definition fetchIndia_async ::
  "(jsval \<Rightarrow> error + jsval) \<Rightarrow> (jsval \<Rightarrow> error + jsval) \<Rightarrow> (jsval \<Rightarrow> error + jsval)
   \<Rightarrow> response outcome \<Rightarrow> response outcome \<Rightarrow> bool \<Rightarrow> bool \<Rightarrow> mapview \<Rightarrow> mapview run" where
  "fetchIndia_async findIndia findFallback buildIndiaMaskGeoJSON rlocal rf cancelled1 cancelled2 m =
     (case try_catch (fetchIndia_local findIndia buildIndiaMaskGeoJSON rlocal cancelled1 m)
             (\<lambda>e s. Inr (False, snd s)) of
        Inl (e, s) \<Rightarrow> Inl (e, snd s)
      | Inr (returned, m') \<Rightarrow>
          if returned then Inr m'
          else try_catch (fetchIndia_fallback findFallback buildIndiaMaskGeoJSON rf cancelled2 m')
                 (\<lambda>e s. Inr s))"

section \<open>EmergencyCorridor: requests\<close>

text \<open>
  \<^verbatim>\<open>
  async function call(endpoint, method = "GET", body = null) {
    const res = await fetch(API + endpoint, { method, headers: { ... },
      body: body ? JSON.stringify(body) : null });
    if (!res.ok) throw new Error(await res.text());
    return res.json();
  }
  async function callGet(endpointWithQuery) {
    const res = await fetch(API + endpointWithQuery, { headers: { "x-api-key": API_KEY } });
    if (!res.ok) throw new Error(await res.text());
    return res.json();
  }
  \<close>
  What the \<open>fetch\<close> gives is the input; the value returned, or the error thrown, is the
  result.
\<close>

definition call :: "response outcome \<Rightarrow> error + jsval" where
  "call fetched =
     (case fetched of
        Rejected e \<Rightarrow> Inl e
      | Resolved res \<Rightarrow>
          if \<not> res_ok res then
            (case res_text res of Rejected e \<Rightarrow> Inl e | Resolved t \<Rightarrow> Inl (Error t))
          else (case res_json res of Rejected e \<Rightarrow> Inl e | Resolved j \<Rightarrow> Inr j))"

definition callGet :: "response outcome \<Rightarrow> error + jsval" where
  "callGet fetched =
     (case fetched of
        Rejected e \<Rightarrow> Inl e
      | Resolved res \<Rightarrow>
          if \<not> res_ok res then
            (case res_text res of Rejected e \<Rightarrow> Inl e | Resolved t \<Rightarrow> Inl (Error t))
          else (case res_json res of Rejected e \<Rightarrow> Inl e | Resolved j \<Rightarrow> Inr j))"

text \<open>
  The state of the page. \<open>origin\<close>, \<open>destination\<close> and \<open>ambulancePos\<close> are objects
  \<open>{ lat, lon }\<close>, here pairs; \<open>scheduled\<close> holds the positions that a timer of 50 ms
  is to give \<open>ambulancePos\<close>; \<open>toast\<close> is the message shown (the timer that takes it
  away is left out); \<open>ec_alerts\<close> holds the texts of the calls of \<open>alert\<close>.
\<close>

record corridor =
  vehicleId :: string
  origin :: "jsval \<times> jsval"
  destination :: "jsval \<times> jsval"
  originAddress :: string
  destinationAddress :: string
  requestId :: jsval
  status :: jsval
  alternatives :: jsval
  route :: jsval
  ambulancePos :: "(jsval \<times> jsval) option"
  scheduled :: "(jsval \<times> jsval) list"
  ec_loading :: bool
  toast :: "string option"
  ec_alerts :: "string list"

text \<open>
  The page as it is mounted:
  \<^verbatim>\<open>
  const [vehicleId, setVehicleId] = useState("AMB101");
  const [origin, setOrigin] = useState({ lat: 19.076, lon: 72.8777 });
  const [destination, setDestination] = useState({ lat: 19.2147, lon: 72.978 });
  const [originAddress, setOriginAddress] = useState("Andheri, Mumbai");
  const [destinationAddress, setDestinationAddress] = useState("Fort, Mumbai");
  const [requestId, setRequestId] = useState(null);
  const [status, setStatus] = useState(null);
  const [alternatives, setAlternatives] = useState([]);
  const [route, setRoute] = useState(null);
  const [ambulancePos, setAmbulancePos] = useState(null);
  const [loading, setLoading] = useState(false);
  const [toast, setToast] = useState(null);
  \<close>
\<close>

definition EmergencyCorridor_mount :: corridor where
  "EmergencyCorridor_mount =
     \<lparr>vehicleId = ''AMB101'',
      origin = (Num (Fin (19076 / 1000)), Num (Fin (728777 / 10000))),
      destination = (Num (Fin (192147 / 10000)), Num (Fin (72978 / 1000))),
      originAddress = ''Andheri, Mumbai'', destinationAddress = ''Fort, Mumbai'',
      requestId = Null, status = Null, alternatives = Arr [], route = Null,
      ambulancePos = None, scheduled = [], ec_loading = False, toast = None, ec_alerts = []\<rparr>"

text \<open>
  \<^verbatim>\<open>
  async function geocodeOrigin() {
    if (!originAddress.trim()) return alert("Enter origin address");
    try {
      setLoading(true);
      const q = encodeURIComponent(originAddress.trim());
      const geo = await callGet(`/api/geocode?address=${q}`);
      setOrigin({ lat: geo.lat, lon: geo.lon });
      setTimeout(() => setAmbulancePos({ lat: geo.lat, lon: geo.lon }), 50);
    } catch {
      alert("Failed to geocode origin");
    } finally {
      setLoading(false);
    }
  }
  \<close>
\<close>

definition geocodeOrigin_async :: "response outcome \<Rightarrow> corridor \<Rightarrow> corridor run" where
  "geocodeOrigin_async fetched c =
     (if js_trim (originAddress c) = [] then
        Inr (c\<lparr>ec_alerts := ec_alerts c @ [''Enter origin address'']\<rparr>)
      else
        try_finally
          (try_catch
             (case callGet fetched of
                Inl e \<Rightarrow> Inl (e, c\<lparr>ec_loading := True\<rparr>)
              | Inr geo \<Rightarrow>
                  if nullish geo then Inl (TypeError, c\<lparr>ec_loading := True\<rparr>)
                  else Inr (c\<lparr>ec_loading := True,
                               origin := (get_prop geo ''lat'', get_prop geo ''lon''),
                               scheduled := scheduled c @ [(get_prop geo ''lat'', get_prop geo ''lon'')]\<rparr>))
             (\<lambda>e s. Inr (s\<lparr>ec_alerts := ec_alerts s @ [''Failed to geocode origin'']\<rparr>)))
          (\<lambda>s. s\<lparr>ec_loading := False\<rparr>))"

text \<open>
  \<^verbatim>\<open>
  async function geocodeDestination() {
    if (!destinationAddress.trim()) return alert("Enter destination address");
    try {
      setLoading(true);
      const q = encodeURIComponent(destinationAddress.trim());
      const geo = await callGet(`/api/geocode?address=${q}`);
      setDestination({ lat: geo.lat, lon: geo.lon });
      setTimeout(() => setAmbulancePos({ lat: geo.lat, lon: geo.lon }), 50);
    } catch {
      alert("Failed to geocode destination");
    } finally {
      setLoading(false);
    }
  }
  \<close>
\<close>

definition geocodeDestination_async :: "response outcome \<Rightarrow> corridor \<Rightarrow> corridor run" where
  "geocodeDestination_async fetched c =
     (if js_trim (destinationAddress c) = [] then
        Inr (c\<lparr>ec_alerts := ec_alerts c @ [''Enter destination address'']\<rparr>)
      else
        try_finally
          (try_catch
             (case callGet fetched of
                Inl e \<Rightarrow> Inl (e, c\<lparr>ec_loading := True\<rparr>)
              | Inr geo \<Rightarrow>
                  if nullish geo then Inl (TypeError, c\<lparr>ec_loading := True\<rparr>)
                  else Inr (c\<lparr>ec_loading := True,
                               destination := (get_prop geo ''lat'', get_prop geo ''lon''),
                               scheduled := scheduled c @ [(get_prop geo ''lat'', get_prop geo ''lon'')]\<rparr>))
             (\<lambda>e s. Inr (s\<lparr>ec_alerts := ec_alerts s @ [''Failed to geocode destination'']\<rparr>)))
          (\<lambda>s. s\<lparr>ec_loading := False\<rparr>))"

text \<open>
  \<^verbatim>\<open>
  async function createRequest() {
    try {
      setLoading(true);
      const res = await call("/api/emergency/request", "POST", { ... });
      if (res.request_id) {
        setRequestId(res.request_id);
        setRoute(res.route);
        setAmbulancePos({ lat: Number(origin.lat), lon: Number(origin.lon) });
        const alts = res.corridor_plan?.alternatives ?? res.alternatives ?? [];
        setAlternatives(alts);
        setStatus(null);
        showToast(`Corridor created \<bullet> Signals synchronized \<bullet> Route optimized \<bullet> Traffic cleared`);
        console.log("createRequest => route", res.route);
        console.log("createRequest => alternatives", alts);
      }
    } catch (err) {
      console.error(err);
      alert("Failed to create emergency request");
    } finally {
      setLoading(false);
    }
  }
  \<close>
\<close>

definition bullet :: string where
  "bullet = [CHR 0xE2, CHR 0x80, CHR 0xA2]"

definition createRequest_async ::
  "(jsval \<Rightarrow> jsnum) \<Rightarrow> response outcome \<Rightarrow> corridor \<Rightarrow> corridor run" where
  "createRequest_async cv fetched c =
     try_finally
       (try_catch
          (case call fetched of
             Inl e \<Rightarrow> Inl (e, c\<lparr>ec_loading := True\<rparr>)
           | Inr res \<Rightarrow>
               if nullish res then Inl (TypeError, c\<lparr>ec_loading := True\<rparr>)
               else if truthy (get_prop res ''request_id'') then
                 Inr (c\<lparr>ec_loading := True,
                        requestId := get_prop res ''request_id'',
                        route := get_prop res ''route'',
                        ambulancePos := Some (Num (Number_js cv (fst (origin c))),
                                              Num (Number_js cv (snd (origin c)))),
                        alternatives :=
                          coalesce (coalesce (get_prop (get_prop res ''corridor_plan'') ''alternatives'')
                                             (get_prop res ''alternatives''))
                                   (Arr []),
                        status := Null,
                        toast := Some (''Corridor created '' @ bullet @ '' Signals synchronized ''
                                       @ bullet @ '' Route optimized '' @ bullet
                                       @ '' Traffic cleared'')\<rparr>)
               else Inr (c\<lparr>ec_loading := True\<rparr>))
          (\<lambda>e s. Inr (s\<lparr>ec_alerts := ec_alerts s @ [''Failed to create emergency request'']\<rparr>)))
       (\<lambda>s. s\<lparr>ec_loading := False\<rparr>)"

text \<open>
  \<^verbatim>\<open>
  async function updatePosition() {
    if (!requestId) return alert("Create request first!");
    try {
      setLoading(true);
      const newLat = Number(origin.lat) + (Math.random() - 0.5) * 0.01;
      const newLon = Number(origin.lon) + (Math.random() - 0.5) * 0.01;
      await call("/api/emergency/update_position", "POST", { ... });
      setAmbulancePos({ lat: newLat, lon: newLon });
    } catch {
      alert("Failed to update position");
    } finally {
      setLoading(false);
    }
  }
  \<close>
  \<open>r1\<close> and \<open>r2\<close> are what the two calls of \<open>Math.random\<close> give; the literal \<open>0.01\<close>
  is the double that stands for 1/100.
\<close>

definition jitter :: "(jsval \<Rightarrow> jsnum) \<Rightarrow> (rat \<Rightarrow> jsnum) \<Rightarrow> jsval \<Rightarrow> rat \<Rightarrow> jsnum" where
  "jitter cv rnd v r =
     js_add rnd (Number_js cv v) (js_mul rnd (js_add rnd (Fin r) (Fin (- 1 / 2))) (rnd (1 / 100)))"

definition updatePosition_async ::
  "(jsval \<Rightarrow> jsnum) \<Rightarrow> (rat \<Rightarrow> jsnum) \<Rightarrow> rat \<Rightarrow> rat \<Rightarrow> response outcome \<Rightarrow> corridor
   \<Rightarrow> corridor run" where
  "updatePosition_async cv rnd r1 r2 fetched c =
     (if \<not> truthy (requestId c) then
        Inr (c\<lparr>ec_alerts := ec_alerts c @ [''Create request first!'']\<rparr>)
      else
        try_finally
          (try_catch
             (case call fetched of
                Inl e \<Rightarrow> Inl (e, c\<lparr>ec_loading := True\<rparr>)
              | Inr ack \<Rightarrow>
                  Inr (c\<lparr>ec_loading := True,
                         ambulancePos := Some (Num (jitter cv rnd (fst (origin c)) r1),
                                               Num (jitter cv rnd (snd (origin c)) r2))\<rparr>))
             (\<lambda>e s. Inr (s\<lparr>ec_alerts := ec_alerts s @ [''Failed to update position'']\<rparr>)))
          (\<lambda>s. s\<lparr>ec_loading := False\<rparr>))"

text \<open>
  \<^verbatim>\<open>
  async function checkStatus() {
    if (!requestId) return alert("Create request first!");
    try {
      setLoading(true);
      const s = await call(`/api/emergency/status/${requestId}`, "GET");
      setStatus(s);
      if (s.status === "active") showToast(`Request ${requestId || s.request_id} is active`);
      setRoute(s.route ?? s);
      const alts =
        s.corridor_plan?.alternatives ??
        s.alternatives ??
        (s.route?.corridor_plan?.alternatives ?? s.route?.alternatives) ??
        [];
      setAlternatives(alts);
      console.log("checkStatus => route", s.route);
      console.log("checkStatus => alternatives (resolved)", alts);
    } catch (err) {
      console.error(err);
      alert("Failed to fetch status");
    } finally {
      setLoading(false);
    }
  }
  \<close>
\<close>

definition checkStatus_async ::
  "(jsval \<Rightarrow> string) \<Rightarrow> response outcome \<Rightarrow> corridor \<Rightarrow> corridor run" where
  "checkStatus_async ns fetched c =
     (if \<not> truthy (requestId c) then
        Inr (c\<lparr>ec_alerts := ec_alerts c @ [''Create request first!'']\<rparr>)
      else
        try_finally
          (try_catch
             (case call fetched of
                Inl e \<Rightarrow> Inl (e, c\<lparr>ec_loading := True\<rparr>)
              | Inr s \<Rightarrow>
                  if nullish s then Inl (TypeError, c\<lparr>ec_loading := True, status := s\<rparr>)
                  else
                    Inr (c\<lparr>ec_loading := True,
                           status := s,
                           toast := (if get_prop s ''status'' = Str ''active''
                                     then Some (''Request ''
                                                @ String_js ns (js_or (requestId c) (get_prop s ''request_id''))
                                                @ '' is active'')
                                     else toast c),
                           route := coalesce (get_prop s ''route'') s,
                           alternatives :=
                             coalesce
                               (coalesce
                                  (coalesce (get_prop (get_prop s ''corridor_plan'') ''alternatives'')
                                            (get_prop s ''alternatives''))
                                  (coalesce (get_prop (get_prop (get_prop s ''route'') ''corridor_plan'')
                                               ''alternatives'')
                                            (get_prop (get_prop s ''route'') ''alternatives'')))
                               (Arr [])\<rparr>))
             (\<lambda>e s. Inr (s\<lparr>ec_alerts := ec_alerts s @ [''Failed to fetch status'']\<rparr>)))
          (\<lambda>s. s\<lparr>ec_loading := False\<rparr>))"

section \<open>AirQuality: loading the air quality\<close>

text \<open>
  \<^verbatim>\<open>
  async function geocodeCity(name) {
    const res = await fetch(...);
    if (!res.ok) throw new Error("Failed to geocode city");
    const data = await res.json();
    if (!data.results || data.results.length === 0) {
      throw new Error("Location not found");
    }
    const { latitude, longitude, name: resolvedName, country } = data.results[0];
    const renameMap = { "Calcutta": "Kolkata", "Bombay": "Mumbai", "Bangalore": "Bengaluru",
      "Madras": "Chennai" };
    const fixedName = renameMap[resolvedName] || resolvedName;
    return { lat: latitude, lon: longitude,
      label: country ? `${fixedName}, ${country}` : fixedName };
  }
  \<close>
  The look-up \<open>renameMap[resolvedName] || resolvedName\<close>, which also finds the
  properties every object inherits, is the parameter \<open>fixedName\<close>. An object is the list
  of its properties.
\<close>

text \<open>\<open>v.length === 0\<close>\<close>

definition length_is_zero :: "jsval \<Rightarrow> bool" where
  "length_is_zero v =
     (case v of
        Arr xs \<Rightarrow> xs = []
      | Str s \<Rightarrow> s = []
      | Obj kv \<Rightarrow> get_prop (Obj kv) ''length'' = Num (Fin 0)
      | _ \<Rightarrow> False)"

definition geocodeCity ::
  "(jsval \<Rightarrow> string) \<Rightarrow> (jsval \<Rightarrow> jsval) \<Rightarrow> response outcome \<Rightarrow> error + (string \<times> jsval) list" where
  "geocodeCity ns fixedName fetched =
     (case fetched of
        Rejected e \<Rightarrow> Inl e
      | Resolved res \<Rightarrow>
          if \<not> res_ok res then Inl (Error ''Failed to geocode city'')
          else
            (case res_json res of
               Rejected e \<Rightarrow> Inl e
             | Resolved body \<Rightarrow>
                 if nullish body then Inl TypeError
                 else if \<not> truthy (get_prop body ''results'')
                         \<or> length_is_zero (get_prop body ''results'')
                 then Inl (Error ''Location not found'')
                 else if nullish (get_idx (get_prop body ''results'') 0) then Inl TypeError
                 else
                   (let first = get_idx (get_prop body ''results'') 0;
                        country = get_prop first ''country'';
                        fixed = fixedName (get_prop first ''name'')
                    in Inr [(''lat'', get_prop first ''latitude''),
                            (''lon'', get_prop first ''longitude''),
                            (''label'', if truthy country
                                        then Str (String_js ns fixed @ '', '' @ String_js ns country)
                                        else fixed)])))"

text \<open>
  \<^verbatim>\<open>
  async function fetchAirQuality(lat, lon) {
    const params = new URLSearchParams({ ... });
    const res = await fetch(`https://air-quality-api.open-meteo.com/v1/air-quality?${params.toString()}`);
    if (!res.ok) throw new Error("Failed to fetch air quality");
    return res.json();
  }
  \<close>
\<close>

definition fetchAirQuality :: "response outcome \<Rightarrow> error + jsval" where
  "fetchAirQuality fetched =
     (case fetched of
        Rejected e \<Rightarrow> Inl e
      | Resolved res \<Rightarrow>
          if \<not> res_ok res then Inl (Error ''Failed to fetch air quality'')
          else (case res_json res of Rejected e \<Rightarrow> Inl e | Resolved j \<Rightarrow> Inr j))"

text \<open>
  \<^verbatim>\<open>
  const load = async (fromButton = false) => {
    try {
      setLoading(true);
      setError("");
      let loc = location;
      if (fromButton || !aqData) {
        loc = await geocodeCity(query.trim() || "Kolkata");
        setLocation(loc);
      }
      const data = await fetchAirQuality(loc.lat, loc.lon);
      setAqData(data);
    } catch (e) {
      console.error(e);
      setError(e.message || "Failed to load air quality");
    } finally {
      setLoading(false);
    }
  };
  \<close>
\<close>

record airquality =
  query :: string
  location :: "(string \<times> jsval) list"
  aq_loading :: bool
  aq_error :: string
  aqData :: jsval

text \<open>
  The page as it is mounted:
  \<^verbatim>\<open>
  const [query, setQuery] = useState("Kolkata");
  const [location, setLocation] = useState({ label: "Kolkata, India", lat: 22.5626, lon: 88.3630 });
  const [loading, setLoading] = useState(false);
  const [error, setError] = useState("");
  const [aqData, setAqData] = useState(null);
  \<close>
\<close>

definition AirQuality_mount :: airquality where
  "AirQuality_mount =
     \<lparr>query = ''Kolkata'',
      location = [(''label'', Str ''Kolkata, India''), (''lat'', Num (Fin (225626 / 10000))),
                  (''lon'', Num (Fin (88363 / 1000)))],
      aq_loading = False, aq_error = [], aqData = Null\<rparr>"

definition AirQuality_load_try ::
  "(jsval \<Rightarrow> string) \<Rightarrow> (jsval \<Rightarrow> jsval) \<Rightarrow> response outcome \<Rightarrow> response outcome \<Rightarrow> bool
   \<Rightarrow> airquality \<Rightarrow> airquality run" where
  "AirQuality_load_try ns fixedName geo air fromButton a =
     (if fromButton \<or> \<not> truthy (aqData a) then
        (case geocodeCity ns fixedName geo of
           Inl e \<Rightarrow> Inl (e, a)
         | Inr loc \<Rightarrow>
             (case fetchAirQuality air of
                Inl e \<Rightarrow> Inl (e, a\<lparr>location := loc\<rparr>)
              | Inr body \<Rightarrow> Inr (a\<lparr>location := loc, aqData := body\<rparr>)))
      else
        (case fetchAirQuality air of
           Inl e \<Rightarrow> Inl (e, a)
         | Inr body \<Rightarrow> Inr (a\<lparr>aqData := body\<rparr>)))"

definition AirQuality_load_async ::
  "string \<Rightarrow> (jsval \<Rightarrow> string) \<Rightarrow> (jsval \<Rightarrow> jsval) \<Rightarrow> response outcome \<Rightarrow> response outcome \<Rightarrow> bool
   \<Rightarrow> airquality \<Rightarrow> airquality run" where
  "AirQuality_load_async tm ns fixedName geo air fromButton a =
     try_finally
       (try_catch
          (AirQuality_load_try ns fixedName geo air fromButton
             (a\<lparr>aq_loading := True, aq_error := []\<rparr>))
          (\<lambda>e s. Inr (s\<lparr>aq_error := (if message tm e \<noteq> [] then message tm e
                                        else ''Failed to load air quality'')\<rparr>)))
       (\<lambda>s. s\<lparr>aq_loading := False\<rparr>)"

section \<open>Notions of the properties\<close>

text \<open>An operation has caught what was thrown in it: it has come to its end.\<close>

definition caught :: "'e + 'a \<Rightarrow> bool" where
  "caught r = (case r of Inl e \<Rightarrow> False | Inr s \<Rightarrow> True)"


section \<open>Properties\<close>

lemma nullish_iff: "nullish v \<longleftrightarrow> v = Null \<or> v = Undefined"
  by (cases v) auto

lemma strip_start_if:
  "strip_start ws s =
     (if List.find (\<lambda>w. w \<noteq> [] \<and> prefix w s) ws = None then s
      else strip_start ws (drop (length (the (List.find (\<lambda>w. w \<noteq> [] \<and> prefix w s) ws))) s))"
  by (subst strip_start.simps) (simp split: option.split)

lemma js_trim_names:
  "js_trim [] = []" "js_trim '' '' = []" "js_trim ''Main Road'' = ''Main Road''"
  "js_trim ''Park Street'' = ''Park Street''"
  by (simp_all add: js_trim_def white_space_def strip_start_if)

text \<open>
  C9 (as amended). \<open>getTrafficColor\<close> is total and agrees with the legend on integer
  severities. It returns the fallback blue exactly when its argument is \<open>null\<close> or
  \<open>undefined\<close> or \<open>isNaN\<close> holds of it, that is, \<open>Number\<close> of it is \<open>NaN\<close>: so
  for \<open>NaN\<close> and for no other number, for every plain object and for every array of
  two or more elements. For an integer severity \<open>p\<close> from 0 to 100 it returns green iff
  \<open>p \<le> 33\<close>, yellow iff \<open>34 \<le> p \<le> 66\<close> and red iff \<open>67 \<le> p\<close>; and it returns no
  fifth value.
\<close>

theorem getTrafficColor_legend:
  "(getTrafficColor cv v = ''#0ea5e9'' \<longleftrightarrow> v = Null \<or> v = Undefined \<or> isNaN_js cv v)
   \<and> (getTrafficColor cv (Num x) = ''#0ea5e9'' \<longleftrightarrow> x = NaN)
   \<and> getTrafficColor cv (Obj kv) = ''#0ea5e9''
   \<and> (2 \<le> length xs \<longrightarrow> getTrafficColor cv (Arr xs) = ''#0ea5e9'')
   \<and> (0 \<le> p \<and> p \<le> 100 \<longrightarrow>
        (getTrafficColor cv (Num (Fin (of_int p))) = ''#16a34a'' \<longleftrightarrow> p \<le> 33)
      \<and> (getTrafficColor cv (Num (Fin (of_int p))) = ''#eab308'' \<longleftrightarrow> 34 \<le> p \<and> p \<le> 66)
      \<and> (getTrafficColor cv (Num (Fin (of_int p))) = ''#b91c1c'' \<longleftrightarrow> 67 \<le> p))
   \<and> getTrafficColor cv v \<in> {''#0ea5e9'', ''#16a34a'', ''#eab308'', ''#b91c1c''}"
proof -
  have a: "getTrafficColor cv v = ''#0ea5e9'' \<longleftrightarrow> v = Null \<or> v = Undefined \<or> isNaN_js cv v"
    by (auto simp: getTrafficColor_def Let_def nullish_iff)
  have b: "getTrafficColor cv (Num x) = ''#0ea5e9'' \<longleftrightarrow> x = NaN"
    by (auto simp: getTrafficColor_def Let_def isNaN_js_def)
  have o: "getTrafficColor cv (Obj kv) = ''#0ea5e9''"
    by (simp add: getTrafficColor_def isNaN_js_def)
  have r: "2 \<le> length xs \<longrightarrow> getTrafficColor cv (Arr xs) = ''#0ea5e9''"
    by (auto simp: getTrafficColor_def isNaN_js_def)
  have lt: "(of_int p :: rat) > 66 \<longleftrightarrow> 67 \<le> p" "(of_int p :: rat) > 33 \<longleftrightarrow> 34 \<le> p"
    by linarith+
  have c: "(getTrafficColor cv (Num (Fin (of_int p))) = ''#16a34a'' \<longleftrightarrow> p \<le> 33)
      \<and> (getTrafficColor cv (Num (Fin (of_int p))) = ''#eab308'' \<longleftrightarrow> 34 \<le> p \<and> p \<le> 66)
      \<and> (getTrafficColor cv (Num (Fin (of_int p))) = ''#b91c1c'' \<longleftrightarrow> 67 \<le> p)"
    using lt by (auto simp: getTrafficColor_def Let_def isNaN_js_def js_gt_def)
  have d: "getTrafficColor cv v \<in> {''#0ea5e9'', ''#16a34a'', ''#eab308'', ''#b91c1c''}"
    by (simp add: getTrafficColor_def Let_def)
  from a b o r c d show ?thesis by blast
qed

theorem getTrafficColor_legend_witness:
  "(0::int) \<le> 50 \<and> (50::int) \<le> 100
   \<and> getTrafficColor (\<lambda>_. NaN) (Num (Fin (of_int 50))) = ''#eab308''
   \<and> 2 \<le> length [Num (Fin 10), Num (Fin 20)]
   \<and> getTrafficColor (\<lambda>_. NaN) (Arr [Num (Fin 10), Num (Fin 20)]) = ''#0ea5e9''"
  using getTrafficColor_legend [of "\<lambda>_. NaN" Null NaN "[]" "[Num (Fin 10), Num (Fin 20)]" 50]
  by simp

text \<open>
  As first stated, with blue for \<open>null\<close>, \<open>undefined\<close> and \<open>NaN\<close> only, C9 fails: an
  object without properties and an array of two numbers are none of the three, and
  \<open>isNaN\<close> holds of both, so both are given the blue.
\<close>

theorem getTrafficColor_object_counterexample:
  "getTrafficColor (\<lambda>_. NaN) (Obj []) = ''#0ea5e9''
   \<and> Obj [] \<noteq> Null \<and> Obj [] \<noteq> Undefined \<and> Obj [] \<noteq> Num NaN
   \<and> getTrafficColor (\<lambda>_. NaN) (Arr [Num (Fin 10), Num (Fin 20)]) = ''#0ea5e9''
   \<and> Arr [Num (Fin 10), Num (Fin 20)] \<noteq> Null \<and> Arr [Num (Fin 10), Num (Fin 20)] \<noteq> Undefined
   \<and> Arr [Num (Fin 10), Num (Fin 20)] \<noteq> Num NaN"
  by (simp add: getTrafficColor_def isNaN_js_def)


text \<open>
  C1. \<open>normalizePoint\<close> guesses the order of coordinates. For an array of two numbers
  \<open>[a, b]\<close> it returns the swapped point \<open>{lat: b, lon: a}\<close> exactly when
  \<open>|a| > 90\<close> and \<open>|b| \<le> 90\<close>, and \<open>{lat: a, lon: b}\<close> otherwise. For an object,
  \<open>lat\<close> is read from the first present of \<open>lat\<close>, \<open>latitude\<close>, \<open>lat_deg\<close> and
  \<open>lon\<close> from the first present of \<open>lon\<close>, \<open>lng\<close>, \<open>longitude\<close>, \<open>lon_deg\<close>;
  where both convert to finite numbers they are the coordinates of the point returned.
\<close>

theorem normalizePoint_ordering:
  "normalizePoint cv (Arr [Num a, Num b]) =
     Some (if js_gt (js_abs a) (Fin 90) \<and> js_le (js_abs b) (Fin 90)
           then \<lparr>lat = b, lon = a, pt_severity = None\<rparr>
           else \<lparr>lat = a, lon = b, pt_severity = None\<rparr>)
   \<and> (first_present (Obj kv) [''lat'', ''latitude'', ''lat_deg''] = Some u \<longrightarrow>
        latRaw (Obj kv) = u)
   \<and> (first_present (Obj kv) [''lon'', ''lng'', ''longitude'', ''lon_deg''] = Some w \<longrightarrow>
        lonRaw (Obj kv) = w)
   \<and> (first_present (Obj kv) [''lat'', ''latitude'', ''lat_deg''] = Some u
      \<and> first_present (Obj kv) [''lon'', ''lng'', ''longitude'', ''lon_deg''] = Some w
      \<and> isFinite (Number_js cv u) \<and> isFinite (Number_js cv w) \<longrightarrow>
        (\<exists>s. normalizePoint cv (Obj kv) =
               Some \<lparr>lat = Number_js cv u, lon = Number_js cv w, pt_severity = s\<rparr>))"
proof -
  have arr: "normalizePoint cv (Arr [Num a, Num b]) =
     Some (if js_gt (js_abs a) (Fin 90) \<and> js_le (js_abs b) (Fin 90)
           then \<lparr>lat = b, lon = a, pt_severity = None\<rparr>
           else \<lparr>lat = a, lon = b, pt_severity = None\<rparr>)"
    by (simp add: normalizePoint_def looks_lon_lat_def Let_def)
  have la: "latRaw (Obj kv) = u"
    if "first_present (Obj kv) [''lat'', ''latitude'', ''lat_deg''] = Some u" for u
    using that unfolding first_present_def latRaw_def coalesce_def
    by (simp split: if_splits)
  have lo: "lonRaw (Obj kv) = w"
    if "first_present (Obj kv) [''lon'', ''lng'', ''longitude'', ''lon_deg''] = Some w" for w
    using that unfolding first_present_def lonRaw_def coalesce_def
    by (simp split: if_splits)
  have ob: "\<exists>s. normalizePoint cv (Obj kv) =
               Some \<lparr>lat = Number_js cv u, lon = Number_js cv w, pt_severity = s\<rparr>"
    if "first_present (Obj kv) [''lat'', ''latitude'', ''lat_deg''] = Some u"
      "first_present (Obj kv) [''lon'', ''lng'', ''longitude'', ''lon_deg''] = Some w"
      "isFinite (Number_js cv u)" "isFinite (Number_js cv w)"
    using that la lo by (simp add: normalizePoint_def Let_def)
  from arr la lo ob show ?thesis by blast
qed

theorem normalizePoint_ordering_witness:
  "first_present (Obj [(''latitude'', Num (Fin 19)), (''lng'', Num (Fin 72))])
      [''lat'', ''latitude'', ''lat_deg''] = Some (Num (Fin 19))
   \<and> first_present (Obj [(''latitude'', Num (Fin 19)), (''lng'', Num (Fin 72))])
      [''lon'', ''lng'', ''longitude'', ''lon_deg''] = Some (Num (Fin 72))
   \<and> isFinite (Number_js (\<lambda>_. NaN) (Num (Fin 19))) \<and> isFinite (Number_js (\<lambda>_. NaN) (Num (Fin 72)))
   \<and> normalizePoint (\<lambda>_. NaN) (Arr [Num (Fin 72), Num (Fin 19)])
       = Some \<lparr>lat = Fin 72, lon = Fin 19, pt_severity = None\<rparr>
   \<and> normalizePoint (\<lambda>_. NaN) (Arr [Num (Fin 100), Num (Fin 19)])
       = Some \<lparr>lat = Fin 19, lon = Fin 100, pt_severity = None\<rparr>
   \<and> latRaw (Obj [(''latitude'', Num (Fin 19)), (''lng'', Num (Fin 72))]) = Num (Fin 19)
   \<and> lonRaw (Obj [(''latitude'', Num (Fin 19)), (''lng'', Num (Fin 72))]) = Num (Fin 72)
   \<and> normalizePoint (\<lambda>_. NaN) (Obj [(''latitude'', Num (Fin 19)), (''lng'', Num (Fin 72))])
       = Some \<lparr>lat = Fin 19, lon = Fin 72, pt_severity = None\<rparr>"
  using normalizePoint_ordering [of "\<lambda>_. NaN" "Fin 72" "Fin 19"
      "[(''latitude'', Num (Fin 19)), (''lng'', Num (Fin 72))]" "Num (Fin 19)" "Num (Fin 72)"]
    normalizePoint_ordering [of "\<lambda>_. NaN" "Fin 100" "Fin 19"
      "[(''latitude'', Num (Fin 19)), (''lng'', Num (Fin 72))]" "Num (Fin 19)" "Num (Fin 72)"]
  by (simp add: first_present_def js_gt_def js_le_def normalizePoint_def Let_def
      severityRaw_def coalesce_def js_and_def)


subsection \<open>Grouping\<close>














text \<open>
  The segments that \<open>buildSegmentsFromPath\<close> passes to \<open>groupSegments\<close>, at both of
  its calls, hold two or more points.
\<close>

lemma segment_of_two_points:
  "segment_of cv segObj = Inr (Some s) \<Longrightarrow> 2 \<le> length (pts s)"
  by (auto simp: segment_of_def Let_def split: if_splits)

lemma segments_loop_two_points:
  "segments_loop cv xs = Inr segs \<Longrightarrow> \<forall>s \<in> set segs. 2 \<le> length (pts s)"
proof (induction xs arbitrary: segs)
  case Nil
  then show ?case by simp
next
  case (Cons x xs)
  from Cons.prems obtain so r where
    so: "segment_of cv x = Inr so" and r: "segments_loop cv xs = Inr r"
    and segs: "segs = (case so of Some s \<Rightarrow> s # r | None \<Rightarrow> r)"
    by (auto split: sum.splits)
  from Cons.IH [OF r] have "\<forall>s \<in> set r. 2 \<le> length (pts s)" .
  then show ?case using segs so segment_of_two_points by (cases so) auto
qed

lemma adjacent_segments_two_points:
  "\<forall>s \<in> set (adjacent_segments rnd ps). length (pts s) = 2"
  by (induction rnd ps rule: adjacent_segments.induct) simp_all



text \<open>
  Why the segments must hold a point: a segment without points after the first of its
  run puts \<open>undefined\<close> among the points, and the filter throws. No caller passes one.
\<close>

lemma groupSegments_without_points:
  "groupSegments Fin
     [\<lparr>pts = [(Fin 0, Fin 0), (Fin 1, Fin 1)], severity = None\<rparr>,
      \<lparr>pts = [], severity = None\<rparr>] = Inl TypeError"
  by (simp add: groupSegments_def group_loop.simps SEGMENT_GROUP_SIZE_def group_slice_def
      cleaned_pts_def last_pt_def same_pt_def)


subsection \<open>Digits\<close>

lemma show_nat_small: "n < 10 \<Longrightarrow> show_nat n = [digit_char n]"
  by (subst show_nat.simps) simp

lemma show_nat_big: "10 \<le> n \<Longrightarrow> show_nat n = show_nat (n div 10) @ [digit_char (n mod 10)]"
  by (subst show_nat.simps) simp

lemma floor_rat_numeral: "\<lfloor>numeral a / numeral b :: rat\<rfloor> = numeral a div numeral b"
  by (metis floor_divide_of_int_eq of_int_numeral)

subsection \<open>Polylines\<close>

text \<open>
  C3. Every polyline returned by \<open>buildSegmentsFromPath\<close> should hold finite
  coordinates only. The array branch of \<open>normalizePoint\<close> does not test
  \<open>Number.isFinite\<close> as its object branches do: on the coordinates of a
  MultiLineString, \<open>[[[72,19],[73,19]], [[73,19],[74,20]]]\<close>, each line is taken for a
  point, \<open>Number\<close> of an array of two elements is \<open>NaN\<close>, and the polyline returned
  has the points \<open>[NaN, NaN]\<close> and \<open>[NaN, NaN]\<close>. The same two values under the
  names \<open>lat\<close> and \<open>lon\<close> of an object are refused.
\<close>

theorem buildSegmentsFromPath_NaN_points:
  "buildSegmentsFromPath cv rnd
     (Arr [Arr [Arr [Num (Fin 72), Num (Fin 19)], Arr [Num (Fin 73), Num (Fin 19)]],
           Arr [Arr [Num (Fin 73), Num (Fin 19)], Arr [Num (Fin 74), Num (Fin 20)]]])
   = Inr [\<lparr>pts = [(NaN, NaN), (NaN, NaN)], severity = None\<rparr>]
   \<and> normalizePoint cv (Arr [Arr [Num (Fin 72), Num (Fin 19)], Arr [Num (Fin 73), Num (Fin 19)]])
       = Some \<lparr>lat = NaN, lon = NaN, pt_severity = None\<rparr>
   \<and> normalizePoint cv (Obj [(''lat'', Arr [Num (Fin 72), Num (Fin 19)]),
                              (''lon'', Arr [Num (Fin 73), Num (Fin 19)])]) = None"
  by (simp add: buildSegmentsFromPath.simps latRaw_def lonRaw_def severityRaw_def coalesce_def
      show_nat_small from_segment_objects_def segment_objects_guard_def
      js_or_def from_points_def normalizePoint_def looks_lon_lat_def js_gt_def js_le_def
      List.map_filter_simps segSeverity_def finite_severity_def
      groupSegments_def group_loop.simps SEGMENT_GROUP_SIZE_def group_slice_def
      cleaned_pts_def same_pt_def slice_severity_def Let_def)


subsection \<open>Estimated time of arrival\<close>

text \<open>
  C8 (as amended). \<open>etaMinutesFromRoute\<close> returns \<open>duration_s / 60\<close> with one decimal
  when the route is truthy and its \<open>duration_s\<close> is truthy (present, and neither 0 nor
  the empty string) and numeric; otherwise the distance over 30 km/h in m/s, over 60,
  with one decimal, when \<open>distance_m\<close> is truthy and numeric; otherwise the dash, as for the
  route \<open>null\<close>. The speed is \<open>AVG_SPEED_KMPH\<close> = 30, in exact arithmetic 25/3 m/s:
  1000 m take "2.0" minutes (at 40 km/h they would take 1.5).
\<close>

theorem etaMinutesFromRoute_cases:
  "etaMinutesFromRoute cv rnd ns routeObj =
     (if truthy routeObj \<and> truthy (get_prop routeObj ''duration_s'')
         \<and> \<not> isNaN_js cv (get_prop routeObj ''duration_s'')
      then toFixed1 ns (js_div rnd (Number_js cv (get_prop routeObj ''duration_s'')) (Fin 60))
      else if truthy routeObj \<and> truthy (get_prop routeObj ''distance_m'')
              \<and> \<not> isNaN_js cv (get_prop routeObj ''distance_m'')
      then toFixed1 ns (js_div rnd
             (js_div rnd (Number_js cv (get_prop routeObj ''distance_m''))
                (kmph_in_mps rnd (Fin 30))) (Fin 60))
      else em_dash)
   \<and> etaMinutesFromRoute cv rnd ns Null = em_dash
   \<and> AVG_SPEED_KMPH = Fin 30
   \<and> kmph_in_mps Fin AVG_SPEED_KMPH = Fin (25 / 3)
   \<and> etaMinutesFromRoute cv Fin ns (Obj [(''distance_m'', Num (Fin 1000))]) = ''2.0''"
proof -
  have a: "etaMinutesFromRoute cv rnd ns routeObj =
     (if truthy routeObj \<and> truthy (get_prop routeObj ''duration_s'')
         \<and> \<not> isNaN_js cv (get_prop routeObj ''duration_s'')
      then toFixed1 ns (js_div rnd (Number_js cv (get_prop routeObj ''duration_s'')) (Fin 60))
      else if truthy routeObj \<and> truthy (get_prop routeObj ''distance_m'')
              \<and> \<not> isNaN_js cv (get_prop routeObj ''distance_m'')
      then toFixed1 ns (js_div rnd
             (js_div rnd (Number_js cv (get_prop routeObj ''distance_m''))
                (kmph_in_mps rnd (Fin 30))) (Fin 60))
      else em_dash)"
    by (simp add: etaMinutesFromRoute_def kmph_in_mps_def AVG_SPEED_KMPH_def Let_def)
  have b: "etaMinutesFromRoute cv rnd ns Null = em_dash"
    by (simp add: etaMinutesFromRoute_def)
  have c: "kmph_in_mps Fin AVG_SPEED_KMPH = Fin (25 / 3)"
    by (simp add: kmph_in_mps_def AVG_SPEED_KMPH_def)
  have d: "etaMinutesFromRoute cv Fin ns (Obj [(''distance_m'', Num (Fin 1000))]) = ''2.0''"
    by (simp add: etaMinutesFromRoute_def isNaN_js_def AVG_SPEED_KMPH_def toFixed1_def Let_def
        show_nat_small digit_char_def floor_rat_numeral)
  from a b c d show ?thesis by (simp only: AVG_SPEED_KMPH_def simp_thms)
qed

text \<open>
  As first stated, with "present and numeric", C8 fails on a \<open>duration_s\<close> of 0: it is
  present and numeric, \<open>0 / 60\<close> with one decimal is "0.0", and the code returns the dash.
\<close>

theorem etaMinutesFromRoute_zero_duration_counterexample:
  "\<not> nullish (get_prop (Obj [(''duration_s'', Num (Fin 0))]) ''duration_s'')
   \<and> \<not> isNaN_js (\<lambda>_. NaN) (get_prop (Obj [(''duration_s'', Num (Fin 0))]) ''duration_s'')
   \<and> toFixed1 (\<lambda>_. [])
        (js_div Fin (Number_js (\<lambda>_. NaN) (get_prop (Obj [(''duration_s'', Num (Fin 0))])
           ''duration_s'')) (Fin 60)) = ''0.0''
   \<and> etaMinutesFromRoute (\<lambda>_. NaN) Fin (\<lambda>_. []) (Obj [(''duration_s'', Num (Fin 0))]) = em_dash
   \<and> em_dash \<noteq> ''0.0''"
  by (simp add: etaMinutesFromRoute_def isNaN_js_def toFixed1_def show_nat_small digit_char_def
      em_dash_def)

subsection \<open>The roads to show\<close>

lemma slice0_take: "\<exists>m. js_slice0 xs lmt = take m xs"
proof (cases lmt)
  case NaN
  then have "js_slice0 xs lmt = take 0 xs" by (simp add: js_slice0_def)
  then show ?thesis ..
next
  case NegInf
  then have "js_slice0 xs lmt = take 0 xs" by (simp add: js_slice0_def)
  then show ?thesis ..
next
  case (Fin q)
  then have "js_slice0 xs lmt =
      take (if js_trunc q < 0 then nat (int (length xs) + js_trunc q) else nat (js_trunc q)) xs"
    by (simp add: js_slice0_def Let_def)
  then show ?thesis ..
next
  case PosInf
  then have "js_slice0 xs lmt = take (length xs) xs" by (simp add: js_slice0_def)
  then show ?thesis ..
qed

lemma slice0_length:
  assumes "js_le (Fin 0) lmt"
  shows "js_le (Fin (of_nat (length (js_slice0 xs lmt)))) lmt"
proof (cases lmt)
  case (Fin q)
  with assms have q: "0 \<le> q" by (auto simp: js_le_def)
  then have k: "js_trunc q = \<lfloor>q\<rfloor>" "0 \<le> \<lfloor>q\<rfloor>" by (simp_all add: js_trunc_def)
  have "length (js_slice0 xs lmt) \<le> nat \<lfloor>q\<rfloor>"
    using Fin k by (simp add: js_slice0_def Let_def)
  then have "of_nat (length (js_slice0 xs lmt)) \<le> (of_nat (nat \<lfloor>q\<rfloor>) :: rat)"
    by (simp only: of_nat_le_iff)
  also have "\<dots> = of_int \<lfloor>q\<rfloor>" using k by simp
  also have "\<dots> \<le> q" by (rule of_int_floor_le)
  finally show ?thesis using Fin by (auto simp: js_le_def)
qed (use assms in \<open>auto simp: js_le_def js_slice0_def\<close>)

lemma two_groups_order:
  assumes na: "\<forall>r \<in> set A. \<not> P r" and nb: "\<forall>r \<in> set B. P r"
    and i: "i < j" "j < length (A @ B)" and pj: "\<not> P ((A @ B) ! j)"
  shows "\<not> P ((A @ B) ! i)"
proof -
  have "j < length A"
  proof (rule ccontr)
    assume "\<not> j < length A"
    then have "(A @ B) ! j \<in> set B" using i by (simp add: nth_append)
    with nb pj show False by blast
  qed
  with i have "(A @ B) ! i \<in> set A" by (simp add: nth_append)
  with na show ?thesis by blast
qed

lemma two_groups_sorted:
  assumes na: "\<forall>r \<in> set A. \<not> P r" and nb: "\<forall>r \<in> set B. P r"
    and sa: "sorted (map f A)" and sb: "sorted (map f B)"
    and i: "i < j" "j < length (A @ B)" and same: "P ((A @ B) ! i) = P ((A @ B) ! j)"
  shows "f ((A @ B) ! i) \<le> (f ((A @ B) ! j) :: int)"
proof (cases "j < length A")
  case True
  then have "map f A ! i \<le> map f A ! j" using sorted_nth_mono [OF sa, of i j] i by simp
  then show ?thesis using True i by (simp add: nth_append)
next
  case False
  then have jb: "(A @ B) ! j \<in> set B" using i by (simp add: nth_append)
  have "\<not> i < length A"
  proof
    assume "i < length A"
    then have "(A @ B) ! i \<in> set A" by (simp add: nth_append)
    with na nb jb same show False by blast
  qed
  with False i have "map f B ! (i - length A) \<le> map f B ! (j - length A)"
    using sb by (intro sorted_nth_mono) auto
  then show ?thesis using False \<open>\<not> i < length A\<close> i by (simp add: nth_append)
qed

text \<open>
  The white space that \<open>trim\<close> strips is that of the language, not the ASCII one only:
  a name made of a no-break space (U+00A0) is empty once trimmed, and an ideographic
  space (U+3000) in front of a name and a line separator (U+2028) behind it go.
\<close>

lemma js_trim_unicode:
  "js_trim [CHR 0xC2, CHR 0xA0] = []"
  "js_trim ([CHR 0xE3, CHR 0x80, CHR 0x80] @ ''NH 48'' @ [CHR 0xE2, CHR 0x80, CHR 0xA8]) = ''NH 48''"
  by (simp_all add: js_trim_def white_space_def strip_start_if)

lemma is_unnamed_no_break_space:
  "is_unnamed \<lparr>rid = i, name = Some [CHR 0xC2, CHR 0xA0], coordinates = c\<rparr>"
  by (simp add: is_unnamed_def js_trim_unicode)

text \<open>
  C10 (as amended). \<open>normalizeRoads(roads, limit)\<close> returns, for every list of roads, a
  list in which every road has a non-empty \<open>coordinates\<close> array, every road whose trimmed
  name is non-empty and does not start with "unnamed" (whatever the case) precedes every
  road without such a name, and within each of the two groups the roads are in descending
  order of their number of coordinates; for every limit of 0 or more the list has at most
  \<open>limit\<close> roads.
\<close>

theorem normalizeRoads_order:
  fixes roads :: "road list" and limit :: jsnum
  defines "out \<equiv> normalizeRoads roads limit"
  shows "(js_le (Fin 0) limit \<longrightarrow> js_le (Fin (of_nat (length out))) limit)
     \<and> (\<forall>r \<in> set out. isArray (coordinates r) \<and> 0 < js_length (coordinates r))
     \<and> (\<forall>i j. i < j \<and> j < length out \<and> \<not> is_unnamed (out ! j) \<longrightarrow> \<not> is_unnamed (out ! i))
     \<and> (\<forall>i j. i < j \<and> j < length out \<and> is_unnamed (out ! i) = is_unnamed (out ! j) \<longrightarrow>
           js_length (coordinates (out ! j)) \<le> js_length (coordinates (out ! i)))"
proof -
  let ?valid = "filter valid_road roads"
  let ?A = "sort_key byLengthDesc_key (filter (\<lambda>r. \<not> is_unnamed r) ?valid)"
  let ?B = "sort_key byLengthDesc_key (filter is_unnamed ?valid)"
  have out: "out = js_slice0 (?A @ ?B) limit"
    by (simp add: out_def normalizeRoads_def Let_def)
  then obtain m where m: "out = take m (?A @ ?B)" using slice0_take by metis
  have nth: "out ! i = (?A @ ?B) ! i" "i < length (?A @ ?B)" if "i < length out" for i
    using that unfolding m by (simp_all only: length_take nth_take min_less_iff_conj)
  have na: "\<forall>r \<in> set ?A. \<not> is_unnamed r" and nb: "\<forall>r \<in> set ?B. is_unnamed r" by simp_all
  have sa: "sorted (map byLengthDesc_key ?A)" and sb: "sorted (map byLengthDesc_key ?B)"
    by (rule sorted_sort_key)+
  have c1: "js_le (Fin 0) limit \<longrightarrow> js_le (Fin (of_nat (length out))) limit"
    unfolding out using slice0_length by blast
  have c2: "\<forall>r \<in> set out. isArray (coordinates r) \<and> 0 < js_length (coordinates r)"
  proof
    fix r assume "r \<in> set out"
    then have "r \<in> set (?A @ ?B)" using m by (meson in_set_takeD)
    then have "valid_road r" by auto
    then show "isArray (coordinates r) \<and> 0 < js_length (coordinates r)"
      by (cases "coordinates r") (auto simp: valid_road_def)
  qed
  have c3: "\<forall>i j. i < j \<and> j < length out \<and> \<not> is_unnamed (out ! j) \<longrightarrow> \<not> is_unnamed (out ! i)"
  proof (intro allI impI)
    fix i j assume h: "i < j \<and> j < length out \<and> \<not> is_unnamed (out ! j)"
    then have "\<not> is_unnamed ((?A @ ?B) ! i)"
      using two_groups_order [OF na nb, of i j] nth [of j] by simp
    then show "\<not> is_unnamed (out ! i)" using h nth [of i] by simp
  qed
  have c4: "\<forall>i j. i < j \<and> j < length out \<and> is_unnamed (out ! i) = is_unnamed (out ! j) \<longrightarrow>
           js_length (coordinates (out ! j)) \<le> js_length (coordinates (out ! i))"
  proof (intro allI impI)
    fix i j assume h: "i < j \<and> j < length out \<and> is_unnamed (out ! i) = is_unnamed (out ! j)"
    then have e: "out ! i = (?A @ ?B) ! i" "out ! j = (?A @ ?B) ! j" "j < length (?A @ ?B)"
      using nth [of i] nth [of j] by simp_all
    have "byLengthDesc_key ((?A @ ?B) ! i) \<le> byLengthDesc_key ((?A @ ?B) ! j)"
      using two_groups_sorted [OF na nb sa sb, of i j] h e by simp
    then show "js_length (coordinates (out ! j)) \<le> js_length (coordinates (out ! i))"
      using e by (simp add: byLengthDesc_key_def)
  qed
  from c1 c2 c3 c4 show ?thesis by blast
qed

theorem normalizeRoads_order_witness:
  "js_le (Fin 0) (Fin 2)
   \<and> js_le (Fin (of_nat (length (normalizeRoads
       [\<lparr>rid = ''u'', name = None,
          coordinates = Arr [Arr [Num (Fin 1), Num (Fin 2)], Arr [Num (Fin 1), Num (Fin 3)],
                             Arr [Num (Fin 1), Num (Fin 4)]]\<rparr>,
        \<lparr>rid = ''b'', name = Some ''Park Street'', coordinates = Arr [Arr [Num (Fin 3), Num (Fin 4)]]\<rparr>,
        \<lparr>rid = ''a'', name = Some ''Main Road'',
          coordinates = Arr [Arr [Num (Fin 1), Num (Fin 2)], Arr [Num (Fin 5), Num (Fin 6)]]\<rparr>] (Fin 2))))) (Fin 2)
   \<and> (0::nat) < 1
   \<and> 1 < length (normalizeRoads
       [\<lparr>rid = ''u'', name = None,
          coordinates = Arr [Arr [Num (Fin 1), Num (Fin 2)], Arr [Num (Fin 1), Num (Fin 3)],
                             Arr [Num (Fin 1), Num (Fin 4)]]\<rparr>,
        \<lparr>rid = ''b'', name = Some ''Park Street'', coordinates = Arr [Arr [Num (Fin 3), Num (Fin 4)]]\<rparr>,
        \<lparr>rid = ''a'', name = Some ''Main Road'',
          coordinates = Arr [Arr [Num (Fin 1), Num (Fin 2)], Arr [Num (Fin 5), Num (Fin 6)]]\<rparr>] (Fin 2))
   \<and> \<not> is_unnamed (normalizeRoads
       [\<lparr>rid = ''u'', name = None,
          coordinates = Arr [Arr [Num (Fin 1), Num (Fin 2)], Arr [Num (Fin 1), Num (Fin 3)],
                             Arr [Num (Fin 1), Num (Fin 4)]]\<rparr>,
        \<lparr>rid = ''b'', name = Some ''Park Street'', coordinates = Arr [Arr [Num (Fin 3), Num (Fin 4)]]\<rparr>,
        \<lparr>rid = ''a'', name = Some ''Main Road'',
          coordinates = Arr [Arr [Num (Fin 1), Num (Fin 2)], Arr [Num (Fin 5), Num (Fin 6)]]\<rparr>] (Fin 2) ! 1)
   \<and> \<not> is_unnamed (normalizeRoads
       [\<lparr>rid = ''u'', name = None,
          coordinates = Arr [Arr [Num (Fin 1), Num (Fin 2)], Arr [Num (Fin 1), Num (Fin 3)],
                             Arr [Num (Fin 1), Num (Fin 4)]]\<rparr>,
        \<lparr>rid = ''b'', name = Some ''Park Street'', coordinates = Arr [Arr [Num (Fin 3), Num (Fin 4)]]\<rparr>,
        \<lparr>rid = ''a'', name = Some ''Main Road'',
          coordinates = Arr [Arr [Num (Fin 1), Num (Fin 2)], Arr [Num (Fin 5), Num (Fin 6)]]\<rparr>] (Fin 2) ! 0)
   \<and> rid (normalizeRoads
       [\<lparr>rid = ''u'', name = None,
          coordinates = Arr [Arr [Num (Fin 1), Num (Fin 2)], Arr [Num (Fin 1), Num (Fin 3)],
                             Arr [Num (Fin 1), Num (Fin 4)]]\<rparr>,
        \<lparr>rid = ''b'', name = Some ''Park Street'', coordinates = Arr [Arr [Num (Fin 3), Num (Fin 4)]]\<rparr>,
        \<lparr>rid = ''a'', name = Some ''Main Road'',
          coordinates = Arr [Arr [Num (Fin 1), Num (Fin 2)], Arr [Num (Fin 5), Num (Fin 6)]]\<rparr>] (Fin 2) ! 0) = ''a''"
proof -
  let ?R = "[\<lparr>rid = ''u'', name = None,
          coordinates = Arr [Arr [Num (Fin 1), Num (Fin 2)], Arr [Num (Fin 1), Num (Fin 3)],
                             Arr [Num (Fin 1), Num (Fin 4)]]\<rparr>,
        \<lparr>rid = ''b'', name = Some ''Park Street'', coordinates = Arr [Arr [Num (Fin 3), Num (Fin 4)]]\<rparr>,
        \<lparr>rid = ''a'', name = Some ''Main Road'',
          coordinates = Arr [Arr [Num (Fin 1), Num (Fin 2)], Arr [Num (Fin 5), Num (Fin 6)]]\<rparr>]"
  have e: "normalizeRoads ?R (Fin 2) = [?R ! 2, ?R ! 1]"
    by (simp add: normalizeRoads_def valid_road_def is_unnamed_def js_trim_names
      starts_unnamed_def to_lower_def byLengthDesc_key_def js_slice0_def js_trunc_def ceiling_minus Let_def)
  have u: "\<not> is_unnamed (?R ! 1)"
    by (simp add: is_unnamed_def js_trim_names starts_unnamed_def to_lower_def)
  from normalizeRoads_order [where roads = ?R and limit = "Fin 2"]
  have "js_le (Fin 0) (Fin 2) \<longrightarrow>
        js_le (Fin (of_nat (length (normalizeRoads ?R (Fin 2))))) (Fin 2)"
    and "(0::nat) < 1 \<and> 1 < length (normalizeRoads ?R (Fin 2))
         \<and> \<not> is_unnamed (normalizeRoads ?R (Fin 2) ! 1)
       \<longrightarrow> \<not> is_unnamed (normalizeRoads ?R (Fin 2) ! 0)"
    by blast+
  then show ?thesis using e u by (simp add: js_le_def)
qed

text \<open>
  As first stated, C10 fails twice. A negative limit counts from the end of the list:
  with the limit -1 two roads give a list of one, which is more than -1. And the name
  is trimmed before it is tested: a road named " " has a non-empty name that does not
  start with "unnamed", yet it stays behind a road whose name is empty.
\<close>

theorem normalizeRoads_counterexample:
  "normalizeRoads
     [\<lparr>rid = ''a'', name = Some ''Main Road'', coordinates = Arr [Arr [Num (Fin 1), Num (Fin 2)]]\<rparr>,
      \<lparr>rid = ''b'', name = Some ''Park Street'', coordinates = Arr [Arr [Num (Fin 3), Num (Fin 4)]]\<rparr>]
     (Fin (- 1))
   = [\<lparr>rid = ''a'', name = Some ''Main Road'', coordinates = Arr [Arr [Num (Fin 1), Num (Fin 2)]]\<rparr>]
   \<and> \<not> js_le (Fin (of_nat (length
        [\<lparr>rid = ''a'', name = Some ''Main Road'',
          coordinates = Arr [Arr [Num (Fin 1), Num (Fin 2)]]\<rparr>]))) (Fin (- 1))
   \<and> normalizeRoads
     [\<lparr>rid = ''a'', name = Some [], coordinates = Arr [Arr [Num (Fin 1), Num (Fin 2)]]\<rparr>,
      \<lparr>rid = ''b'', name = Some '' '', coordinates = Arr [Arr [Num (Fin 3), Num (Fin 4)]]\<rparr>]
     (Fin 5)
   = [\<lparr>rid = ''a'', name = Some [], coordinates = Arr [Arr [Num (Fin 1), Num (Fin 2)]]\<rparr>,
      \<lparr>rid = ''b'', name = Some '' '', coordinates = Arr [Arr [Num (Fin 3), Num (Fin 4)]]\<rparr>]
   \<and> \<not> has_proper_name
        \<lparr>rid = ''a'', name = Some [], coordinates = Arr [Arr [Num (Fin 1), Num (Fin 2)]]\<rparr>
   \<and> has_proper_name
        \<lparr>rid = ''b'', name = Some '' '', coordinates = Arr [Arr [Num (Fin 3), Num (Fin 4)]]\<rparr>"
  by (simp add: normalizeRoads_def valid_road_def is_unnamed_def js_trim_names
      starts_unnamed_def to_lower_def byLengthDesc_key_def js_slice0_def js_trunc_def ceiling_minus Let_def js_le_def
      has_proper_name_def)


subsection \<open>Stored preferences\<close>









lemma fst_load: "fst (load cv rnd ns pr gr co2v glt (st, d)) = save_preferences ns (city d) (segmentsNum d) (timeSteps d) st"
  by (simp add: load_def load_async_def load_try_def try_finally_def try_catch_def ended_def Let_def
      split: outcome.split sum.split prod.split)




subsection \<open>Failed requests\<close>

lemma js_trim_addresses:
  "js_trim ''Andheri, Mumbai'' = ''Andheri, Mumbai''" "js_trim ''Fort, Mumbai'' = ''Fort, Mumbai''"
  by (simp_all add: js_trim_def white_space_def strip_start_if)

lemma enumerate_nth_mem: "i < length xs \<Longrightarrow> (i, xs ! i) \<in> set (enumerate 0 xs)"
  by (simp add: in_set_enumerate_eq)

lemma predict_rows_rejected:
  "ir \<in> set irs \<Longrightarrow> pt (fst ir) = Rejected e \<Longrightarrow> \<exists>e'. predict_rows pr ps pt irs acc = Inl e'"
proof (induction irs arbitrary: acc)
  case Nil
  then show ?case by simp
next
  case (Cons x irs)
  show ?case
  proof (cases "pt (fst x)")
    case (Rejected e0)
    then show ?thesis by simp
  next
    case (Resolved res)
    with Cons.prems have "ir \<in> set irs" by auto
    from Cons.IH [OF this Cons.prems(2)] show ?thesis
      using Resolved by (simp add: Let_def)
  qed
qed

lemma load_severities_dom:
  "dom (load_severities cv rnd glt irs sm) = dom sm \<union> (\<lambda>ir. rid (snd ir)) ` set irs"
  by (induction irs arbitrary: sm) auto

lemma load_severities_rejected:
  "\<forall>ir \<in> set irs. rid (snd ir) = k \<longrightarrow> (\<exists>e. snd (glt (fst ir)) = Rejected e) \<Longrightarrow>
   k \<in> (\<lambda>ir. rid (snd ir)) ` set irs \<or> sm k = Some (Num (Fin 0)) \<Longrightarrow>
   load_severities cv rnd glt irs sm k = Some (Num (Fin 0))"
proof (induction irs arbitrary: sm)
  case Nil
  then show ?case by simp
next
  case (Cons x irs)
  have p1: "\<forall>ir \<in> set irs. rid (snd ir) = k \<longrightarrow> (\<exists>e. snd (glt (fst ir)) = Rejected e)"
    using Cons.prems(1) by simp
  have p2: "k \<in> (\<lambda>ir. rid (snd ir)) ` set irs
      \<or> (sm(rid (snd x) \<mapsto> road_severity cv rnd (snd (glt (fst x))))) k = Some (Num (Fin 0))"
    using Cons.prems by (auto simp: road_severity_def)
  from Cons.IH [of "sm(rid (snd x) \<mapsto> road_severity cv rnd (snd (glt (fst x))))", OF p1 p2]
  show ?case by (simp only: load_severities.simps)
qed

lemma load_preds_rejected:
  "\<forall>ir \<in> set irs. rid (snd ir) = k \<longrightarrow> (\<exists>e. snd (glt (fst ir)) = Rejected e) \<Longrightarrow>
   k \<in> (\<lambda>ir. rid (snd ir)) ` set irs \<or> sm k = Some (Num (Fin 0)) \<Longrightarrow>
   load_preds cv rnd glt irs sm k = Some (Num (Fin 0))"
proof (induction irs arbitrary: sm)
  case Nil
  then show ?case by simp
next
  case (Cons x irs)
  have p1: "\<forall>ir \<in> set irs. rid (snd ir) = k \<longrightarrow> (\<exists>e. snd (glt (fst ir)) = Rejected e)"
    using Cons.prems(1) by simp
  have p2: "k \<in> (\<lambda>ir. rid (snd ir)) ` set irs
      \<or> (sm(rid (snd x) \<mapsto> Num (live_value cv rnd (snd (glt (fst x)))))) k = Some (Num (Fin 0))"
    using Cons.prems by (auto simp: live_value_def)
  from Cons.IH [of "sm(rid (snd x) \<mapsto> Num (live_value cv rnd (snd (glt (fst x)))))", OF p1 p2]
  show ?case by (simp only: load_preds.simps)
qed

lemma set_settling_order: "set (settling_order glt xs) = set (enumerate 0 xs)"
  by (simp add: settling_order_def)

lemma mset_settling_order:
  "mset (map (\<lambda>ir. f (snd ir) (fst ir)) (settling_order glt xs))
     = mset (map (\<lambda>i. f (xs ! i) i) [0..<length xs])"
proof -
  have "map (\<lambda>ir. f (snd ir) (fst ir)) (enumerate 0 xs) = map (\<lambda>i. f (xs ! i) i) [0..<length xs]"
    by (rule nth_equalityI) (simp_all add: nth_enumerate_eq)
  moreover have "mset (map (\<lambda>ir. f (snd ir) (fst ir)) (settling_order glt xs))
      = mset (map (\<lambda>ir. f (snd ir) (fst ir)) (enumerate 0 xs))"
    by (simp add: settling_order_def)
  ultimately show ?thesis by simp
qed

lemma load_Resolved:
  "snd (load cv rnd ns pr (Resolved rs) co2v glt (st, d)) =
     d\<lparr>loading := False, error := [],
       data := map (\<lambda>ir. live_row cv rnd pr (snd ir) (snd (glt (fst ir))))
                 (settling_order glt (normalizeRoads rs (segmentsNum d))),
       predictions := load_preds cv rnd glt (settling_order glt (normalizeRoads rs (segmentsNum d)))
                        Map.empty,
       co2Value := (case fetchCO2ForCity cv rnd co2v of Inl e \<Rightarrow> None | Inr v \<Rightarrow> v)\<rparr>"
  by (simp add: load_def load_async_def load_try_def try_finally_def try_catch_def ended_def
      fetchCO2ForCity_def Let_def split: sum.split)

lemma load_Rejected:
  "snd (load cv rnd ns pr (Rejected e) co2v glt (st, d)) =
     d\<lparr>loading := False, error := ''Failed to fetch road data or live traffic.'',
       data := [], predictions := Map.empty, co2Value := None\<rparr>"
  by (simp add: load_def load_async_def load_try_def try_finally_def try_catch_def ended_def)

lemma loadMapData_Rejected:
  "loadMapData_async cv rnd (Rejected e) co2v glt seg m = Inr (m\<lparr>loading := False\<rparr>)"
  by (simp add: loadMapData_async_def loadMapData_try_def try_finally_def try_catch_def)

lemma loadMapData_alerts:
  "alerts (loadMapData cv rnd gr co2v glt seg m) = alerts m"
  by (cases gr)
    (simp_all add: loadMapData_def loadMapData_async_def loadMapData_try_def try_finally_def
      try_catch_def ended_def fetchCO2ForCity_def Let_def split: sum.split)

lemma fetchIndia_local_alerts:
  "fetchIndia_local fi bm rl ca m = Inl (e, (b, m')) \<or> fetchIndia_local fi bm rl ca m = Inr (b, m')
     \<Longrightarrow> alerts m' = alerts m"
  by (auto simp: fetchIndia_local_def split: outcome.splits if_splits sum.splits)

lemma fetchIndia_fallback_alerts:
  "fetchIndia_fallback ff bm rf cb m = Inl (e, m') \<or> fetchIndia_fallback ff bm rf cb m = Inr m'
     \<Longrightarrow> alerts m' = alerts m"
  by (auto simp: fetchIndia_fallback_def split: outcome.splits if_splits sum.splits)

lemma fetchIndia_ends:
  "\<exists>m'. fetchIndia_async fi ff bm rl rf ca cb m = Inr m' \<and> alerts m' = alerts m"
proof -
  obtain b m1 where l: "try_catch (fetchIndia_local fi bm rl ca m) (\<lambda>e s. Inr (False, snd s))
      = Inr (b, m1)" and a1: "alerts m1 = alerts m"
  proof (cases "fetchIndia_local fi bm rl ca m")
    case (Inl x)
    obtain e b m1 where x: "x = (e, (b, m1))" by (cases x) auto
    with Inl fetchIndia_local_alerts [of fi bm rl ca m e b m1] have "alerts m1 = alerts m" by simp
    with Inl x that [of False m1] show ?thesis by (simp add: try_catch_def)
  next
    case (Inr y)
    obtain b m1 where y: "y = (b, m1)" by (cases y) auto
    with Inr fetchIndia_local_alerts [of fi bm rl ca m undefined b m1] have "alerts m1 = alerts m" by simp
    with Inr y that [of b m1] show ?thesis by (simp add: try_catch_def)
  qed
  show ?thesis
  proof (cases b)
    case True
    then show ?thesis using l a1 by (simp add: fetchIndia_async_def)
  next
    case False
    show ?thesis
    proof (cases "fetchIndia_fallback ff bm rf cb m1")
      case (Inl x)
      obtain e m2 where x: "x = (e, m2)" by (cases x) auto
      with Inl fetchIndia_fallback_alerts [of ff bm rf cb m1 e m2] have "alerts m2 = alerts m1" by simp
      then show ?thesis using l a1 False Inl x by (simp add: fetchIndia_async_def try_catch_def)
    next
      case (Inr m2)
      with fetchIndia_fallback_alerts [of ff bm rf cb m1 undefined m2] have "alerts m2 = alerts m1" by simp
      then show ?thesis using l a1 False Inr by (simp add: fetchIndia_async_def try_catch_def)
    qed
  qed
qed

text \<open>
  C4 (as amended). Every error of a request is caught in the page that makes the request:
  each operation of a page comes to its end, whatever its requests give, and
  \<open>fetchCO2ForCity\<close> never throws. Not every error is shown. Shown are: a failed login,
  as the inline text "Wrong username or password"; a failed roads request of \<open>load\<close> in
  Dashboard, as the inline text "Failed to fetch road data or live traffic."; a failed
  roads request or a failed prediction request of \<open>loadPredictive\<close>, as the inline text
  "Failed to load predictive traffic"; a failed request of each of the five operations of
  EmergencyCorridor, as an alert; a failed request of \<open>load\<close> in AirQuality, as the inline
  text of the message of the error, or "Failed to load air quality" when it has none.
  Not shown are: a failed live-traffic request and a failed request of the CO2 value in
  \<open>load\<close> of Dashboard, which leave no error text once the roads have come; and every
  failed request of MapView, which has no text for an error and raises no alert: after a
  failed roads request \<open>loadMapData\<close> leaves the page as it was but for \<open>loading\<close>,
  and after two failed requests \<open>fetchIndia\<close> leaves it as it was.
\<close>

theorem network_errors_caught:
  "caught (go_async ns lu (st, pg))
   \<and> caught (fetchCO2ForCity cv rnd co2v)
   \<and> caught (load_async cv rnd ns pr gr co2v glt (st, d))
   \<and> caught (loadPredictive_async pr ps ov gr pt d)
   \<and> caught (loadMapData_async cv rnd gr co2v glt seg m)
   \<and> caught (fetchIndia_async fi ff bm rl rf ca cb m)
   \<and> caught (geocodeOrigin_async f c)
   \<and> caught (geocodeDestination_async f c)
   \<and> caught (createRequest_async cv f c)
   \<and> caught (updatePosition_async cv rnd ra rb f c)
   \<and> caught (checkStatus_async ns f c)
   \<and> caught (AirQuality_load_async tm ns fx geo air fb a)
   \<and> call (Rejected e) = Inl e \<and> callGet (Rejected e) = Inl e
   \<and> geocodeCity ns fx (Rejected e) = Inl e \<and> fetchAirQuality (Rejected e) = Inl e
   \<and> (lu = Rejected e \<longrightarrow> err (snd (go ns lu (st, pg))) = ''Wrong username or password'')
   \<and> (gr = Rejected e \<longrightarrow>
        error (snd (load cv rnd ns pr gr co2v glt (st, d)))
          = ''Failed to fetch road data or live traffic.'')
   \<and> (gr = Rejected e
        \<or> (\<exists>rs i. gr = Resolved rs \<and> i < length (normalizeRoads rs (segmentsNum d))
              \<and> pt i = Rejected e) \<longrightarrow>
        error (ended (loadPredictive_async pr ps ov gr pt d)) = ''Failed to load predictive traffic'')
   \<and> (callGet f = Inl e \<and> js_trim (originAddress c) \<noteq> [] \<longrightarrow>
        ec_alerts (ended (geocodeOrigin_async f c)) = ec_alerts c @ [''Failed to geocode origin''])
   \<and> (callGet f = Inl e \<and> js_trim (destinationAddress c) \<noteq> [] \<longrightarrow>
        ec_alerts (ended (geocodeDestination_async f c))
          = ec_alerts c @ [''Failed to geocode destination''])
   \<and> (call f = Inl e \<longrightarrow>
        ec_alerts (ended (createRequest_async cv f c))
          = ec_alerts c @ [''Failed to create emergency request''])
   \<and> (call f = Inl e \<and> truthy (requestId c) \<longrightarrow>
        ec_alerts (ended (updatePosition_async cv rnd ra rb f c))
          = ec_alerts c @ [''Failed to update position''])
   \<and> (call f = Inl e \<and> truthy (requestId c) \<longrightarrow>
        ec_alerts (ended (checkStatus_async ns f c)) = ec_alerts c @ [''Failed to fetch status''])
   \<and> ((fb \<or> \<not> truthy (aqData a)) \<and> geocodeCity ns fx geo = Inl e
        \<or> (\<not> fb \<and> truthy (aqData a) \<or> (\<exists>loc. geocodeCity ns fx geo = Inr loc))
           \<and> fetchAirQuality air = Inl e \<longrightarrow>
        aq_error (ended (AirQuality_load_async tm ns fx geo air fb a))
          = (if message tm e \<noteq> [] then message tm e else ''Failed to load air quality''))
   \<and> (gr = Resolved rs \<longrightarrow> error (snd (load cv rnd ns pr gr co2v glt (st, d))) = [])
   \<and> fetchCO2ForCity cv rnd (Rejected e, fair) = Inr None
   \<and> alerts (loadMapData cv rnd gr co2v glt seg m) = alerts m
   \<and> (gr = Rejected e \<longrightarrow> loadMapData cv rnd gr co2v glt seg m = m\<lparr>loading := False\<rparr>)
   \<and> alerts (ended (fetchIndia_async fi ff bm rl rf ca cb m)) = alerts m
   \<and> (rl = Rejected e \<and> rf = Rejected e' \<longrightarrow>
        ended (fetchIndia_async fi ff bm rl rf ca cb m) = m)"
proof -
  have k1: "caught (go_async ns lu (st, pg))"
    by (simp add: caught_def go_async_def go_try_def try_catch_def split: outcome.split)
  have k2: "caught (fetchCO2ForCity cv rnd co2v)"
    by (simp add: caught_def fetchCO2ForCity_def split: sum.split)
  have k3: "caught (load_async cv rnd ns pr gr co2v glt (st, d))"
    by (simp add: caught_def load_async_def load_try_def try_finally_def try_catch_def Let_def
        split: outcome.split sum.split)
  have k4: "caught (loadPredictive_async pr ps ov gr pt d)"
    by (simp add: caught_def loadPredictive_async_def loadPredictive_try_def try_finally_def
        try_catch_def split: outcome.split sum.split prod.split)
  have k5: "caught (loadMapData_async cv rnd gr co2v glt seg m)"
    by (simp add: caught_def loadMapData_async_def loadMapData_try_def try_finally_def
        try_catch_def Let_def split: outcome.split sum.split)
  have k6: "caught (fetchIndia_async fi ff bm rl rf ca cb m)"
    using fetchIndia_ends [of fi ff bm rl rf ca cb m] by (auto simp: caught_def)
  have k7: "caught (geocodeOrigin_async f c)"
    by (simp add: caught_def geocodeOrigin_async_def try_finally_def try_catch_def split: sum.split)
  have k8: "caught (geocodeDestination_async f c)"
    by (simp add: caught_def geocodeDestination_async_def try_finally_def try_catch_def
        split: sum.split)
  have k9: "caught (createRequest_async cv f c)"
    by (simp add: caught_def createRequest_async_def try_finally_def try_catch_def split: sum.split)
  have k10: "caught (updatePosition_async cv rnd ra rb f c)"
    by (simp add: caught_def updatePosition_async_def try_finally_def try_catch_def split: sum.split)
  have k11: "caught (checkStatus_async ns f c)"
    by (simp add: caught_def checkStatus_async_def try_finally_def try_catch_def split: sum.split)
  have k12: "caught (AirQuality_load_async tm ns fx geo air fb a)"
    by (simp add: caught_def AirQuality_load_async_def AirQuality_load_try_def try_finally_def
        try_catch_def split: sum.split)
  have r: "call (Rejected e) = Inl e \<and> callGet (Rejected e) = Inl e
      \<and> geocodeCity ns fx (Rejected e) = Inl e \<and> fetchAirQuality (Rejected e) = Inl e"
    by (simp add: call_def callGet_def geocodeCity_def fetchAirQuality_def)
  have s1: "lu = Rejected e \<longrightarrow> err (snd (go ns lu (st, pg))) = ''Wrong username or password''"
    by (simp add: go_def go_async_def go_try_def try_catch_def ended_def)
  have s2: "gr = Rejected e \<longrightarrow>
        error (snd (load cv rnd ns pr gr co2v glt (st, d)))
          = ''Failed to fetch road data or live traffic.''"
    by (simp add: load_Rejected)
  have s3: "error (ended (loadPredictive_async pr ps ov gr pt d)) = ''Failed to load predictive traffic''"
    if h: "gr = Rejected e
        \<or> (\<exists>rs i. gr = Resolved rs \<and> i < length (normalizeRoads rs (segmentsNum d))
              \<and> pt i = Rejected e)"
  proof -
    let ?d1 = "d\<lparr>loading := True, error := [], data := [], predictions := Map.empty\<rparr>"
    have "\<exists>e'. loadPredictive_try pr ps ov gr pt ?d1 = Inl (e', ?d1)"
      using h
    proof
      assume "gr = Rejected e"
      then show ?thesis by (simp add: loadPredictive_try_def)
    next
      assume "\<exists>rs i. gr = Resolved rs \<and> i < length (normalizeRoads rs (segmentsNum d))
              \<and> pt i = Rejected e"
      then obtain rs i where g: "gr = Resolved rs"
        and i: "i < length (normalizeRoads rs (segmentsNum d))" and p: "pt i = Rejected e"
        by blast
      let ?list = "normalizeRoads rs (segmentsNum d)"
      have "(i, ?list ! i) \<in> set (enumerate 0 ?list)" using i by (rule enumerate_nth_mem)
      from predict_rows_rejected [OF this, of pt e pr ps "([], Map.empty)"] p
      obtain e' where "predict_rows pr ps pt (enumerate 0 ?list) ([], Map.empty) = Inl e'" by auto
      then show ?thesis using g by (simp add: loadPredictive_try_def)
    qed
    then show ?thesis
      by (auto simp: loadPredictive_async_def try_finally_def try_catch_def ended_def)
  qed
  have s4: "callGet f = Inl e \<and> js_trim (originAddress c) \<noteq> [] \<longrightarrow>
        ec_alerts (ended (geocodeOrigin_async f c)) = ec_alerts c @ [''Failed to geocode origin'']"
    by (simp add: geocodeOrigin_async_def try_finally_def try_catch_def ended_def)
  have s5: "callGet f = Inl e \<and> js_trim (destinationAddress c) \<noteq> [] \<longrightarrow>
        ec_alerts (ended (geocodeDestination_async f c))
          = ec_alerts c @ [''Failed to geocode destination'']"
    by (simp add: geocodeDestination_async_def try_finally_def try_catch_def ended_def)
  have s6: "call f = Inl e \<longrightarrow>
        ec_alerts (ended (createRequest_async cv f c))
          = ec_alerts c @ [''Failed to create emergency request'']"
    by (simp add: createRequest_async_def try_finally_def try_catch_def ended_def)
  have s7: "call f = Inl e \<and> truthy (requestId c) \<longrightarrow>
        ec_alerts (ended (updatePosition_async cv rnd ra rb f c))
          = ec_alerts c @ [''Failed to update position'']"
    by (simp add: updatePosition_async_def try_finally_def try_catch_def ended_def)
  have s8: "call f = Inl e \<and> truthy (requestId c) \<longrightarrow>
        ec_alerts (ended (checkStatus_async ns f c)) = ec_alerts c @ [''Failed to fetch status'']"
    by (simp add: checkStatus_async_def try_finally_def try_catch_def ended_def)
  have s9: "(fb \<or> \<not> truthy (aqData a)) \<and> geocodeCity ns fx geo = Inl e
        \<or> (\<not> fb \<and> truthy (aqData a) \<or> (\<exists>loc. geocodeCity ns fx geo = Inr loc))
           \<and> fetchAirQuality air = Inl e \<longrightarrow>
        aq_error (ended (AirQuality_load_async tm ns fx geo air fb a))
          = (if message tm e \<noteq> [] then message tm e else ''Failed to load air quality'')"
    by (auto simp: AirQuality_load_async_def AirQuality_load_try_def try_finally_def try_catch_def
        ended_def)
  have n1: "gr = Resolved rs \<longrightarrow> error (snd (load cv rnd ns pr gr co2v glt (st, d))) = []"
    by (simp add: load_Resolved)
  have n2: "fetchCO2ForCity cv rnd (Rejected e, fair) = Inr None"
    by (simp add: fetchCO2ForCity_def fetchCO2_try_def)
  have n3: "alerts (loadMapData cv rnd gr co2v glt seg m) = alerts m"
    by (rule loadMapData_alerts)
  have n4: "gr = Rejected e \<longrightarrow> loadMapData cv rnd gr co2v glt seg m = m\<lparr>loading := False\<rparr>"
    by (simp add: loadMapData_def loadMapData_Rejected ended_def)
  have n5: "alerts (ended (fetchIndia_async fi ff bm rl rf ca cb m)) = alerts m"
    using fetchIndia_ends [of fi ff bm rl rf ca cb m] by (auto simp: ended_def)
  have n6: "rl = Rejected e \<and> rf = Rejected e' \<longrightarrow>
        ended (fetchIndia_async fi ff bm rl rf ca cb m) = m"
    by (simp add: fetchIndia_async_def fetchIndia_local_def fetchIndia_fallback_def try_catch_def
        ended_def)
  from s3 have s3': "gr = Rejected e
        \<or> (\<exists>rs i. gr = Resolved rs \<and> i < length (normalizeRoads rs (segmentsNum d))
              \<and> pt i = Rejected e) \<longrightarrow>
        error (ended (loadPredictive_async pr ps ov gr pt d)) = ''Failed to load predictive traffic''"
    by blast
  show ?thesis
    apply (intro conjI)
    using k1 k2 k3 k4 k5 k6 k7 k8 k9 k10 k11 k12 r s1 s2 s3' s4 s5 s6 s7 s8 s9 n1 n2 n3 n4 n5 n6
    apply blast+
    done
qed


theorem network_errors_caught_witness:
  "call (Rejected (Error ''Network Error'')) = Inl (Error ''Network Error'')
   \<and> callGet (Rejected (Error ''Network Error'')) = Inl (Error ''Network Error'')
   \<and> js_trim (originAddress EmergencyCorridor_mount) \<noteq> []
   \<and> js_trim (destinationAddress EmergencyCorridor_mount) \<noteq> []
   \<and> truthy (requestId (EmergencyCorridor_mount\<lparr>requestId := Str ''R1''\<rparr>))
   \<and> \<not> truthy (aqData AirQuality_mount)
   \<and> geocodeCity (\<lambda>_. []) (\<lambda>v. v) (Rejected (Error ''Network Error'')) = Inl (Error ''Network Error'')
   \<and> err (snd (go (\<lambda>_. []) (Rejected (Error ''Network Error''))
        (Map.empty, \<lparr>err = [], navigated = None\<rparr>))) = ''Wrong username or password''
   \<and> error (snd (load (\<lambda>_. NaN) Fin (\<lambda>_. []) (\<lambda>s. s) (Rejected (Error ''Network Error''))
        (Rejected (Error ''Network Error''), Rejected (Error ''Network Error''))
        (\<lambda>_. (0, Rejected (Error ''Network Error'')))
        (Map.empty, Dashboard_mount (\<lambda>_. NaN) Map.empty)))
       = ''Failed to fetch road data or live traffic.''
   \<and> error (ended (loadPredictive_async (\<lambda>s. s) (\<lambda>s. s) (map snd) (Rejected (Error ''Network Error''))
        (\<lambda>_. Rejected (Error ''Network Error'')) (Dashboard_mount (\<lambda>_. NaN) Map.empty)))
       = ''Failed to load predictive traffic''
   \<and> ec_alerts (ended (geocodeOrigin_async (Rejected (Error ''Network Error''))
        (EmergencyCorridor_mount\<lparr>requestId := Str ''R1''\<rparr>))) = [''Failed to geocode origin'']
   \<and> ec_alerts (ended (geocodeDestination_async (Rejected (Error ''Network Error''))
        (EmergencyCorridor_mount\<lparr>requestId := Str ''R1''\<rparr>))) = [''Failed to geocode destination'']
   \<and> ec_alerts (ended (createRequest_async (\<lambda>_. NaN) (Rejected (Error ''Network Error''))
        (EmergencyCorridor_mount\<lparr>requestId := Str ''R1''\<rparr>)))
       = [''Failed to create emergency request'']
   \<and> ec_alerts (ended (updatePosition_async (\<lambda>_. NaN) Fin (1 / 4) (3 / 4)
        (Rejected (Error ''Network Error'')) (EmergencyCorridor_mount\<lparr>requestId := Str ''R1''\<rparr>)))
       = [''Failed to update position'']
   \<and> ec_alerts (ended (checkStatus_async (\<lambda>_. []) (Rejected (Error ''Network Error''))
        (EmergencyCorridor_mount\<lparr>requestId := Str ''R1''\<rparr>))) = [''Failed to fetch status'']
   \<and> aq_error (ended (AirQuality_load_async ''Cannot read properties of null'' (\<lambda>_. []) (\<lambda>v. v)
        (Rejected (Error ''Network Error'')) (Rejected (Error ''Network Error'')) False
        AirQuality_mount)) = ''Network Error''
   \<and> loadMapData (\<lambda>_. NaN) Fin (Rejected (Error ''Network Error''))
        (Rejected (Error ''Network Error''), Rejected (Error ''Network Error''))
        (\<lambda>_. (0, Rejected (Error ''Network Error''))) (Fin 5) (MapView_mount (\<lambda>_. NaN) Map.empty)
       = (MapView_mount (\<lambda>_. NaN) Map.empty)\<lparr>loading := False\<rparr>
   \<and> ended (fetchIndia_async (\<lambda>_. Inr Null) (\<lambda>_. Inr Null) (\<lambda>_. Inr Null)
        (Rejected (Error ''Network Error'')) (Rejected (Error ''Network Error'')) False False
        (MapView_mount (\<lambda>_. NaN) Map.empty)) = MapView_mount (\<lambda>_. NaN) Map.empty
   \<and> (0::nat) < length (normalizeRoads
        [\<lparr>rid = ''a'', name = Some ''Main Road'', coordinates = Arr [Arr [Num (Fin 1), Num (Fin 2)]]\<rparr>]
        (segmentsNum (Dashboard_mount (\<lambda>_. NaN) Map.empty)))
   \<and> error (snd (load (\<lambda>_. NaN) Fin (\<lambda>_. []) (\<lambda>s. s)
        (Resolved [\<lparr>rid = ''a'', name = Some ''Main Road'', coordinates = Arr [Arr [Num (Fin 1), Num (Fin 2)]]\<rparr>])
        (Rejected (Error ''Network Error''), Rejected (Error ''Network Error''))
        (\<lambda>_. (0, Rejected (Error ''Network Error'')))
        (Map.empty, Dashboard_mount (\<lambda>_. NaN) Map.empty))) = []
   \<and> error (ended (loadPredictive_async (\<lambda>s. s) (\<lambda>s. s) (map snd)
        (Resolved [\<lparr>rid = ''a'', name = Some ''Main Road'', coordinates = Arr [Arr [Num (Fin 1), Num (Fin 2)]]\<rparr>])
        (\<lambda>_. Rejected (Error ''Network Error'')) (Dashboard_mount (\<lambda>_. NaN) Map.empty)))
       = ''Failed to load predictive traffic''
   \<and> geocodeCity (\<lambda>_. []) (\<lambda>v. v)
        (Resolved \<lparr>res_ok = True, res_text = Resolved [],
           res_json = Resolved (Obj [(''results'', Arr [Obj [(''latitude'', Num (Fin 19)),
             (''longitude'', Num (Fin 73)), (''name'', Str ''Mumbai''), (''country'', Str ''India'')]])])\<rparr>)
       = Inr [(''lat'', Num (Fin 19)), (''lon'', Num (Fin 73)), (''label'', Str ''Mumbai, India'')]
   \<and> fetchAirQuality (Rejected (Error ''Network Error'')) = Inl (Error ''Network Error'')
   \<and> aq_error (ended (AirQuality_load_async ''Cannot read properties of null'' (\<lambda>_. []) (\<lambda>v. v)
        (Resolved \<lparr>res_ok = True, res_text = Resolved [],
           res_json = Resolved (Obj [(''results'', Arr [Obj [(''latitude'', Num (Fin 19)),
             (''longitude'', Num (Fin 73)), (''name'', Str ''Mumbai''), (''country'', Str ''India'')]])])\<rparr>)
        (Rejected (Error ''Network Error'')) True AirQuality_mount)) = ''Network Error''"
proof -
  let ?E = "Error ''Network Error''"
  let ?A = "\<lparr>rid = ''a'', name = Some ''Main Road'', coordinates = Arr [Arr [Num (Fin 1), Num (Fin 2)]]\<rparr>"
  let ?G = "\<lparr>res_ok = True, res_text = Resolved [],
           res_json = Resolved (Obj [(''results'', Arr [Obj [(''latitude'', Num (Fin 19)),
             (''longitude'', Num (Fin 73)), (''name'', Str ''Mumbai''), (''country'', Str ''India'')]])])\<rparr>"
  let ?d = "Dashboard_mount (\<lambda>_. NaN) Map.empty"
  have h: "js_trim (originAddress EmergencyCorridor_mount) \<noteq> []"
    "js_trim (destinationAddress EmergencyCorridor_mount) \<noteq> []"
    "truthy (requestId (EmergencyCorridor_mount\<lparr>requestId := Str ''R1''\<rparr>))"
    "\<not> truthy (aqData AirQuality_mount)"
    "ec_alerts (EmergencyCorridor_mount\<lparr>requestId := Str ''R1''\<rparr>) = []"
    by (simp_all add: EmergencyCorridor_mount_def AirQuality_mount_def js_trim_addresses)
  have o: "originAddress (EmergencyCorridor_mount\<lparr>requestId := Str ''R1''\<rparr>)
        = originAddress EmergencyCorridor_mount"
    "destinationAddress (EmergencyCorridor_mount\<lparr>requestId := Str ''R1''\<rparr>)
        = destinationAddress EmergencyCorridor_mount"
    by simp_all
  note th = network_errors_caught [where ns = "\<lambda>_. []" and cv = "\<lambda>_. NaN" and rnd = Fin
      and pr = "\<lambda>s. s" and ps = "\<lambda>s. s" and ov = "map snd"
      and tm = "''Cannot read properties of null''" and fx = "\<lambda>v. v"
      and fi = "\<lambda>_. Inr Null" and ff = "\<lambda>_. Inr Null" and bm = "\<lambda>_. Inr Null"
      and lu = "Rejected ?E" and gr = "Rejected ?E" and co2v = "(Rejected ?E, Rejected ?E)"
      and glt = "\<lambda>_. (0, Rejected ?E)" and pt = "\<lambda>_. Rejected ?E"
      and rl = "Rejected ?E" and rf = "Rejected ?E"
      and ca = False and cb = False and f = "Rejected ?E"
      and geo = "Rejected ?E" and air = "Rejected ?E"
      and fb = False and st = Map.empty and pg = "\<lparr>err = [], navigated = None\<rparr>"
      and d = ?d and m = "MapView_mount (\<lambda>_. NaN) Map.empty"
      and seg = "Fin 5" and c = "EmergencyCorridor_mount\<lparr>requestId := Str ''R1''\<rparr>"
      and a = AirQuality_mount and ra = "1 / 4" and rb = "3 / 4"
      and e = ?E and e' = ?E and rs = "[]" and fair = "Rejected ?E"]
  note th2 = network_errors_caught [where ns = "\<lambda>_. []" and cv = "\<lambda>_. NaN" and rnd = Fin
      and pr = "\<lambda>s. s" and ps = "\<lambda>s. s" and ov = "map snd"
      and tm = "''Cannot read properties of null''" and fx = "\<lambda>v. v"
      and fi = "\<lambda>_. Inr Null" and ff = "\<lambda>_. Inr Null" and bm = "\<lambda>_. Inr Null"
      and lu = "Rejected ?E" and gr = "Resolved [?A]" and co2v = "(Rejected ?E, Rejected ?E)"
      and glt = "\<lambda>_. (0, Rejected ?E)" and pt = "\<lambda>_. Rejected ?E"
      and rl = "Rejected ?E" and rf = "Rejected ?E"
      and ca = False and cb = False and f = "Rejected ?E"
      and geo = "Resolved ?G" and air = "Rejected ?E"
      and fb = True and st = Map.empty and pg = "\<lparr>err = [], navigated = None\<rparr>"
      and d = ?d and m = "MapView_mount (\<lambda>_. NaN) Map.empty"
      and seg = "Fin 5" and c = "EmergencyCorridor_mount\<lparr>requestId := Str ''R1''\<rparr>"
      and a = AirQuality_mount and ra = "1 / 4" and rb = "3 / 4"
      and e = ?E and e' = ?E and rs = "[?A]" and fair = "Rejected ?E"]
  have nA: "normalizeRoads [?A] (Fin 5) = [?A]"
    by (simp add: normalizeRoads_def valid_road_def is_unnamed_def js_trim_names starts_unnamed_def
        to_lower_def byLengthDesc_key_def js_slice0_def js_trunc_def Let_def)
  have s5: "segmentsNum ?d = Fin 5"
    by (simp add: Dashboard_mount_def init_number_def)
  have len: "(0::nat) < length (normalizeRoads [?A] (segmentsNum ?d))"
    unfolding s5 nA by simp
  have gc: "geocodeCity (\<lambda>_. []) (\<lambda>v. v) (Resolved ?G)
       = Inr [(''lat'', Num (Fin 19)), (''lon'', Num (Fin 73)), (''label'', Str ''Mumbai, India'')]"
    by (simp add: geocodeCity_def length_is_zero_def String_js_def Let_def)
  have fa: "fetchAirQuality (Rejected ?E) = Inl ?E"
    by (simp add: fetchAirQuality_def)
  from th h have p1: "call (Rejected ?E) = Inl ?E
   \<and> callGet (Rejected ?E) = Inl ?E
   \<and> js_trim (originAddress EmergencyCorridor_mount) \<noteq> []
   \<and> js_trim (destinationAddress EmergencyCorridor_mount) \<noteq> []
   \<and> truthy (requestId (EmergencyCorridor_mount\<lparr>requestId := Str ''R1''\<rparr>))
   \<and> \<not> truthy (aqData AirQuality_mount)
   \<and> geocodeCity (\<lambda>_. []) (\<lambda>v. v) (Rejected ?E) = Inl ?E
   \<and> err (snd (go (\<lambda>_. []) (Rejected ?E)
        (Map.empty, \<lparr>err = [], navigated = None\<rparr>))) = ''Wrong username or password''
   \<and> error (snd (load (\<lambda>_. NaN) Fin (\<lambda>_. []) (\<lambda>s. s) (Rejected ?E) (Rejected ?E, Rejected ?E)
        (\<lambda>_. (0, Rejected ?E)) (Map.empty, ?d)))
       = ''Failed to fetch road data or live traffic.''
   \<and> error (ended (loadPredictive_async (\<lambda>s. s) (\<lambda>s. s) (map snd) (Rejected ?E)
        (\<lambda>_. Rejected ?E) ?d))
       = ''Failed to load predictive traffic''
   \<and> ec_alerts (ended (geocodeOrigin_async (Rejected ?E)
        (EmergencyCorridor_mount\<lparr>requestId := Str ''R1''\<rparr>))) = [''Failed to geocode origin'']
   \<and> ec_alerts (ended (geocodeDestination_async (Rejected ?E)
        (EmergencyCorridor_mount\<lparr>requestId := Str ''R1''\<rparr>))) = [''Failed to geocode destination'']
   \<and> ec_alerts (ended (createRequest_async (\<lambda>_. NaN) (Rejected ?E)
        (EmergencyCorridor_mount\<lparr>requestId := Str ''R1''\<rparr>)))
       = [''Failed to create emergency request'']
   \<and> ec_alerts (ended (updatePosition_async (\<lambda>_. NaN) Fin (1 / 4) (3 / 4)
        (Rejected ?E) (EmergencyCorridor_mount\<lparr>requestId := Str ''R1''\<rparr>)))
       = [''Failed to update position'']
   \<and> ec_alerts (ended (checkStatus_async (\<lambda>_. []) (Rejected ?E)
        (EmergencyCorridor_mount\<lparr>requestId := Str ''R1''\<rparr>))) = [''Failed to fetch status'']
   \<and> aq_error (ended (AirQuality_load_async ''Cannot read properties of null'' (\<lambda>_. []) (\<lambda>v. v)
        (Rejected ?E) (Rejected ?E) False AirQuality_mount)) = ''Network Error''
   \<and> loadMapData (\<lambda>_. NaN) Fin (Rejected ?E) (Rejected ?E, Rejected ?E)
        (\<lambda>_. (0, Rejected ?E)) (Fin 5) (MapView_mount (\<lambda>_. NaN) Map.empty)
       = (MapView_mount (\<lambda>_. NaN) Map.empty)\<lparr>loading := False\<rparr>
   \<and> ended (fetchIndia_async (\<lambda>_. Inr Null) (\<lambda>_. Inr Null) (\<lambda>_. Inr Null)
        (Rejected ?E) (Rejected ?E) False False
        (MapView_mount (\<lambda>_. NaN) Map.empty)) = MapView_mount (\<lambda>_. NaN) Map.empty"
    unfolding o by (simp add: message_def)
  from th2 have q1: "error (snd (load (\<lambda>_. NaN) Fin (\<lambda>_. []) (\<lambda>s. s) (Resolved [?A])
        (Rejected ?E, Rejected ?E) (\<lambda>_. (0, Rejected ?E)) (Map.empty, ?d))) = []"
    by blast
  have "\<exists>rs i. Resolved [?A] = Resolved rs \<and> i < length (normalizeRoads rs (segmentsNum ?d))
      \<and> (\<lambda>_::nat. Rejected ?E :: jsval outcome) i = Rejected ?E"
    using len by blast
  with th2 have q2: "error (ended (loadPredictive_async (\<lambda>s. s) (\<lambda>s. s) (map snd) (Resolved [?A])
        (\<lambda>_. Rejected ?E) ?d)) = ''Failed to load predictive traffic''"
    by blast
  from th2 gc fa have "aq_error (ended (AirQuality_load_async ''Cannot read properties of null''
        (\<lambda>_. []) (\<lambda>v. v) (Resolved ?G) (Rejected ?E) True AirQuality_mount))
      = (if message ''Cannot read properties of null'' ?E \<noteq> []
         then message ''Cannot read properties of null'' ?E else ''Failed to load air quality'')"
    by blast
  then have q3: "aq_error (ended (AirQuality_load_async ''Cannot read properties of null''
        (\<lambda>_. []) (\<lambda>v. v) (Resolved ?G) (Rejected ?E) True AirQuality_mount)) = ''Network Error''"
    by (simp add: message_def)
  show ?thesis
    using p1 len q1 q2 gc fa q3
    apply (elim conjE)
    apply (intro conjI)
    apply assumption+
    done
qed

text \<open>
  As first stated, C4 fails in MapView: the roads request fails, and the page is as on
  its mount but for \<open>loading\<close>; no alert, and the page has no error text to show.
\<close>

theorem loadMapData_silent_counterexample:
  "loadMapData (\<lambda>_. NaN) Fin (Rejected (Error ''Network Error''))
      (Rejected (Error ''Network Error''), Rejected (Error ''Network Error''))
      (\<lambda>_. (0, Rejected (Error ''Network Error''))) (Fin 5) (MapView_mount (\<lambda>_. NaN) Map.empty)
     = (MapView_mount (\<lambda>_. NaN) Map.empty)\<lparr>loading := False\<rparr>
   \<and> alerts (loadMapData (\<lambda>_. NaN) Fin (Rejected (Error ''Network Error''))
      (Rejected (Error ''Network Error''), Rejected (Error ''Network Error''))
      (\<lambda>_. (0, Rejected (Error ''Network Error''))) (Fin 5) (MapView_mount (\<lambda>_. NaN) Map.empty)) = []"
  by (simp add: loadMapData_def loadMapData_async_def loadMapData_try_def try_finally_def
      try_catch_def ended_def MapView_mount_def)

lemma loadMapData_Resolved:
  assumes "\<not> (normalizeRoads rs seg \<noteq> []
             \<and> nullish (get_idx (coordinates (normalizeRoads rs seg ! 0)) 0))"
  shows "mv_severity (loadMapData cv rnd (Resolved rs) co2v glt seg m)
           = load_severities cv rnd glt (settling_order glt (take 40 (normalizeRoads rs seg))) Map.empty
         \<and> \<not> loading (loadMapData cv rnd (Resolved rs) co2v glt seg m)"
  using assms
  by (auto simp: loadMapData_def loadMapData_async_def loadMapData_try_def try_finally_def
      try_catch_def ended_def fetchCO2ForCity_def Let_def split: sum.split)

lemma settling_order_rejected:
  assumes "\<forall>j < length xs. rid (xs ! j) = k \<longrightarrow> (\<exists>e. snd (glt j) = Rejected e)"
  shows "\<forall>ir \<in> set (settling_order glt xs). rid (snd ir) = k \<longrightarrow> (\<exists>e. snd (glt (fst ir)) = Rejected e)"
  using assms by (auto simp: set_settling_order in_set_enumerate_eq)

lemma settling_order_ids:
  "(\<lambda>ir. rid (snd ir)) ` set (settling_order glt xs) = rid ` set xs"
proof -
  have "(\<lambda>ir. rid (snd ir)) ` set (settling_order glt xs) = rid ` snd ` set (enumerate 0 xs)"
    by (simp add: set_settling_order image_image)
  also have "snd ` set (enumerate 0 xs) = set xs" by (metis map_snd_enumerate set_map)
  finally show ?thesis .
qed

text \<open>
  C5 (as amended). There is a recovery from partial failure. In \<open>load\<close> of Dashboard
  every road of the list gets one row, whatever the order in which the requests settle:
  the road whose live-traffic request failed gets the row of the \<open>catch\<close>, with the
  count 0 and the coordinates 0, the others get theirs; a road all of whose requests
  failed has the prediction 0; and the operation ends with no error text and \<open>loading\<close>
  off. In \<open>loadMapData\<close> of MapView (when the first road has a first coordinate to
  centre on) every road shown gets a severity, and it is 0 for a road whose requests
  failed.
\<close>

theorem live_traffic_failure_recovered:
  fixes cv :: "jsval \<Rightarrow> jsnum" and rnd :: "rat \<Rightarrow> jsnum" and ns :: "jsval \<Rightarrow> string"
    and pr :: "string \<Rightarrow> string" and rs :: "road list"
    and co2v :: "response outcome \<times> response outcome"
    and glt :: "nat \<Rightarrow> nat \<times> jsval outcome" and st :: storage and d :: dashboard and m :: mapview
    and seg :: jsnum
  defines "list \<equiv> normalizeRoads rs (segmentsNum d)"
    and "d' \<equiv> snd (load cv rnd ns pr (Resolved rs) co2v glt (st, d))"
    and "shown \<equiv> take 40 (normalizeRoads rs seg)"
    and "m' \<equiv> loadMapData cv rnd (Resolved rs) co2v glt seg m"
  shows "mset (data d')
       = mset (map (\<lambda>i. live_row cv rnd pr (list ! i) (snd (glt i))) [0..<length list])
     \<and> (\<forall>i e. i < length list \<and> snd (glt i) = Rejected e \<longrightarrow>
          Obj [(''segment'', Str (rid (list ! i))),
               (''name'', Str (pr (name_or_id (list ! i)))),
               (''time'', Str ''Now''),
               (''vehicle_count'', Num (Fin 0)),
               (''lat'', Num (Fin 0)),
               (''lon'', Num (Fin 0)),
               (''rawName'', Str (name_or_id (list ! i)))] \<in> set (data d'))
     \<and> (\<forall>i. i < length list
            \<and> (\<forall>j < length list. rid (list ! j) = rid (list ! i) \<longrightarrow> (\<exists>e. snd (glt j) = Rejected e))
          \<longrightarrow> predictions d' (rid (list ! i)) = Some (Num (Fin 0)))
     \<and> error d' = [] \<and> \<not> loading d'
     \<and> (\<not> (shown \<noteq> [] \<and> nullish (get_idx (coordinates (shown ! 0)) 0)) \<longrightarrow>
          dom (mv_severity m') = rid ` set shown
        \<and> (\<forall>i < length shown.
              (\<forall>j < length shown. rid (shown ! j) = rid (shown ! i) \<longrightarrow> (\<exists>e. snd (glt j) = Rejected e))
              \<longrightarrow> mv_severity m' (rid (shown ! i)) = Some (Num (Fin 0)))
        \<and> \<not> loading m')"
proof -
  have dat: "data d' = map (\<lambda>ir. live_row cv rnd pr (snd ir) (snd (glt (fst ir))))
                 (settling_order glt list)"
    and prd: "predictions d' = load_preds cv rnd glt (settling_order glt list) Map.empty"
    and b: "error d' = [] \<and> \<not> loading d'"
    by (simp_all add: d'_def list_def load_Resolved)
  have a: "mset (data d')
       = mset (map (\<lambda>i. live_row cv rnd pr (list ! i) (snd (glt i))) [0..<length list])"
    unfolding dat
    by (rule mset_settling_order [of "\<lambda>r i. live_row cv rnd pr r (snd (glt i))" glt list])
  have r: "Obj [(''segment'', Str (rid (list ! i))),
               (''name'', Str (pr (name_or_id (list ! i)))),
               (''time'', Str ''Now''),
               (''vehicle_count'', Num (Fin 0)),
               (''lat'', Num (Fin 0)),
               (''lon'', Num (Fin 0)),
               (''rawName'', Str (name_or_id (list ! i)))] \<in> set (data d')"
    if "i < length list" "snd (glt i) = Rejected e" for i e
  proof -
    have "(i, list ! i) \<in> set (settling_order glt list)"
      using that(1) by (simp add: set_settling_order enumerate_nth_mem)
    then have "live_row cv rnd pr (list ! i) (snd (glt i)) \<in> set (data d')"
      unfolding dat by force
    then show ?thesis using that(2) by (simp add: live_row_def)
  qed
  have p: "predictions d' (rid (list ! i)) = Some (Num (Fin 0))"
    if "i < length list"
      "\<forall>j < length list. rid (list ! j) = rid (list ! i) \<longrightarrow> (\<exists>e. snd (glt j) = Rejected e)" for i
  proof -
    have "rid (list ! i) \<in> (\<lambda>ir. rid (snd ir)) ` set (settling_order glt list)"
      using that(1) by (simp add: settling_order_ids)
    then show ?thesis
      unfolding prd using settling_order_rejected [OF that(2)]
      by (intro load_preds_rejected) auto
  qed
  have e: "dom (mv_severity m') = rid ` set shown
        \<and> (\<forall>i < length shown.
              (\<forall>j < length shown. rid (shown ! j) = rid (shown ! i) \<longrightarrow> (\<exists>e. snd (glt j) = Rejected e))
              \<longrightarrow> mv_severity m' (rid (shown ! i)) = Some (Num (Fin 0)))
        \<and> \<not> loading m'"
    if ok: "\<not> (shown \<noteq> [] \<and> nullish (get_idx (coordinates (shown ! 0)) 0))"
  proof -
    let ?list = "normalizeRoads rs seg"
    have "?list \<noteq> [] \<Longrightarrow> shown \<noteq> [] \<and> shown ! 0 = ?list ! 0"
      by (cases ?list) (simp_all add: shown_def)
    with ok have ok': "\<not> (?list \<noteq> [] \<and> nullish (get_idx (coordinates (?list ! 0)) 0))" by auto
    from loadMapData_Resolved [OF ok', of cv rnd co2v glt m]
    have sev: "mv_severity m' = load_severities cv rnd glt (settling_order glt shown) Map.empty"
      and l: "\<not> loading m'"
      by (simp_all add: m'_def shown_def)
    have "dom (mv_severity m') = rid ` set shown"
      unfolding sev by (simp add: load_severities_dom settling_order_ids)
    moreover have "mv_severity m' (rid (shown ! i)) = Some (Num (Fin 0))"
      if "i < length shown"
        "\<forall>j < length shown. rid (shown ! j) = rid (shown ! i) \<longrightarrow> (\<exists>e. snd (glt j) = Rejected e)"
      for i
    proof -
      have "rid (shown ! i) \<in> (\<lambda>ir. rid (snd ir)) ` set (settling_order glt shown)"
        using that(1) by (simp add: settling_order_ids)
      then show ?thesis
        unfolding sev using settling_order_rejected [OF that(2)]
        by (intro load_severities_rejected) auto
    qed
    ultimately show ?thesis using l by blast
  qed
  from a r p b e show ?thesis by blast
qed


theorem live_traffic_failure_recovered_witness:
  "(0::nat) < length (normalizeRoads
        [\<lparr>rid = ''a'', name = Some ''Main Road'', coordinates = Arr [Arr [Num (Fin 1), Num (Fin 2)]]\<rparr>,
         \<lparr>rid = ''b'', name = None, coordinates = Arr [Arr [Num (Fin 3), Num (Fin 4)]]\<rparr>]
        (segmentsNum (Dashboard_mount (\<lambda>_. NaN) Map.empty)))
   \<and> snd ((\<lambda>i. if i = 0 then (1::nat, Rejected (Error ''Network Error''))
                 else (0, Resolved (Obj [(''data'', Obj [(''severity'', Num (Fin 40))])]))) (0::nat))
       = Rejected (Error ''Network Error'')
   \<and> \<not> (take 40 (normalizeRoads
        [\<lparr>rid = ''a'', name = Some ''Main Road'', coordinates = Arr [Arr [Num (Fin 1), Num (Fin 2)]]\<rparr>,
         \<lparr>rid = ''b'', name = None, coordinates = Arr [Arr [Num (Fin 3), Num (Fin 4)]]\<rparr>] (Fin 5)) \<noteq> []
       \<and> nullish (get_idx (coordinates (take 40 (normalizeRoads
        [\<lparr>rid = ''a'', name = Some ''Main Road'', coordinates = Arr [Arr [Num (Fin 1), Num (Fin 2)]]\<rparr>,
         \<lparr>rid = ''b'', name = None, coordinates = Arr [Arr [Num (Fin 3), Num (Fin 4)]]\<rparr>] (Fin 5)) ! 0)) 0))
   \<and> Obj [(''segment'', Str ''a''), (''name'', Str ''Main Road''), (''time'', Str ''Now''),
           (''vehicle_count'', Num (Fin 0)), (''lat'', Num (Fin 0)), (''lon'', Num (Fin 0)),
           (''rawName'', Str ''Main Road'')]
       \<in> set (data (snd (load (\<lambda>_. NaN) Fin (\<lambda>_. []) (\<lambda>s. s)
            (Resolved [\<lparr>rid = ''a'', name = Some ''Main Road'', coordinates = Arr [Arr [Num (Fin 1), Num (Fin 2)]]\<rparr>,
                       \<lparr>rid = ''b'', name = None, coordinates = Arr [Arr [Num (Fin 3), Num (Fin 4)]]\<rparr>])
            (Rejected (Error ''Failed to fetch''), Rejected (Error ''Failed to fetch''))
            (\<lambda>i. if i = 0 then (1, Rejected (Error ''Network Error''))
                  else (0, Resolved (Obj [(''data'', Obj [(''severity'', Num (Fin 40))])])))
            (Map.empty, Dashboard_mount (\<lambda>_. NaN) Map.empty))))
   \<and> mset (data (snd (load (\<lambda>_. NaN) Fin (\<lambda>_. []) (\<lambda>s. s)
            (Resolved [\<lparr>rid = ''a'', name = Some ''Main Road'', coordinates = Arr [Arr [Num (Fin 1), Num (Fin 2)]]\<rparr>,
                       \<lparr>rid = ''b'', name = None, coordinates = Arr [Arr [Num (Fin 3), Num (Fin 4)]]\<rparr>])
            (Rejected (Error ''Failed to fetch''), Rejected (Error ''Failed to fetch''))
            (\<lambda>i. if i = 0 then (1, Rejected (Error ''Network Error''))
                  else (0, Resolved (Obj [(''data'', Obj [(''severity'', Num (Fin 40))])])))
            (Map.empty, Dashboard_mount (\<lambda>_. NaN) Map.empty))))
       = {#Obj [(''segment'', Str ''a''), (''name'', Str ''Main Road''), (''time'', Str ''Now''),
                (''vehicle_count'', Num (Fin 0)), (''lat'', Num (Fin 0)), (''lon'', Num (Fin 0)),
                (''rawName'', Str ''Main Road'')],
          Obj [(''segment'', Str ''b''), (''name'', Str ''b''), (''time'', Str ''Now''),
                (''vehicle_count'', Num (Fin 40)), (''lat'', Num (Fin 3)), (''lon'', Num (Fin 4)),
                (''rawName'', Str ''b'')]#}
   \<and> predictions (snd (load (\<lambda>_. NaN) Fin (\<lambda>_. []) (\<lambda>s. s)
            (Resolved [\<lparr>rid = ''a'', name = Some ''Main Road'', coordinates = Arr [Arr [Num (Fin 1), Num (Fin 2)]]\<rparr>,
                       \<lparr>rid = ''b'', name = None, coordinates = Arr [Arr [Num (Fin 3), Num (Fin 4)]]\<rparr>])
            (Rejected (Error ''Failed to fetch''), Rejected (Error ''Failed to fetch''))
            (\<lambda>i. if i = 0 then (1, Rejected (Error ''Network Error''))
                  else (0, Resolved (Obj [(''data'', Obj [(''severity'', Num (Fin 40))])])))
            (Map.empty, Dashboard_mount (\<lambda>_. NaN) Map.empty))) ''a'' = Some (Num (Fin 0))
   \<and> mv_severity (loadMapData (\<lambda>_. NaN) Fin
            (Resolved [\<lparr>rid = ''a'', name = Some ''Main Road'', coordinates = Arr [Arr [Num (Fin 1), Num (Fin 2)]]\<rparr>,
                       \<lparr>rid = ''b'', name = None, coordinates = Arr [Arr [Num (Fin 3), Num (Fin 4)]]\<rparr>])
            (Rejected (Error ''Failed to fetch''), Rejected (Error ''Failed to fetch''))
            (\<lambda>i. if i = 0 then (1, Rejected (Error ''Network Error''))
                  else (0, Resolved (Obj [(''data'', Obj [(''severity'', Num (Fin 40))])])))
            (Fin 5) (MapView_mount (\<lambda>_. NaN) Map.empty)) ''a'' = Some (Num (Fin 0))"
proof -
  let ?A = "\<lparr>rid = ''a'', name = Some ''Main Road'', coordinates = Arr [Arr [Num (Fin 1), Num (Fin 2)]]\<rparr>"
  let ?B = "\<lparr>rid = ''b'', name = None, coordinates = Arr [Arr [Num (Fin 3), Num (Fin 4)]]\<rparr>"
  let ?glt = "\<lambda>i::nat. if i = 0 then (1::nat, Rejected (Error ''Network Error''))
                  else (0, Resolved (Obj [(''data'', Obj [(''severity'', Num (Fin 40))])]))"
  let ?co = "(Rejected (Error ''Failed to fetch''), Rejected (Error ''Failed to fetch''))"
  let ?d = "Dashboard_mount (\<lambda>_. NaN) Map.empty"
  let ?d' = "snd (load (\<lambda>_. NaN) Fin (\<lambda>_. []) (\<lambda>s. s) (Resolved [?A, ?B]) ?co ?glt (Map.empty, ?d))"
  let ?m' = "loadMapData (\<lambda>_. NaN) Fin (Resolved [?A, ?B]) ?co ?glt (Fin 5) (MapView_mount (\<lambda>_. NaN) Map.empty)"
  let ?L = "normalizeRoads [?A, ?B] (segmentsNum ?d)"
  let ?S = "take 40 (normalizeRoads [?A, ?B] (Fin 5))"
  have n5: "normalizeRoads [?A, ?B] (Fin 5) = [?A, ?B]"
    by (simp add: normalizeRoads_def valid_road_def is_unnamed_def js_trim_names starts_unnamed_def
        to_lower_def byLengthDesc_key_def js_slice0_def js_trunc_def Let_def)
  have s5: "segmentsNum ?d = Fin 5"
    by (simp add: Dashboard_mount_def init_number_def)
  have L: "?L = [?A, ?B]" unfolding s5 by (rule n5)
  have S: "?S = [?A, ?B]" unfolding n5 by simp
  note th = live_traffic_failure_recovered [where cv = "\<lambda>_. NaN" and rnd = Fin and ns = "\<lambda>_. []"
      and pr = "\<lambda>s. s" and rs = "[?A, ?B]" and co2v = ?co and glt = ?glt and st = Map.empty
      and d = ?d and m = "MapView_mount (\<lambda>_. NaN) Map.empty" and seg = "Fin 5"]
  have len: "(0::nat) < length ?L" unfolding L by simp
  have rej: "snd (?glt 0) = Rejected (Error ''Network Error'')" by simp
  have ok: "\<not> (?S \<noteq> [] \<and> nullish (get_idx (coordinates (?S ! 0)) 0))"
    unfolding S by simp
  have uL: "\<forall>j < length ?L. rid (?L ! j) = rid (?L ! 0) \<longrightarrow> (\<exists>e. snd (?glt j) = Rejected e)"
    unfolding L by (auto simp: nth_Cons split: nat.splits)
  have uS: "\<forall>j < length ?S. rid (?S ! j) = rid (?S ! 0) \<longrightarrow> (\<exists>e. snd (?glt j) = Rejected e)"
    unfolding S by (auto simp: nth_Cons split: nat.splits)
  have lenS: "(0::nat) < length ?S" unfolding S by simp
  from th len rej
  have "Obj [(''segment'', Str (rid (?L ! 0))), (''name'', Str (name_or_id (?L ! 0))),
             (''time'', Str ''Now''), (''vehicle_count'', Num (Fin 0)), (''lat'', Num (Fin 0)),
             (''lon'', Num (Fin 0)), (''rawName'', Str (name_or_id (?L ! 0)))] \<in> set (data ?d')"
    by blast
  then have c1: "Obj [(''segment'', Str ''a''), (''name'', Str ''Main Road''), (''time'', Str ''Now''),
           (''vehicle_count'', Num (Fin 0)), (''lat'', Num (Fin 0)), (''lon'', Num (Fin 0)),
           (''rawName'', Str ''Main Road'')] \<in> set (data ?d')"
    unfolding L by (simp add: name_or_id_def)
  from th
  have "mset (data ?d') = mset (map (\<lambda>i. live_row (\<lambda>_. NaN) Fin (\<lambda>s. s) (?L ! i) (snd (?glt i)))
            [0..<length ?L])"
    by blast
  then have c2: "mset (data ?d')
       = {#Obj [(''segment'', Str ''a''), (''name'', Str ''Main Road''), (''time'', Str ''Now''),
                (''vehicle_count'', Num (Fin 0)), (''lat'', Num (Fin 0)), (''lon'', Num (Fin 0)),
                (''rawName'', Str ''Main Road'')],
          Obj [(''segment'', Str ''b''), (''name'', Str ''b''), (''time'', Str ''Now''),
                (''vehicle_count'', Num (Fin 40)), (''lat'', Num (Fin 3)), (''lon'', Num (Fin 4)),
                (''rawName'', Str ''b'')]#}"
    unfolding L
    by (simp add: live_row_def live_value_def name_or_id_def mid_point_def js_or_def
        computeSeverity_def severity_value_def)
  from th len uL have "predictions ?d' (rid (?L ! 0)) = Some (Num (Fin 0))" by blast
  then have c3: "predictions ?d' ''a'' = Some (Num (Fin 0))" unfolding L by simp
  from th ok lenS uS have "mv_severity ?m' (rid (?S ! 0)) = Some (Num (Fin 0))" by blast
  then have c4: "mv_severity ?m' ''a'' = Some (Num (Fin 0))" unfolding S by simp
  show ?thesis
    using len rej ok c1 c2 c3 c4 by (intro conjI) assumption+
qed

text \<open>
  As first stated (no default is put in the place of a failed road), C5 fails: of two
  roads the request of the first fails, after the request of the second has come back,
  and \<open>load\<close> ends with the row of count 40 for the second road, then a row of count 0
  for the first, and with no error text.
\<close>

theorem live_traffic_default_counterexample:
  "snd ((\<lambda>i. if i = 0 then (1::nat, Rejected (Error ''Network Error''))
              else (0, Resolved (Obj [(''data'', Obj [(''severity'', Num (Fin 40))])]))) (0::nat))
     = Rejected (Error ''Network Error'')
   \<and> data (snd (load (\<lambda>_. NaN) Fin (\<lambda>_. []) (\<lambda>s. s)
        (Resolved [\<lparr>rid = ''a'', name = Some ''Main Road'', coordinates = Arr [Arr [Num (Fin 1), Num (Fin 2)]]\<rparr>,
                   \<lparr>rid = ''b'', name = None, coordinates = Arr [Arr [Num (Fin 3), Num (Fin 4)]]\<rparr>])
        (Rejected (Error ''Failed to fetch''), Rejected (Error ''Failed to fetch''))
        (\<lambda>i. if i = 0 then (1, Rejected (Error ''Network Error''))
              else (0, Resolved (Obj [(''data'', Obj [(''severity'', Num (Fin 40))])])))
        (Map.empty, Dashboard_mount (\<lambda>_. NaN) Map.empty)))
     = [Obj [(''segment'', Str ''b''), (''name'', Str ''b''), (''time'', Str ''Now''),
             (''vehicle_count'', Num (Fin 40)), (''lat'', Num (Fin 3)), (''lon'', Num (Fin 4)),
             (''rawName'', Str ''b'')],
        Obj [(''segment'', Str ''a''), (''name'', Str ''Main Road''), (''time'', Str ''Now''),
             (''vehicle_count'', Num (Fin 0)), (''lat'', Num (Fin 0)), (''lon'', Num (Fin 0)),
             (''rawName'', Str ''Main Road'')]]
   \<and> error (snd (load (\<lambda>_. NaN) Fin (\<lambda>_. []) (\<lambda>s. s)
        (Resolved [\<lparr>rid = ''a'', name = Some ''Main Road'', coordinates = Arr [Arr [Num (Fin 1), Num (Fin 2)]]\<rparr>,
                   \<lparr>rid = ''b'', name = None, coordinates = Arr [Arr [Num (Fin 3), Num (Fin 4)]]\<rparr>])
        (Rejected (Error ''Failed to fetch''), Rejected (Error ''Failed to fetch''))
        (\<lambda>i. if i = 0 then (1, Rejected (Error ''Network Error''))
              else (0, Resolved (Obj [(''data'', Obj [(''severity'', Num (Fin 40))])])))
        (Map.empty, Dashboard_mount (\<lambda>_. NaN) Map.empty))) = []"
proof -
  let ?A = "\<lparr>rid = ''a'', name = Some ''Main Road'', coordinates = Arr [Arr [Num (Fin 1), Num (Fin 2)]]\<rparr>"
  let ?B = "\<lparr>rid = ''b'', name = None, coordinates = Arr [Arr [Num (Fin 3), Num (Fin 4)]]\<rparr>"
  have n5: "normalizeRoads [?A, ?B] (Fin 5) = [?A, ?B]"
    by (simp add: normalizeRoads_def valid_road_def is_unnamed_def js_trim_names starts_unnamed_def
        to_lower_def byLengthDesc_key_def js_slice0_def js_trunc_def Let_def)
  have s5: "segmentsNum (Dashboard_mount (\<lambda>_. NaN) Map.empty) = Fin 5"
    by (simp add: Dashboard_mount_def init_number_def)
  show ?thesis
    unfolding load_Resolved s5 n5
    by (simp add: settling_order_def live_row_def live_value_def name_or_id_def mid_point_def
        js_or_def computeSeverity_def severity_value_def)
qed

subsection \<open>Keys of the browser storage\<close>

text \<open>
  C6 (as amended). The keys of \<open>localStorage\<close> that the pages write are the three
  preference keys \<open>trafficCity\<close>, \<open>trafficSegments\<close> and \<open>trafficTimeSteps\<close>, written
  by \<open>load\<close> of Dashboard and \<open>handleSearch\<close> of MapView, and the key \<open>md_jwt\<close> of the
  token, written by \<open>go\<close> of Login when the login succeeds: each of the three operations
  leaves every other key as it was.
\<close>

theorem storage_keys_written:
  "(\<forall>k. k \<notin> {''trafficCity'', ''trafficSegments'', ''trafficTimeSteps''} \<longrightarrow>
        fst (load cv rnd ns pr gr co2v glt (st, d)) k = st k)
   \<and> (\<forall>k. k \<notin> {''trafficCity'', ''trafficSegments'', ''trafficTimeSteps''} \<longrightarrow>
        fst (handleSearch cv rnd ns gr co2v glt (st, m)) k = st k)
   \<and> (\<forall>k. k \<noteq> ''md_jwt'' \<longrightarrow> fst (go ns lu (st, pg)) k = st k)
   \<and> (\<not> nullish r \<and> \<not> nullish (get_prop r ''data'') \<longrightarrow>
        fst (go ns (Resolved r) (st, pg)) ''md_jwt''
          = Some (String_js ns (get_prop (get_prop r ''data'') ''access_token'')))
   \<and> {''trafficCity'', ''trafficSegments'', ''trafficTimeSteps''}
        \<subseteq> dom (fst (load cv rnd ns pr gr co2v glt (st, d)))
   \<and> {''trafficCity'', ''trafficSegments'', ''trafficTimeSteps''}
        \<subseteq> dom (fst (handleSearch cv rnd ns gr co2v glt (st, m)))"
proof -
  have l: "fst (load cv rnd ns pr gr co2v glt (st, d))
      = save_preferences ns (city d) (segmentsNum d) (timeSteps d) st"
    by (rule fst_load)
  have h: "fst (handleSearch cv rnd ns gr co2v glt (st, m))
      = save_preferences ns (city m) (segmentsNum m) (timeSteps m) st"
    by (simp add: handleSearch_def)
  have g: "\<forall>k. k \<noteq> ''md_jwt'' \<longrightarrow> fst (go ns lu (st, pg)) k = st k"
    by (cases lu) (simp_all add: go_def go_async_def go_try_def try_catch_def ended_def)
  have g2: "\<not> nullish r \<and> \<not> nullish (get_prop r ''data'') \<longrightarrow>
        fst (go ns (Resolved r) (st, pg)) ''md_jwt''
          = Some (String_js ns (get_prop (get_prop r ''data'') ''access_token''))"
    by (simp add: go_def go_async_def go_try_def try_catch_def ended_def)
  show ?thesis unfolding l h using g g2 by (simp add: save_preferences_def)
qed

theorem storage_keys_written_witness:
  "''md_jwt'' \<notin> {''trafficCity'', ''trafficSegments'', ''trafficTimeSteps''}
   \<and> fst (load (\<lambda>_. NaN) Fin (\<lambda>_. []) (\<lambda>s. s) (Rejected (Error ''Network Error''))
        (Rejected (Error ''Failed to fetch''), Rejected (Error ''Failed to fetch''))
        (\<lambda>_. (0, Rejected (Error ''Network Error'')))
        (Map.empty(''md_jwt'' \<mapsto> ''jwt''), (Dashboard_mount (\<lambda>_. NaN) Map.empty))) ''md_jwt'' = Some ''jwt''
   \<and> fst (handleSearch (\<lambda>_. NaN) Fin (\<lambda>_. []) (Rejected (Error ''Network Error''))
        (Rejected (Error ''Failed to fetch''), Rejected (Error ''Failed to fetch''))
        (\<lambda>_. (0, Rejected (Error ''Network Error'')))
        (Map.empty(''md_jwt'' \<mapsto> ''jwt''), (MapView_mount (\<lambda>_. NaN) Map.empty))) ''md_jwt'' = Some ''jwt''
   \<and> ''trafficCity'' \<noteq> ''md_jwt''
   \<and> fst (go (\<lambda>_. []) (Rejected (Error ''Network Error'')) (Map.empty(''trafficCity'' \<mapsto> ''Pune''), \<lparr>err = [], navigated = None\<rparr>))
        ''trafficCity'' = Some ''Pune''
   \<and> \<not> nullish (Obj [(''data'', Obj [(''access_token'', Str ''jwt'')])])
   \<and> \<not> nullish (get_prop (Obj [(''data'', Obj [(''access_token'', Str ''jwt'')])]) ''data'')
   \<and> fst (go (\<lambda>_. []) (Resolved (Obj [(''data'', Obj [(''access_token'', Str ''jwt'')])]))
        (Map.empty, \<lparr>err = [], navigated = None\<rparr>)) ''md_jwt'' = Some ''jwt''"
  using storage_keys_written [where cv = "\<lambda>_. NaN" and rnd = Fin and ns = "\<lambda>_. []" and pr = "\<lambda>s. s"
      and gr = "Rejected (Error ''Network Error'')"
      and co2v = "(Rejected (Error ''Failed to fetch''), Rejected (Error ''Failed to fetch''))"
      and glt = "\<lambda>_. (0, Rejected (Error ''Network Error''))"
      and st = "Map.empty(''md_jwt'' \<mapsto> ''jwt'')" and d = "Dashboard_mount (\<lambda>_. NaN) Map.empty"
      and m = "MapView_mount (\<lambda>_. NaN) Map.empty" and lu = "Rejected (Error ''Network Error'')"
      and pg = "\<lparr>err = [], navigated = None\<rparr>"
      and r = "Obj [(''data'', Obj [(''access_token'', Str ''jwt'')])]"]
    storage_keys_written [where cv = "\<lambda>_. NaN" and rnd = Fin and ns = "\<lambda>_. []" and pr = "\<lambda>s. s"
      and gr = "Rejected (Error ''Network Error'')"
      and co2v = "(Rejected (Error ''Failed to fetch''), Rejected (Error ''Failed to fetch''))"
      and glt = "\<lambda>_. (0, Rejected (Error ''Network Error''))"
      and st = "Map.empty(''trafficCity'' \<mapsto> ''Pune'')" and d = "Dashboard_mount (\<lambda>_. NaN) Map.empty"
      and m = "MapView_mount (\<lambda>_. NaN) Map.empty" and lu = "Rejected (Error ''Network Error'')"
      and pg = "\<lparr>err = [], navigated = None\<rparr>"
      and r = "Obj [(''data'', Obj [(''access_token'', Str ''jwt'')])]"]
    storage_keys_written [where cv = "\<lambda>_. NaN" and rnd = Fin and ns = "\<lambda>_. []" and pr = "\<lambda>s. s"
      and gr = "Rejected (Error ''Network Error'')"
      and co2v = "(Rejected (Error ''Failed to fetch''), Rejected (Error ''Failed to fetch''))"
      and glt = "\<lambda>_. (0, Rejected (Error ''Network Error''))"
      and st = "Map.empty" and d = "Dashboard_mount (\<lambda>_. NaN) Map.empty"
      and m = "MapView_mount (\<lambda>_. NaN) Map.empty" and lu = "Rejected (Error ''Network Error'')"
      and pg = "\<lparr>err = [], navigated = None\<rparr>"
      and r = "Obj [(''data'', Obj [(''access_token'', Str ''jwt'')])]"]
  by (simp add: String_js_def)

text \<open>
  As first stated, with the three preference keys only, C6 fails: a successful login
  writes the token under \<open>md_jwt\<close>.
\<close>

theorem login_token_counterexample:
  "fst (go (\<lambda>_. []) (Resolved (Obj [(''data'', Obj [(''access_token'', Str ''jwt'')])]))
         (Map.empty, \<lparr>err = [], navigated = None\<rparr>)) ''md_jwt'' = Some ''jwt''
   \<and> Map.empty ''md_jwt'' = (None :: string option)
   \<and> ''md_jwt'' \<notin> {''trafficCity'', ''trafficSegments'', ''trafficTimeSteps''}"
  by (simp add: go_def go_async_def go_try_def try_catch_def ended_def String_js_def)

end
